theory Spec2Isabelle
  imports Complex_Main
begin

section \<open>Batch normalization (chainerx/routines/normalization.cc)\<close>

text \<open>
  A shallow embedding of the batch-normalization routines of ChainerX:
  \<^verbatim>\<open>PreprocessBatchNorm\<close>, \<^verbatim>\<open>ApplyBatchNorm\<close>, the generic forward, backward and
  fixed forward operators, and the entry points \<^verbatim>\<open>BatchNorm\<close> and \<^verbatim>\<open>FixedBatchNorm\<close>.

  The array container, its elementwise and reduction routines and the dtype promotion
  live in other files of the library. Their shape and dtype behaviour is modelled here
  from the specification; the arithmetic on single elements (the backend's kernels) is a
  parameter of the model, so that the theorems stated for a backend \<open>K\<close> hold for whatever
  floating-point arithmetic the backend implements. The statements about signed zeros,
  infinities and NaN, and the worked examples, use the backend \<open>ieee_exact\<close>, which follows
  the IEEE 754 rules on special values and computes exactly on finite ones.
\<close>

subsection \<open>Dtypes and errors\<close>

text \<open>
  Modelled from the spec: the dtypes (chainerx/dtype.h) are missing. The dtypes of the
  library, their kinds and their item sizes in bytes; the routines of this file accept
  arrays of floating kind only.
\<close>

datatype Dtype = kBool | kInt8 | kInt16 | kInt32 | kInt64 | kUInt8 | kFloat16 | kFloat32 | kFloat64

datatype DtypeKind = KindBool | KindInt | KindUInt | KindFloat

fun GetKind :: "Dtype \<Rightarrow> DtypeKind" where
  "GetKind kBool = KindBool"
| "GetKind kInt8 = KindInt"
| "GetKind kInt16 = KindInt"
| "GetKind kInt32 = KindInt"
| "GetKind kInt64 = KindInt"
| "GetKind kUInt8 = KindUInt"
| "GetKind kFloat16 = KindFloat"
| "GetKind kFloat32 = KindFloat"
| "GetKind kFloat64 = KindFloat"

fun GetItemSize :: "Dtype \<Rightarrow> nat" where
  "GetItemSize kBool = 1"
| "GetItemSize kInt8 = 1"
| "GetItemSize kInt16 = 2"
| "GetItemSize kInt32 = 4"
| "GetItemSize kInt64 = 8"
| "GetItemSize kUInt8 = 1"
| "GetItemSize kFloat16 = 2"
| "GetItemSize kFloat32 = 4"
| "GetItemSize kFloat64 = 8"

text \<open>
  The exceptions of the routines. \<open>AxisError\<close> is the specification's name for a rejected
  axis selection; \<open>AssertionError\<close> stands for a failed \<^verbatim>\<open>CHAINERX_ASSERT\<close> and
  \<open>ArithmeticError\<close> for an integer division by zero.
\<close>

datatype error = DtypeError | DimensionError | AxisError | AssertionError | ArithmeticError

text \<open>Sequencing of fallible steps: the first exception ends the computation.\<close>

definition bind_err :: "error + 'a \<Rightarrow> ('a \<Rightarrow> error + 'b) \<Rightarrow> error + 'b" where
  "bind_err m f = (case m of Inl e \<Rightarrow> Inl e | Inr v \<Rightarrow> f v)"

subsection \<open>Arrays\<close>

text \<open>
  Modelled from the spec: the array container (chainerx/array.h) is missing. An array is
  its dtype, its shape and its elements in row-major order. The device is left out (one
  device), and so are strides: a view made by \<^verbatim>\<open>Reshape\<close> has the same element list as
  the array it was made from. In a well-formed array the number of elements is the
  product of the extents.
\<close>

record 'v Array =
  dtype :: Dtype
  shape :: "nat list"
  data :: "'v list"

definition GetTotalSize :: "'v Array \<Rightarrow> nat" where
  "GetTotalSize a = prod_list (shape a)"

definition ndim :: "'v Array \<Rightarrow> nat" where
  "ndim a = length (shape a)"

definition wf_array :: "'v Array \<Rightarrow> bool" where
  "wf_array a \<longleftrightarrow> length (data a) = prod_list (shape a)"

text \<open>
  Modelled from the spec: \<^verbatim>\<open>internal::GetSortedAxes\<close> (chainerx/axes.h) is missing.
  Negative indices are resolved against the rank, the indices must be in range and
  unique (axis error otherwise), and the result is sorted ascending.
\<close>

definition NormalizeAxis :: "int \<Rightarrow> nat \<Rightarrow> error + nat" where
  "NormalizeAxis a n =
     (if a < - int n \<or> int n \<le> a then Inl AxisError
      else Inr (nat (if a < 0 then a + int n else a)))"

fun NormalizeAxes :: "int list \<Rightarrow> nat \<Rightarrow> error + nat list" where
  "NormalizeAxes [] n = Inr []"
| "NormalizeAxes (a # as) n =
     bind_err (NormalizeAxis a n) (\<lambda>a'.
     bind_err (NormalizeAxes as n) (\<lambda>as'. Inr (a' # as')))"

definition GetSortedAxes :: "int list \<Rightarrow> nat \<Rightarrow> error + nat list" where
  "GetSortedAxes axis n =
     bind_err (NormalizeAxes axis n) (\<lambda>as.
       if distinct as then Inr (sort as) else Inl AxisError)"

text \<open>
  Modelled from the spec: \<^verbatim>\<open>internal::ReduceShape\<close> with \<^verbatim>\<open>keepdims = true\<close> is missing.
  The reduced shape is the input shape with each selected axis replaced by extent 1.
\<close>

definition ReduceShape :: "nat list \<Rightarrow> nat list \<Rightarrow> nat list" where
  "ReduceShape s axes = map (\<lambda>i. if i \<in> set axes then 1 else s ! i) [0..<length s]"

text \<open>
  Modelled from the spec: \<^verbatim>\<open>Array::Reshape\<close> is missing. It keeps the elements and
  needs the same total size (dimension error otherwise).
\<close>

definition Reshape :: "'v Array \<Rightarrow> nat list \<Rightarrow> error + 'v Array" where
  "Reshape a s =
     (if prod_list s = GetTotalSize a then Inr (a\<lparr>shape := s\<rparr>) else Inl DimensionError)"

subsection \<open>Preprocessing\<close>

text \<open>The struct \<^verbatim>\<open>PreprocessBatchNormResult\<close>; its fields carry the prefix \<open>res_\<close>.\<close>

record 'v PreprocessBatchNormResult =
  res_gamma :: "'v Array"
  res_beta :: "'v Array"
  res_mean :: "'v Array"
  res_var :: "'v Array"
  res_sorted_axis :: "nat list"

definition ReshapeOrIdentity :: "'v Array \<Rightarrow> nat list \<Rightarrow> error + 'v Array" where
  "ReshapeOrIdentity a s = (if shape a = s then Inr a else Reshape a s)"

definition CheckBatchNormSupportedKind :: "'v Array \<Rightarrow> error + unit" where
  "CheckBatchNormSupportedKind array =
     (if GetKind (dtype array) \<noteq> KindFloat then Inl DtypeError else Inr ())"

text \<open>
  The assertions after the four reshapes compare data pointers; in this model a reshaped
  array always has the element list of its source, so they are not branches.
\<close>

definition PreprocessBatchNorm ::
  "'v Array \<Rightarrow> 'v Array \<Rightarrow> 'v Array \<Rightarrow> 'v Array \<Rightarrow> 'v Array \<Rightarrow> int list option
     \<Rightarrow> error + 'v PreprocessBatchNormResult" where
  "PreprocessBatchNorm x gamma beta mean var axis =
     bind_err (CheckBatchNormSupportedKind x) (\<lambda>_.
     bind_err (CheckBatchNormSupportedKind gamma) (\<lambda>_.
     bind_err (CheckBatchNormSupportedKind beta) (\<lambda>_.
     bind_err (CheckBatchNormSupportedKind mean) (\<lambda>_.
     bind_err (CheckBatchNormSupportedKind var) (\<lambda>_.
     bind_err (case axis of Some a \<Rightarrow> GetSortedAxes a (ndim x) | None \<Rightarrow> Inr [0]) (\<lambda>sorted_axis.
       let reduced_shape = ReduceShape (shape x) sorted_axis;
           reduced_size = prod_list reduced_shape
       in if GetTotalSize gamma \<noteq> reduced_size then Inl DimensionError
          else if GetTotalSize beta \<noteq> reduced_size then Inl DimensionError
          else if GetTotalSize mean \<noteq> reduced_size then Inl DimensionError
          else if GetTotalSize var \<noteq> reduced_size then Inl DimensionError
          else
            bind_err (ReshapeOrIdentity gamma reduced_shape) (\<lambda>gamma_reshaped.
            bind_err (ReshapeOrIdentity beta reduced_shape) (\<lambda>beta_reshaped.
            bind_err (ReshapeOrIdentity mean reduced_shape) (\<lambda>mean_reshaped.
            bind_err (ReshapeOrIdentity var reduced_shape) (\<lambda>var_reshaped.
              Inr \<lparr>res_gamma = gamma_reshaped, res_beta = beta_reshaped,
                   res_mean = mean_reshaped, res_var = var_reshaped,
                   res_sorted_axis = sorted_axis\<rparr>))))))))))"

subsection \<open>The backend's kernels and the array routines\<close>

text \<open>
  The kernels of the backend are missing and are taken as a parameter of the model. The
  arithmetic on one element is given for each dtype: \<open>k_add d\<close> is the
  addition the backend performs on two elements of dtype \<open>d\<close>, \<open>k_cast d d'\<close> the
  conversion (\<^verbatim>\<open>static_cast\<close>) from \<open>d\<close> to \<open>d'\<close>, \<open>k_lit d n\<close> the integer \<open>n\<close>
  converted to \<open>d\<close>, and \<open>k_sum d\<close>, \<open>k_mean d\<close>, \<open>k_var d\<close> what the reductions
  \<^verbatim>\<open>Sum\<close>, \<^verbatim>\<open>Mean\<close> and \<^verbatim>\<open>Var\<close> (population variance) make of the elements of one
  reduced cell, given in row-major order. \<open>k_uninit d\<close> is the content of freshly
  allocated memory. Arithmetic on C++ \<^verbatim>\<open>double\<close> values is that of \<open>kFloat64\<close>.
\<close>

record 'v kernels =
  k_add :: "Dtype \<Rightarrow> 'v \<Rightarrow> 'v \<Rightarrow> 'v"
  k_sub :: "Dtype \<Rightarrow> 'v \<Rightarrow> 'v \<Rightarrow> 'v"
  k_mul :: "Dtype \<Rightarrow> 'v \<Rightarrow> 'v \<Rightarrow> 'v"
  k_div :: "Dtype \<Rightarrow> 'v \<Rightarrow> 'v \<Rightarrow> 'v"
  k_neg :: "Dtype \<Rightarrow> 'v \<Rightarrow> 'v"
  k_sqrt :: "Dtype \<Rightarrow> 'v \<Rightarrow> 'v"
  k_cast :: "Dtype \<Rightarrow> Dtype \<Rightarrow> 'v \<Rightarrow> 'v"
  k_lit :: "Dtype \<Rightarrow> int \<Rightarrow> 'v"
  k_sum :: "Dtype \<Rightarrow> 'v list \<Rightarrow> 'v"
  k_mean :: "Dtype \<Rightarrow> 'v list \<Rightarrow> 'v"
  k_var :: "Dtype \<Rightarrow> 'v list \<Rightarrow> 'v"
  k_uninit :: "Dtype \<Rightarrow> 'v"

text \<open>
  Modelled from the spec: \<^verbatim>\<open>Scalar\<close> (chainerx/scalar.h) is missing. A scalar of floating
  kind holds a \<^verbatim>\<open>double\<close>; \<open>eps\<close> and \<open>decay\<close> are such scalars. An array routine that
  takes a scalar converts it to the array's dtype.
\<close>

type_synonym 'v Scalar = 'v

definition scalar_as :: "'v kernels \<Rightarrow> Dtype \<Rightarrow> 'v Scalar \<Rightarrow> 'v" where
  "scalar_as K d s = k_cast K kFloat64 d s"

text \<open>
  Modelled from the spec: the elementwise routines with broadcasting are missing.
  Row-major positions: \<open>unravel s k\<close> is the multi-index of the flat position \<open>k\<close> in an
  array of shape \<open>s\<close>, \<open>ravel s idx\<close> the flat position of a multi-index.
\<close>

fun unravel :: "nat list \<Rightarrow> nat \<Rightarrow> nat list" where
  "unravel [] k = []"
| "unravel (e # es) k = (k div prod_list es) # unravel es (k mod prod_list es)"

fun ravel :: "nat list \<Rightarrow> nat list \<Rightarrow> nat" where
  "ravel (e # es) (i # idx) = i * prod_list es + ravel es idx"
| "ravel _ _ = 0"

text \<open>
  Broadcasting: shapes are aligned at their last axis, the shorter one padded with
  extents 1; two extents are compatible when they are equal or one of them is 1.
\<close>

definition pad_shape :: "nat \<Rightarrow> nat list \<Rightarrow> nat list" where
  "pad_shape n s = replicate (n - length s) 1 @ s"

definition broadcastable :: "nat list \<Rightarrow> nat list \<Rightarrow> bool" where
  "broadcastable s1 s2 =
     (let n = max (length s1) (length s2)
      in list_all2 (\<lambda>a b. a = b \<or> a = 1 \<or> b = 1) (pad_shape n s1) (pad_shape n s2))"

definition broadcast_shape :: "nat list \<Rightarrow> nat list \<Rightarrow> nat list" where
  "broadcast_shape s1 s2 =
     (let n = max (length s1) (length s2)
      in map2 (\<lambda>a b. if a = 1 then b else a) (pad_shape n s1) (pad_shape n s2))"

text \<open>The flat position in an operand of shape \<open>src\<close> that is read for position \<open>k\<close> of
  a result of shape \<open>out\<close>.\<close>

definition src_index :: "nat list \<Rightarrow> nat list \<Rightarrow> nat \<Rightarrow> nat" where
  "src_index out src k =
     (let p = pad_shape (length out) src
      in ravel p (map2 (\<lambda>e i. if e = 1 then 0 else i) p (unravel out k)))"

text \<open>The elementwise combination of two arrays, without its checks.\<close>

definition ewise2 :: "(Dtype \<Rightarrow> 'v \<Rightarrow> 'v \<Rightarrow> 'v) \<Rightarrow> 'v Array \<Rightarrow> 'v Array \<Rightarrow> 'v Array" where
  "ewise2 f a b =
     (let s = broadcast_shape (shape a) (shape b)
      in \<lparr>dtype = dtype a, shape = s,
          data = map (\<lambda>k. f (dtype a) (data a ! src_index s (shape a) k)
                                      (data b ! src_index s (shape b) k))
                     [0..<prod_list s]\<rparr>)"

text \<open>
  Modelled from the spec: the binary routines \<^verbatim>\<open>Add\<close>, \<^verbatim>\<open>Subtract\<close>, \<^verbatim>\<open>Multiply\<close> and
  \<^verbatim>\<open>Divide\<close> behind the operators on arrays are missing. A binary routine wants equal
  dtypes (mixed dtypes are not supported, as the source's comments on \<^verbatim>\<open>IAdd\<close> say;
  every call of this file converts its operands first) and broadcastable shapes.
\<close>

definition BinaryOp :: "(Dtype \<Rightarrow> 'v \<Rightarrow> 'v \<Rightarrow> 'v) \<Rightarrow> 'v Array \<Rightarrow> 'v Array \<Rightarrow> error + 'v Array" where
  "BinaryOp f a b =
     (if dtype a \<noteq> dtype b then Inl DtypeError
      else if \<not> broadcastable (shape a) (shape b) then Inl DimensionError
      else Inr (ewise2 f a b))"

definition Add :: "'v kernels \<Rightarrow> 'v Array \<Rightarrow> 'v Array \<Rightarrow> error + 'v Array" where
  "Add K a b = BinaryOp (k_add K) a b"

definition Subtract :: "'v kernels \<Rightarrow> 'v Array \<Rightarrow> 'v Array \<Rightarrow> error + 'v Array" where
  "Subtract K a b = BinaryOp (k_sub K) a b"

definition Multiply :: "'v kernels \<Rightarrow> 'v Array \<Rightarrow> 'v Array \<Rightarrow> error + 'v Array" where
  "Multiply K a b = BinaryOp (k_mul K) a b"

definition Divide :: "'v kernels \<Rightarrow> 'v Array \<Rightarrow> 'v Array \<Rightarrow> error + 'v Array" where
  "Divide K a b = BinaryOp (k_div K) a b"

text \<open>
  Modelled from the spec: the routines of one array are missing: an array plus or times
  a scalar, \<^verbatim>\<open>Sqrt\<close>, the negation and \<^verbatim>\<open>Reciprocal\<close>, which is 1 divided by the
  element. The result has the dtype and shape of the operand.
\<close>

definition ewise1 :: "(Dtype \<Rightarrow> 'v \<Rightarrow> 'v) \<Rightarrow> 'v Array \<Rightarrow> 'v Array" where
  "ewise1 f a = a\<lparr>data := map (f (dtype a)) (data a)\<rparr>"

definition AddAS :: "'v kernels \<Rightarrow> 'v Array \<Rightarrow> 'v Scalar \<Rightarrow> 'v Array" where
  "AddAS K a s = ewise1 (\<lambda>d v. k_add K d v (scalar_as K d s)) a"

definition MultiplyAS :: "'v kernels \<Rightarrow> 'v Array \<Rightarrow> 'v Scalar \<Rightarrow> 'v Array" where
  "MultiplyAS K a s = ewise1 (\<lambda>d v. k_mul K d v (scalar_as K d s)) a"

definition Sqrt :: "'v kernels \<Rightarrow> 'v Array \<Rightarrow> 'v Array" where
  "Sqrt K a = ewise1 (k_sqrt K) a"

definition Negative :: "'v kernels \<Rightarrow> 'v Array \<Rightarrow> 'v Array" where
  "Negative K a = ewise1 (k_neg K) a"

definition Reciprocal :: "'v kernels \<Rightarrow> 'v Array \<Rightarrow> 'v Array" where
  "Reciprocal K a = ewise1 (\<lambda>d v. k_div K d (k_lit K d 1) v) a"

text \<open>
  Modelled from the spec: the dtype conversions are missing.
  \<^verbatim>\<open>Array::AsType(dtype, copy)\<close> gives the same elements when the dtype is already the
  wanted one (a copy has the same elements), converted elements otherwise.
  \<^verbatim>\<open>Device::AsType(a, out)\<close> converts every element of \<open>a\<close> into the buffer \<open>out\<close>,
  which has the shape of \<open>a\<close>.
\<close>

definition AsType :: "'v kernels \<Rightarrow> 'v Array \<Rightarrow> Dtype \<Rightarrow> 'v Array" where
  "AsType K a d =
     (if dtype a = d then a
      else a\<lparr>dtype := d, data := map (k_cast K (dtype a) d) (data a)\<rparr>)"

definition cast_into :: "'v kernels \<Rightarrow> 'v Array \<Rightarrow> 'v Array \<Rightarrow> 'v Array" where
  "cast_into K a out = out\<lparr>data := map (k_cast K (dtype a) (dtype out)) (data a)\<rparr>"

definition device_AsType :: "'v kernels \<Rightarrow> 'v Array \<Rightarrow> 'v Array \<Rightarrow> error + 'v Array" where
  "device_AsType K a out =
     (if shape a \<noteq> shape out then Inl AssertionError else Inr (cast_into K a out))"

text \<open>
  Modelled from the spec: the creation routines are missing. \<^verbatim>\<open>Empty\<close> and
  \<^verbatim>\<open>EmptyLike\<close> allocate without initializing, \<^verbatim>\<open>Zeros\<close> fills with zeros.
\<close>

definition Empty :: "'v kernels \<Rightarrow> nat list \<Rightarrow> Dtype \<Rightarrow> 'v Array" where
  "Empty K s d = \<lparr>dtype = d, shape = s, data = replicate (prod_list s) (k_uninit K d)\<rparr>"

definition EmptyLike :: "'v kernels \<Rightarrow> 'v Array \<Rightarrow> 'v Array" where
  "EmptyLike K a = Empty K (shape a) (dtype a)"

definition Zeros :: "'v kernels \<Rightarrow> nat list \<Rightarrow> Dtype \<Rightarrow> 'v Array" where
  "Zeros K s d = \<lparr>dtype = d, shape = s, data = replicate (prod_list s) (k_lit K d 0)\<rparr>"

text \<open>
  Modelled from the spec: the reductions \<^verbatim>\<open>Sum\<close>, \<^verbatim>\<open>Mean\<close> and \<^verbatim>\<open>Var\<close> are missing.
  They reduce over the given axes with \<^verbatim>\<open>keepdims = true\<close>: cell \<open>j\<close> of the result
  collects the elements whose position is broadcast from \<open>j\<close>. The axes must be in range
  and without duplicates (axis error otherwise).
\<close>

definition axes_ok :: "nat list \<Rightarrow> nat \<Rightarrow> bool" where
  "axes_ok axes n \<longleftrightarrow> distinct axes \<and> (\<forall>a \<in> set axes. a < n)"

definition cell_members :: "nat list \<Rightarrow> nat list \<Rightarrow> nat \<Rightarrow> nat list" where
  "cell_members s axes j =
     filter (\<lambda>i. src_index s (ReduceShape s axes) i = j) [0..<prod_list s]"

definition reduce_cells :: "(Dtype \<Rightarrow> 'v list \<Rightarrow> 'v) \<Rightarrow> 'v Array \<Rightarrow> nat list \<Rightarrow> 'v Array" where
  "reduce_cells f a axes =
     (let r = ReduceShape (shape a) axes
      in \<lparr>dtype = dtype a, shape = r,
          data = map (\<lambda>j. f (dtype a) (map (\<lambda>i. data a ! i) (cell_members (shape a) axes j)))
                     [0..<prod_list r]\<rparr>)"

definition Reduction :: "(Dtype \<Rightarrow> 'v list \<Rightarrow> 'v) \<Rightarrow> 'v Array \<Rightarrow> nat list \<Rightarrow> error + 'v Array" where
  "Reduction f a axes =
     (if axes_ok axes (ndim a) then Inr (reduce_cells f a axes) else Inl AxisError)"

definition Sum :: "'v kernels \<Rightarrow> 'v Array \<Rightarrow> nat list \<Rightarrow> error + 'v Array" where
  "Sum K a axes = Reduction (k_sum K) a axes"

definition Mean :: "'v kernels \<Rightarrow> 'v Array \<Rightarrow> nat list \<Rightarrow> error + 'v Array" where
  "Mean K a axes = Reduction (k_mean K) a axes"

definition Var :: "'v kernels \<Rightarrow> 'v Array \<Rightarrow> nat list \<Rightarrow> error + 'v Array" where
  "Var K a axes = Reduction (k_var K) a axes"

text \<open>
  Modelled from the spec: the in-place routines \<^verbatim>\<open>a *= scalar\<close> and \<^verbatim>\<open>a += b\<close> are
  missing. The second wants the dtype of \<open>a\<close> and a shape that broadcasts to the shape
  of \<open>a\<close>.
\<close>

definition IMultiplyAS :: "'v kernels \<Rightarrow> 'v Array \<Rightarrow> 'v Scalar \<Rightarrow> 'v Array" where
  "IMultiplyAS K a s = MultiplyAS K a s"

definition IAdd :: "'v kernels \<Rightarrow> 'v Array \<Rightarrow> 'v Array \<Rightarrow> error + 'v Array" where
  "IAdd K a b =
     (if dtype a \<noteq> dtype b then Inl DtypeError
      else if \<not> (broadcastable (shape a) (shape b) \<and> broadcast_shape (shape a) (shape b) = shape a)
        then Inl DimensionError
      else Inr (ewise2 (k_add K) a b))"

text \<open>
  Modelled from the spec: \<^verbatim>\<open>ResultType\<close> (chainerx/routines/type_util.h) is missing. It
  is the common type of the arrays under the promotion rules: a bool gives way to any
  other dtype, of two dtypes of one kind the wider wins, a float wins over an integer,
  and a signed and an unsigned integer give a signed one wide enough for both.
\<close>

definition PromoteTypes :: "Dtype \<Rightarrow> Dtype \<Rightarrow> Dtype" where
  "PromoteTypes d1 d2 =
     (if GetKind d1 = KindBool then d2
      else if GetKind d2 = KindBool then d1
      else if GetKind d1 = GetKind d2 then (if GetItemSize d2 \<le> GetItemSize d1 then d1 else d2)
      else if GetKind d1 = KindFloat then d1
      else if GetKind d2 = KindFloat then d2
      else if GetKind d1 = KindUInt then (if d2 = kInt8 then kInt16 else d2)
      else (if d1 = kInt8 then kInt16 else d1))"

fun ResultType :: "Dtype list \<Rightarrow> Dtype" where
  "ResultType [] = kBool"
| "ResultType [d] = d"
| "ResultType (d # d' # ds) = ResultType (PromoteTypes d d' # ds)"

subsection \<open>The kernel core\<close>

definition ArrayOrZeros :: "'v kernels \<Rightarrow> 'v Array option \<Rightarrow> 'v Array \<Rightarrow> Dtype \<Rightarrow> 'v Array" where
  "ArrayOrZeros K array zeros_template d =
     (case array of
        Some a \<Rightarrow> (if dtype a = d then a else AsType K a d)
      | None \<Rightarrow> Zeros K (shape zeros_template) d)"

text \<open>
  \<^verbatim>\<open>ApplyBatchNorm\<close> writes the buffer \<open>out\<close> and returns \<open>inv_std\<close>; the model
  returns both. A failed assertion is the error \<open>AssertionError\<close>.
\<close>

definition ApplyBatchNorm ::
  "'v kernels \<Rightarrow> 'v Array \<Rightarrow> 'v Array \<Rightarrow> 'v Array \<Rightarrow> 'v Array \<Rightarrow> 'v Array \<Rightarrow> 'v Scalar
     \<Rightarrow> nat list \<Rightarrow> 'v Array \<Rightarrow> Dtype \<Rightarrow> error + ('v Array \<times> 'v Array)" where
  "ApplyBatchNorm K x gamma beta mean var eps axis out interm_dtype =
     (let reduced_shape = ReduceShape (shape x) axis;
          reduced_total_size = prod_list reduced_shape
      in if shape gamma \<noteq> reduced_shape \<or> shape beta \<noteq> reduced_shape
            \<or> GetTotalSize mean \<noteq> reduced_total_size \<or> GetTotalSize var \<noteq> reduced_total_size
         then Inl AssertionError
         else
           let x_cast = AsType K x interm_dtype;
               gamma_cast = AsType K gamma interm_dtype;
               beta_cast = AsType K beta interm_dtype;
               mean_cast = AsType K mean interm_dtype;
               var_cast = AsType K var interm_dtype;
               inv_std = Reciprocal K (Sqrt K (AddAS K var_cast eps))
           in bind_err (Subtract K x_cast mean_cast) (\<lambda>centred.
              bind_err (Multiply K centred inv_std) (\<lambda>normalized.
              bind_err (Multiply K normalized gamma_cast) (\<lambda>scaled.
              bind_err (Add K scaled beta_cast) (\<lambda>out_cast.
              bind_err (device_AsType K out_cast out) (\<lambda>out'.
                Inr (out', inv_std)))))))"

text \<open>The struct \<^verbatim>\<open>GenericBatchNormState\<close>; its fields carry the prefix \<open>st_\<close>.\<close>

record 'v GenericBatchNormState =
  st_x_mean :: "'v Array"
  st_x_inv_std :: "'v Array"

subsection \<open>The training forward operator\<close>

text \<open>
  The operator mutates \<open>out\<close>, \<open>running_mean\<close>, \<open>running_var\<close> and the state slot. The
  model returns the exception, if one was raised, together with the four buffers as they
  are at that moment. The state slot is an optional shared pointer:
  \<open>None\<close> when no state is requested, \<open>Some None\<close> a requested, still empty slot.
  The buffers are taken not to overlap one another or the inputs.
\<close>

record 'v ForwardBuffers =
  fb_running_mean :: "'v Array"
  fb_running_var :: "'v Array"
  fb_out :: "'v Array"
  fb_state :: "'v GenericBatchNormState option option"

definition try_or :: "error + 'a \<Rightarrow> 's \<Rightarrow> ('a \<Rightarrow> error option \<times> 's) \<Rightarrow> error option \<times> 's" where
  "try_or m s f = (case m of Inl e \<Rightarrow> (Some e, s) | Inr v \<Rightarrow> f v)"

text \<open>\<^verbatim>\<open>x.GetTotalSize() / gamma.GetTotalSize()\<close> on 64-bit integers.\<close>

definition size_quotient :: "'v Array \<Rightarrow> 'v Array \<Rightarrow> error + int" where
  "size_quotient x gamma =
     (if GetTotalSize gamma = 0 then Inl ArithmeticError
      else Inr (int (GetTotalSize x) div int (GetTotalSize gamma)))"

definition GenericBatchNormForwardOp ::
  "'v kernels \<Rightarrow> 'v Array \<Rightarrow> 'v Array \<Rightarrow> 'v Array \<Rightarrow> 'v Array \<Rightarrow> 'v Array \<Rightarrow> 'v Scalar
     \<Rightarrow> 'v Scalar \<Rightarrow> nat list \<Rightarrow> 'v Array \<Rightarrow> 'v GenericBatchNormState option option
     \<Rightarrow> error option \<times> 'v ForwardBuffers" where
  "GenericBatchNormForwardOp K x gamma beta running_mean running_var eps decay axis out state =
     (let bufs0 = \<lparr>fb_running_mean = running_mean, fb_running_var = running_var,
                   fb_out = out, fb_state = state\<rparr>
      in
      try_or (if GetKind (dtype x) = KindFloat \<and> GetKind (dtype gamma) = KindFloat
                 \<and> GetKind (dtype beta) = KindFloat \<and> GetKind (dtype running_mean) = KindFloat
                 \<and> GetKind (dtype running_var) = KindFloat
              then Inr () else Inl AssertionError) bufs0 (\<lambda>_.
      let interm_dtype = ResultType [dtype x, dtype gamma, dtype beta];
          x_cast = (if dtype x = interm_dtype then x else AsType K x interm_dtype)
      in
      try_or (Mean K x_cast axis) bufs0 (\<lambda>x_mean.
      try_or (Var K x_cast axis) bufs0 (\<lambda>x_var.
      try_or (ApplyBatchNorm K x gamma beta x_mean x_var eps axis out interm_dtype) bufs0
        (\<lambda>(out', x_inv_std).
      let bufs1 = bufs0\<lparr>fb_out := out'\<rparr>;
          inv_decay = k_sub K kFloat64 (k_lit K kFloat64 1) decay
      in
      try_or (size_quotient x gamma) bufs1 (\<lambda>n.
      let running_mean1 = IMultiplyAS K running_mean decay;
          bufs2 = bufs1\<lparr>fb_running_mean := running_mean1\<rparr>
      in
      try_or (IAdd K running_mean1
                (AsType K (MultiplyAS K x_mean inv_decay) (dtype running_mean))) bufs2
        (\<lambda>running_mean2.
      let bufs3 = bufs2\<lparr>fb_running_mean := running_mean2\<rparr>;
          running_var1 = IMultiplyAS K running_var decay;
          bufs4 = bufs3\<lparr>fb_running_var := running_var1\<rparr>;
          adjust = k_div K kFloat64 (k_lit K kFloat64 n) (k_lit K kFloat64 (max (n - 1) 1))
      in
      try_or (IAdd K running_var1
                (AsType K (MultiplyAS K x_var (k_mul K kFloat64 inv_decay adjust))
                   (dtype running_var))) bufs4
        (\<lambda>running_var2.
      let bufs5 = bufs4\<lparr>fb_running_var := running_var2\<rparr>
      in (None,
          if state \<noteq> None
          then bufs5\<lparr>fb_state := Some (Some \<lparr>st_x_mean = x_mean, st_x_inv_std = x_inv_std\<rparr>)\<rparr>
          else bufs5)))))))))"

subsection \<open>The first-order backward operator\<close>

text \<open>
  The operator writes the buffers \<open>gx\<close>, \<open>ggamma\<close> and \<open>gbeta\<close>; the model returns the
  exception, if any, and the three buffers. The argument \<open>eps\<close> is unnamed in the source.
\<close>

definition GenericBatchNormBackwardOp ::
  "'v kernels \<Rightarrow> 'v Array \<Rightarrow> 'v Array \<Rightarrow> 'v Array \<Rightarrow> 'v Scalar \<Rightarrow> nat list
     \<Rightarrow> 'v Array \<Rightarrow> 'v Array \<Rightarrow> 'v Array \<Rightarrow> 'v GenericBatchNormState option option
     \<Rightarrow> error option \<times> ('v Array \<times> 'v Array \<times> 'v Array)" where
  "GenericBatchNormBackwardOp K x gamma gout eps axis gx ggamma gbeta state =
     (case state of
        None \<Rightarrow> (Some AssertionError, (gx, ggamma, gbeta))
      | Some None \<Rightarrow> (Some AssertionError, (gx, ggamma, gbeta))
      | Some (Some state_ptr) \<Rightarrow>
          let x_mean = st_x_mean state_ptr;
              x_inv_std = st_x_inv_std state_ptr;
              interm_dtype = dtype x_mean
          in
          try_or (size_quotient x gamma) (gx, ggamma, gbeta) (\<lambda>n.
          let inv_n = k_div K kFloat64 (k_lit K kFloat64 1) (k_lit K kFloat64 n);
              gout_cast = AsType K gout interm_dtype
          in
          try_or (bind_err (Subtract K (AsType K x interm_dtype) x_mean) (\<lambda>centred.
                  Multiply K centred x_inv_std)) (gx, ggamma, gbeta) (\<lambda>x_hat.
          try_or (bind_err (Multiply K gout_cast x_hat) (\<lambda>p. Sum K p axis))
            (gx, ggamma, gbeta) (\<lambda>ggamma_cast.
          try_or (Sum K gout_cast axis) (gx, ggamma, gbeta) (\<lambda>gbeta_cast.
          try_or (bind_err (Multiply K (AsType K gamma interm_dtype) x_inv_std) (\<lambda>coeff.
                  bind_err (Multiply K x_hat ggamma_cast) (\<lambda>t1.
                  bind_err (Add K t1 gbeta_cast) (\<lambda>t2.
                  bind_err (Subtract K gout_cast (MultiplyAS K t2 inv_n)) (\<lambda>t3.
                  Multiply K coeff t3))))) (gx, ggamma, gbeta) (\<lambda>gx_cast.
          try_or (device_AsType K gx_cast gx) (gx, ggamma, gbeta) (\<lambda>gx'.
          try_or (device_AsType K ggamma_cast ggamma) (gx', ggamma, gbeta) (\<lambda>ggamma'.
          try_or (device_AsType K gbeta_cast gbeta) (gx', ggamma', gbeta) (\<lambda>gbeta'.
            (None, (gx', ggamma', gbeta')))))))))))"

subsection \<open>The fixed forward operator\<close>

text \<open>The operator writes \<open>out\<close> only; the value returned by the kernel core is dropped.\<close>

definition GenericFixedBatchNormForwardOp ::
  "'v kernels \<Rightarrow> 'v Array \<Rightarrow> 'v Array \<Rightarrow> 'v Array \<Rightarrow> 'v Array \<Rightarrow> 'v Array \<Rightarrow> 'v Scalar
     \<Rightarrow> nat list \<Rightarrow> 'v Array \<Rightarrow> error + 'v Array" where
  "GenericFixedBatchNormForwardOp K x gamma beta mean var eps axis out =
     (let interm_dtype = ResultType [dtype x, dtype gamma, dtype beta, dtype mean, dtype var]
      in bind_err (ApplyBatchNorm K x gamma beta mean var eps axis out interm_dtype)
           (\<lambda>(out', inv_std). Inr out'))"

subsection \<open>The entry points\<close>

text \<open>
  \<^verbatim>\<open>BatchNorm\<close> returns the output array or raises; it mutates the caller's
  \<open>running_mean\<close> and \<open>running_var\<close> through the reshaped views, which share their
  elements, and it captures a state for the backward closure. The outcome records all
  four. The autograd graph (\<^verbatim>\<open>BackwardBuilder\<close>, retained tokens, gradient stopping) is
  not modelled: the two closures are the functions \<open>BatchNorm_backward\<close> and
  \<open>BatchNorm_double_backward\<close> below, applied to the arrays the graph would hand them.
\<close>

record 'v BatchNormOutcome =
  bn_result :: "error + 'v Array"
  bn_running_mean :: "'v Array"
  bn_running_var :: "'v Array"
  bn_state :: "'v GenericBatchNormState option"

definition BatchNorm ::
  "'v kernels \<Rightarrow> 'v Array \<Rightarrow> 'v Array \<Rightarrow> 'v Array \<Rightarrow> 'v Array \<Rightarrow> 'v Array \<Rightarrow> 'v Scalar
     \<Rightarrow> 'v Scalar \<Rightarrow> int list option \<Rightarrow> 'v BatchNormOutcome" where
  "BatchNorm K x gamma beta running_mean running_var eps decay axis =
     (case PreprocessBatchNorm x gamma beta running_mean running_var axis of
        Inl e \<Rightarrow>
          \<lparr>bn_result = Inl e, bn_running_mean = running_mean, bn_running_var = running_var,
           bn_state = None\<rparr>
      | Inr result \<Rightarrow>
          let gamma_reshaped = res_gamma result;
              beta_reshaped = res_beta result;
              mean_reshaped = res_mean result;
              var_reshaped = res_var result;
              sorted_axis = res_sorted_axis result;
              state = Some None;
              out = EmptyLike K x;
              (exn, bufs) = GenericBatchNormForwardOp K x gamma_reshaped beta_reshaped
                              mean_reshaped var_reshaped eps decay sorted_axis out state
          in \<lparr>bn_result = (case exn of Some e \<Rightarrow> Inl e | None \<Rightarrow> Inr (fb_out bufs)),
              bn_running_mean = running_mean\<lparr>data := data (fb_running_mean bufs)\<rparr>,
              bn_running_var = running_var\<lparr>data := data (fb_running_var bufs)\<rparr>,
              bn_state = (case fb_state bufs of Some (Some st) \<Rightarrow> Some st | _ \<Rightarrow> None)\<rparr>)"

text \<open>The backward closure of \<^verbatim>\<open>BatchNorm\<close>: the three input gradients of \<open>x\<close>,
  \<open>gamma\<close> and \<open>beta\<close>.\<close>

definition BatchNorm_backward ::
  "'v kernels \<Rightarrow> 'v GenericBatchNormState option option \<Rightarrow> 'v Array \<Rightarrow> 'v Array \<Rightarrow> 'v Array
     \<Rightarrow> 'v Scalar \<Rightarrow> nat list \<Rightarrow> nat list \<Rightarrow> Dtype
     \<Rightarrow> error + ('v Array \<times> 'v Array \<times> 'v Array)" where
  "BatchNorm_backward K state x gamma_reshaped gout eps sorted_axis beta_shape beta_dtype =
     (let gx = EmptyLike K x;
          ggamma = EmptyLike K gamma_reshaped;
          gbeta = Empty K beta_shape beta_dtype
      in case GenericBatchNormBackwardOp K x gamma_reshaped gout eps sorted_axis
                gx ggamma gbeta state of
           (Some e, _) \<Rightarrow> Inl e
         | (None, grads) \<Rightarrow> Inr grads)"

text \<open>
  The nested closure (the second-order backward): from the retained inputs \<open>x\<close>,
  \<open>gamma\<close>, \<open>gout\<close>, the optional output gradients and the retained outputs \<open>gx\<close>,
  \<open>ggamma\<close>, the input gradients of \<open>x\<close>, \<open>gamma\<close> and \<open>gout\<close>, in this order.
\<close>

definition cast_if_differs :: "'v kernels \<Rightarrow> 'v Array \<Rightarrow> Dtype \<Rightarrow> 'v Array" where
  "cast_if_differs K a d = (if dtype a \<noteq> d then AsType K a d else a)"

definition BatchNorm_double_backward ::
  "'v kernels \<Rightarrow> 'v Array \<Rightarrow> 'v Array \<Rightarrow> 'v Array \<Rightarrow> 'v Scalar \<Rightarrow> nat list
     \<Rightarrow> 'v Array option \<Rightarrow> 'v Array option \<Rightarrow> 'v Array option \<Rightarrow> 'v Array \<Rightarrow> 'v Array
     \<Rightarrow> error + ('v Array \<times> 'v Array \<times> 'v Array)" where
  "BatchNorm_double_backward K x_retained gamma_reshaped_retained gout_retained eps sorted_axis
       output_grad0 output_grad1 output_grad2 gx_retained ggamma_retained =
     (let interm_dtype =
            ResultType [dtype gout_retained, dtype x_retained, dtype gamma_reshaped_retained];
          x = AsType K x_retained interm_dtype;
          gamma_reshaped = AsType K gamma_reshaped_retained interm_dtype;
          gout = AsType K gout_retained interm_dtype;
          ggx = ArrayOrZeros K output_grad0 x interm_dtype;
          gggamma = ArrayOrZeros K output_grad1 gamma_reshaped interm_dtype;
          ggbeta = ArrayOrZeros K output_grad2 gamma_reshaped interm_dtype
      in
      bind_err (Mean K x sorted_axis) (\<lambda>m.
      bind_err (Var K x sorted_axis) (\<lambda>v.
      let x_mean = AsType K m interm_dtype;
          x_var = AsType K v interm_dtype;
          x_inv_std = AsType K (Reciprocal K (Sqrt K (AddAS K x_var eps))) interm_dtype;
          gx = AsType K gx_retained interm_dtype;
          ggamma = AsType K ggamma_retained interm_dtype
      in
      bind_err (size_quotient x gamma_reshaped) (\<lambda>n.
      let inv_n = k_div K kFloat64 (k_lit K kFloat64 1) (k_lit K kFloat64 n)
      in
      bind_err (bind_err (Multiply K gx ggx) (\<lambda>p. Sum K p sorted_axis)) (\<lambda>r.
      bind_err (Multiply K gamma_reshaped x_inv_std) (\<lambda>coeff.
      let coeff_m = MultiplyAS K coeff inv_n
      in
      bind_err (bind_err (Subtract K x x_mean) (\<lambda>c. Multiply K c x_inv_std)) (\<lambda>x_hat.
      bind_err (bind_err (Multiply K x_hat ggx) (\<lambda>p.
                bind_err (Sum K p sorted_axis) (\<lambda>s.
                bind_err (Multiply K coeff_m s) (\<lambda>t.
                Subtract K gggamma t)))) (\<lambda>gggamma2.
      bind_err (bind_err (Sum K ggx sorted_axis) (\<lambda>s.
                bind_err (Multiply K coeff_m s) (\<lambda>t.
                Subtract K ggbeta t))) (\<lambda>ggbeta2.
      bind_err (bind_err (Multiply K gggamma2 gout) (\<lambda>a.
                bind_err (Multiply K coeff_m ggamma) (\<lambda>b.
                bind_err (Multiply K b ggx) (\<lambda>c.
                Subtract K a c)))) (\<lambda>gx_hat2.
      bind_err (bind_err (Multiply K x_hat gx_hat2) (\<lambda>p.
                bind_err (Sum K p sorted_axis) (\<lambda>s.
                bind_err (Add K r s) (\<lambda>t.
                Multiply K (Negative K x_inv_std) t)))) (\<lambda>gstd2.
      bind_err (bind_err (Sum K gx_hat2 sorted_axis) (\<lambda>s.
                Multiply K (Negative K x_inv_std) s)) (\<lambda>gmean2.
      bind_err (bind_err (Multiply K x_inv_std gx_hat2) (\<lambda>a.
                bind_err (Multiply K x_hat gstd2) (\<lambda>b.
                bind_err (Add K gmean2 b) (\<lambda>c.
                Add K a (MultiplyAS K c inv_n))))) (\<lambda>gx2.
      bind_err (bind_err (Multiply K gggamma2 x_hat) (\<lambda>a.
                bind_err (Add K a ggbeta2) (\<lambda>b.
                bind_err (Multiply K coeff ggx) (\<lambda>c.
                Add K b c)))) (\<lambda>ggout2.
      bind_err (Divide K r gamma_reshaped) (\<lambda>ggamma2.
        Inr (cast_if_differs K gx2 (dtype x_retained),
             cast_if_differs K ggamma2 (dtype gamma_reshaped_retained),
             cast_if_differs K ggout2 (dtype gout_retained)))))))))))))))))"

text \<open>\<^verbatim>\<open>FixedBatchNorm\<close> returns the output array or raises; it mutates nothing.\<close>

definition FixedBatchNorm ::
  "'v kernels \<Rightarrow> 'v Array \<Rightarrow> 'v Array \<Rightarrow> 'v Array \<Rightarrow> 'v Array \<Rightarrow> 'v Array \<Rightarrow> 'v Scalar
     \<Rightarrow> int list option \<Rightarrow> error + 'v Array" where
  "FixedBatchNorm K x gamma beta mean var eps axis =
     bind_err (PreprocessBatchNorm x gamma beta mean var axis) (\<lambda>result.
       let out = EmptyLike K x
       in GenericFixedBatchNormForwardOp K x (res_gamma result) (res_beta result)
            (res_mean result) (res_var result) eps (res_sorted_axis result) out)"

subsection \<open>A concrete backend\<close>

text \<open>
  An instance of the kernels for concrete inputs: floating-point values with the special
  values of IEEE 754 (signed zeros, infinities, NaN) and their arithmetic rules, where a
  finite result is the exact real number, not rounded. On inputs where every
  intermediate result is representable in the dtype at hand (small integers, say) it
  computes what binary floating-point arithmetic with round-to-nearest computes.
  In \<open>Inf s\<close> and \<open>Zero s\<close> the flag \<open>s\<close> is the sign bit; \<open>Num r\<close> is a finite \<open>r \<noteq> 0\<close>.
\<close>

datatype fval = NaN | Inf bool | Zero bool | Num real

definition fin :: "real \<Rightarrow> fval" where
  "fin r = (if r = 0 then Zero False else Num r)"

fun f_neg :: "fval \<Rightarrow> fval" where
  "f_neg NaN = NaN"
| "f_neg (Inf s) = Inf (\<not> s)"
| "f_neg (Zero s) = Zero (\<not> s)"
| "f_neg (Num r) = Num (- r)"

fun f_add :: "fval \<Rightarrow> fval \<Rightarrow> fval" where
  "f_add NaN _ = NaN"
| "f_add _ NaN = NaN"
| "f_add (Inf s) (Inf t) = (if s = t then Inf s else NaN)"
| "f_add (Inf s) _ = Inf s"
| "f_add _ (Inf t) = Inf t"
| "f_add (Zero s) (Zero t) = Zero (s \<and> t)"
| "f_add (Zero s) (Num r) = Num r"
| "f_add (Num r) (Zero t) = Num r"
| "f_add (Num a) (Num b) = fin (a + b)"

definition f_sub :: "fval \<Rightarrow> fval \<Rightarrow> fval" where
  "f_sub a b = f_add a (f_neg b)"

fun f_mul :: "fval \<Rightarrow> fval \<Rightarrow> fval" where
  "f_mul NaN _ = NaN"
| "f_mul _ NaN = NaN"
| "f_mul (Inf s) (Inf t) = Inf (s \<noteq> t)"
| "f_mul (Inf s) (Zero t) = NaN"
| "f_mul (Zero s) (Inf t) = NaN"
| "f_mul (Inf s) (Num r) = Inf (s \<noteq> (r < 0))"
| "f_mul (Num r) (Inf t) = Inf ((r < 0) \<noteq> t)"
| "f_mul (Zero s) (Zero t) = Zero (s \<noteq> t)"
| "f_mul (Zero s) (Num r) = Zero (s \<noteq> (r < 0))"
| "f_mul (Num r) (Zero t) = Zero ((r < 0) \<noteq> t)"
| "f_mul (Num a) (Num b) = fin (a * b)"

fun f_div :: "fval \<Rightarrow> fval \<Rightarrow> fval" where
  "f_div NaN _ = NaN"
| "f_div _ NaN = NaN"
| "f_div (Inf s) (Inf t) = NaN"
| "f_div (Zero s) (Zero t) = NaN"
| "f_div (Inf s) (Zero t) = Inf (s \<noteq> t)"
| "f_div (Inf s) (Num r) = Inf (s \<noteq> (r < 0))"
| "f_div (Zero s) (Inf t) = Zero (s \<noteq> t)"
| "f_div (Zero s) (Num r) = Zero (s \<noteq> (r < 0))"
| "f_div (Num r) (Inf t) = Zero ((r < 0) \<noteq> t)"
| "f_div (Num r) (Zero t) = Inf ((r < 0) \<noteq> t)"
| "f_div (Num a) (Num b) = fin (a / b)"

fun f_sqrt :: "fval \<Rightarrow> fval" where
  "f_sqrt NaN = NaN"
| "f_sqrt (Inf s) = (if s then NaN else Inf False)"
| "f_sqrt (Zero s) = Zero s"
| "f_sqrt (Num r) = (if r < 0 then NaN else Num (sqrt r))"

definition f_sum :: "fval list \<Rightarrow> fval" where
  "f_sum vs = foldl f_add (Zero False) vs"

definition f_mean :: "fval list \<Rightarrow> fval" where
  "f_mean vs = f_div (f_sum vs) (fin (of_nat (length vs)))"

definition f_var :: "fval list \<Rightarrow> fval" where
  "f_var vs = f_mean (map (\<lambda>v. f_mul (f_sub v (f_mean vs)) (f_sub v (f_mean vs))) vs)"

definition ieee_exact :: "fval kernels" where
  "ieee_exact =
     \<lparr>k_add = (\<lambda>d. f_add), k_sub = (\<lambda>d. f_sub), k_mul = (\<lambda>d. f_mul), k_div = (\<lambda>d. f_div),
      k_neg = (\<lambda>d. f_neg), k_sqrt = (\<lambda>d. f_sqrt), k_cast = (\<lambda>d d' v. v),
      k_lit = (\<lambda>d n. fin (of_int n)), k_sum = (\<lambda>d. f_sum), k_mean = (\<lambda>d. f_mean),
      k_var = (\<lambda>d. f_var), k_uninit = (\<lambda>d. Zero False)\<rparr>"

section \<open>Specification-level notions\<close>

subsection \<open>Array expressions\<close>

text \<open>
  The formulas of the specification are written with the unchecked array operators:
  \<open>add_arr\<close>, \<open>sub_arr\<close>, \<open>mul_arr\<close> and \<open>div_arr\<close> are elementwise with
  broadcasting, in the dtype of the operands. \<open>conv K d d'\<close> is the conversion of one
  element that \<^verbatim>\<open>AsType\<close> performs: none when the dtype is already the wanted one.
  \<open>broadcasts_to s t\<close> says that an operand of shape \<open>s\<close> broadcasts against the shape
  \<open>t\<close> without changing it.
\<close>

definition add_arr :: "'v kernels \<Rightarrow> 'v Array \<Rightarrow> 'v Array \<Rightarrow> 'v Array" where
  "add_arr K a b = ewise2 (k_add K) a b"

definition sub_arr :: "'v kernels \<Rightarrow> 'v Array \<Rightarrow> 'v Array \<Rightarrow> 'v Array" where
  "sub_arr K a b = ewise2 (k_sub K) a b"

definition mul_arr :: "'v kernels \<Rightarrow> 'v Array \<Rightarrow> 'v Array \<Rightarrow> 'v Array" where
  "mul_arr K a b = ewise2 (k_mul K) a b"

definition div_arr :: "'v kernels \<Rightarrow> 'v Array \<Rightarrow> 'v Array \<Rightarrow> 'v Array" where
  "div_arr K a b = ewise2 (k_div K) a b"

definition conv :: "'v kernels \<Rightarrow> Dtype \<Rightarrow> Dtype \<Rightarrow> 'v \<Rightarrow> 'v" where
  "conv K d d' v = (if d = d' then v else k_cast K d d' v)"

definition broadcasts_to :: "nat list \<Rightarrow> nat list \<Rightarrow> bool" where
  "broadcasts_to s t \<longleftrightarrow> broadcastable t s \<and> broadcast_shape t s = t"

subsection \<open>Preprocessing\<close>

definition all_floating :: "'v Array list \<Rightarrow> bool" where
  "all_floating as \<longleftrightarrow> (\<forall>a \<in> set as. GetKind (dtype a) = KindFloat)"

definition resolve_axis :: "nat \<Rightarrow> int \<Rightarrow> nat" where
  "resolve_axis n a = nat (if a < 0 then a + int n else a)"

text \<open>An in-range, duplicate-free axis selection; the default selection is axis 0.\<close>

definition axis_selection_ok :: "int list option \<Rightarrow> nat \<Rightarrow> bool" where
  "axis_selection_ok axis n =
     (case axis of
        None \<Rightarrow> 0 < n
      | Some as \<Rightarrow> (\<forall>a \<in> set as. - int n \<le> a \<and> a < int n) \<and> distinct (map (resolve_axis n) as))"

definition selected_axes :: "int list option \<Rightarrow> nat \<Rightarrow> nat list" where
  "selected_axes axis n =
     (case axis of None \<Rightarrow> [0] | Some as \<Rightarrow> sort (map (resolve_axis n) as))"

subsection \<open>The kernel core\<close>

text \<open>\<open>inv_std = 1 / sqrt(var + eps)\<close> and
  \<open>out_intermediate = (x - mean) * inv_std * gamma + beta\<close>, evaluated in \<open>interm_dtype\<close>.\<close>

definition spec_inv_std :: "'v kernels \<Rightarrow> 'v Array \<Rightarrow> 'v Scalar \<Rightarrow> Dtype \<Rightarrow> 'v Array" where
  "spec_inv_std K var eps interm_dtype =
     Reciprocal K (Sqrt K (AddAS K (AsType K var interm_dtype) eps))"

definition spec_out_intermediate ::
  "'v kernels \<Rightarrow> 'v Array \<Rightarrow> 'v Array \<Rightarrow> 'v Array \<Rightarrow> 'v Array \<Rightarrow> 'v Array \<Rightarrow> Dtype
     \<Rightarrow> 'v Array" where
  "spec_out_intermediate K x gamma beta mean inv_std interm_dtype =
     add_arr K
       (mul_arr K
          (mul_arr K (sub_arr K (AsType K x interm_dtype) (AsType K mean interm_dtype)) inv_std)
          (AsType K gamma interm_dtype))
       (AsType K beta interm_dtype)"

text \<open>
  The valid inputs of the kernel core: floating arrays, axes in range and without
  duplicates, \<open>gamma\<close> and \<open>beta\<close> of the reduced shape, \<open>mean\<close> and \<open>var\<close> of the reduced
  total size and broadcasting against \<open>x\<close>, and an output buffer of the shape of \<open>x\<close>.
\<close>

definition apply_bn_valid ::
  "'v Array \<Rightarrow> 'v Array \<Rightarrow> 'v Array \<Rightarrow> 'v Array \<Rightarrow> 'v Array \<Rightarrow> nat list \<Rightarrow> 'v Array \<Rightarrow> Dtype
     \<Rightarrow> bool" where
  "apply_bn_valid x gamma beta mean var axis out interm_dtype \<longleftrightarrow>
     all_floating [x, gamma, beta, mean, var] \<and> GetKind interm_dtype = KindFloat \<and>
     wf_array x \<and> wf_array gamma \<and> wf_array beta \<and> wf_array mean \<and> wf_array var \<and>
     axes_ok axis (ndim x) \<and>
     shape gamma = ReduceShape (shape x) axis \<and> shape beta = ReduceShape (shape x) axis \<and>
     GetTotalSize mean = prod_list (ReduceShape (shape x) axis) \<and>
     GetTotalSize var = prod_list (ReduceShape (shape x) axis) \<and>
     broadcasts_to (shape mean) (shape x) \<and> broadcasts_to (shape var) (shape x) \<and>
     shape out = shape x"

subsection \<open>Concrete inputs\<close>

text \<open>The input of the first scenario of the specification: a 4 x 3 matrix in single
  precision, with parameters in double precision, reduced over axis 0.\<close>

definition ex_x :: "fval Array" where
  "ex_x = \<lparr>dtype = kFloat32, shape = [4, 3],
           data = [Num 1, Num 2, Num 3, Num 3, Num 4, Num 5,
                   Num 5, Num 6, Num 7, Num 7, Num 8, Num 9]\<rparr>"

definition ex_gamma :: "fval Array" where
  "ex_gamma = \<lparr>dtype = kFloat64, shape = [3], data = [Num 1, Num 1, Num 1]\<rparr>"

definition ex_beta :: "fval Array" where
  "ex_beta = \<lparr>dtype = kFloat64, shape = [3], data = [Zero False, Zero False, Zero False]\<rparr>"

definition ex_mean :: "fval Array" where
  "ex_mean = \<lparr>dtype = kFloat32, shape = [3], data = [Num 4, Num 5, Num 6]\<rparr>"

definition ex_var :: "fval Array" where
  "ex_var = \<lparr>dtype = kFloat32, shape = [3], data = [Num 5, Num 5, Num 5]\<rparr>"

definition ex_running_mean :: "fval Array" where
  "ex_running_mean = \<lparr>dtype = kFloat32, shape = [3],
                      data = [Zero False, Zero False, Zero False]\<rparr>"

definition ex_running_var :: "fval Array" where
  "ex_running_var = \<lparr>dtype = kFloat32, shape = [3], data = [Num 1, Num 1, Num 1]\<rparr>"

definition ex_int_gamma :: "fval Array" where
  "ex_int_gamma = \<lparr>dtype = kInt32, shape = [3], data = [Num 1, Num 1, Num 1]\<rparr>"

subsection \<open>The training forward operator\<close>

text \<open>
  The intermediate dtype of the training forward operator: the result type of \<open>x\<close>,
  \<open>gamma\<close> and \<open>beta\<close>.
\<close>

definition fwd_interm_dtype :: "'v Array \<Rightarrow> 'v Array \<Rightarrow> 'v Array \<Rightarrow> Dtype" where
  "fwd_interm_dtype x gamma beta = ResultType [dtype x, dtype gamma, dtype beta]"

text \<open>
  The keepdims mean and population variance of \<open>x\<close> over the axes, computed on \<open>x\<close>
  converted to the intermediate dtype.
\<close>

definition spec_x_mean :: "'v kernels \<Rightarrow> 'v Array \<Rightarrow> nat list \<Rightarrow> Dtype \<Rightarrow> 'v Array" where
  "spec_x_mean K x axis interm_dtype = reduce_cells (k_mean K) (AsType K x interm_dtype) axis"

definition spec_x_var :: "'v kernels \<Rightarrow> 'v Array \<Rightarrow> nat list \<Rightarrow> Dtype \<Rightarrow> 'v Array" where
  "spec_x_var K x axis interm_dtype = reduce_cells (k_var K) (AsType K x interm_dtype) axis"

text \<open>
  The per-feature sample count \<open>n\<close>, \<open>inv_decay = 1 - decay\<close> and
  \<open>adjust = n / max(n - 1, 1)\<close>, the last two in double precision.
\<close>

definition spec_n :: "'v Array \<Rightarrow> 'v Array \<Rightarrow> int" where
  "spec_n x gamma = int (GetTotalSize x) div int (GetTotalSize gamma)"

definition spec_inv_decay :: "'v kernels \<Rightarrow> 'v Scalar \<Rightarrow> 'v Scalar" where
  "spec_inv_decay K decay = k_sub K kFloat64 (k_lit K kFloat64 1) decay"

definition spec_adjust :: "'v kernels \<Rightarrow> int \<Rightarrow> 'v Scalar" where
  "spec_adjust K n = k_div K kFloat64 (k_lit K kFloat64 n) (k_lit K kFloat64 (max (n - 1) 1))"

text \<open>
  \<open>decay * running + (update cast to the dtype of running)\<close>.
\<close>

definition spec_running_update :: "'v kernels \<Rightarrow> 'v Array \<Rightarrow> 'v Scalar \<Rightarrow> 'v Array \<Rightarrow> 'v Array" where
  "spec_running_update K running decay update =
     add_arr K (MultiplyAS K running decay) (AsType K update (dtype running))"

text \<open>
  The valid calls of the training forward operator: floating arrays, preprocessed
  operands (all four auxiliary arrays of the reduced shape), axes in range and without
  duplicates, an output buffer of the shape of \<open>x\<close>, and a reduced size other than 0,
  so that the quotient \<open>n\<close> of the sizes exists.
\<close>

definition fwd_valid ::
  "'v Array \<Rightarrow> 'v Array \<Rightarrow> 'v Array \<Rightarrow> 'v Array \<Rightarrow> 'v Array \<Rightarrow> nat list \<Rightarrow> 'v Array \<Rightarrow> bool" where
  "fwd_valid x gamma beta running_mean running_var axis out \<longleftrightarrow>
     all_floating [x, gamma, beta, running_mean, running_var] \<and>
     wf_array x \<and> wf_array gamma \<and> wf_array beta \<and> wf_array running_mean \<and>
     wf_array running_var \<and> axes_ok axis (ndim x) \<and>
     shape gamma = ReduceShape (shape x) axis \<and> shape beta = ReduceShape (shape x) axis \<and>
     shape running_mean = ReduceShape (shape x) axis \<and>
     shape running_var = ReduceShape (shape x) axis \<and>
     shape out = shape x \<and> GetTotalSize gamma \<noteq> 0"

subsection \<open>Values left unchanged by an update\<close>

text \<open>
  A finite value, and a value that is neither NaN nor a negative zero (nor the
  representation \<open>Num 0\<close>, which no operation produces).
\<close>

definition is_finite :: "fval \<Rightarrow> bool" where
  "is_finite v = (case v of Zero s \<Rightarrow> True | Num r \<Rightarrow> True | _ \<Rightarrow> False)"

definition plain_value :: "fval \<Rightarrow> bool" where
  "plain_value v = (case v of NaN \<Rightarrow> False | Inf s \<Rightarrow> True | Zero s \<Rightarrow> \<not> s | Num r \<Rightarrow> r \<noteq> 0)"

text \<open>
  Running means whose first element is a negative zero.
\<close>

definition cx_running_mean :: "fval Array" where
  "cx_running_mean = \<lparr>dtype = kFloat32, shape = [1, 3],
                      data = [Zero True, Zero False, Zero False]\<rparr>"

text \<open>
  A batch of two rows and one feature whose first element is \<open>+inf\<close>, with finite
  parameters and running statistics.
\<close>

definition cx_x_inf :: "fval Array" where
  "cx_x_inf = \<lparr>dtype = kFloat32, shape = [2, 1], data = [Inf False, Num 1]\<rparr>"

definition cx_gamma1 :: "fval Array" where
  "cx_gamma1 = \<lparr>dtype = kFloat32, shape = [1, 1], data = [Num 1]\<rparr>"

definition cx_beta1 :: "fval Array" where
  "cx_beta1 = \<lparr>dtype = kFloat32, shape = [1, 1], data = [Zero False]\<rparr>"

definition cx_running_mean1 :: "fval Array" where
  "cx_running_mean1 = \<lparr>dtype = kFloat32, shape = [1, 1], data = [Num 2]\<rparr>"

definition cx_running_var1 :: "fval Array" where
  "cx_running_var1 = \<lparr>dtype = kFloat32, shape = [1, 1], data = [Num 1]\<rparr>"

subsection \<open>The first-order backward operator\<close>

text \<open>
  \<open>inv_n = 1 / n\<close> in double precision, \<open>x_hat = (x - x_mean) * x_inv_std\<close>,
  \<open>ggamma = sum(gout * x_hat, axis, keepdims)\<close>, \<open>gbeta = sum(gout, axis, keepdims)\<close> and
  \<open>gx = (gamma * x_inv_std) * (gout - (x_hat * ggamma + gbeta) * inv_n)\<close>, all in the
  intermediate dtype, which is the dtype of the captured \<open>x_mean\<close>.
\<close>

definition spec_inv_n :: "'v kernels \<Rightarrow> int \<Rightarrow> 'v Scalar" where
  "spec_inv_n K n = k_div K kFloat64 (k_lit K kFloat64 1) (k_lit K kFloat64 n)"

definition spec_x_hat :: "'v kernels \<Rightarrow> 'v Array \<Rightarrow> 'v Array \<Rightarrow> 'v Array \<Rightarrow> 'v Array" where
  "spec_x_hat K x x_mean x_inv_std =
     mul_arr K (sub_arr K (AsType K x (dtype x_mean)) x_mean) x_inv_std"

definition spec_ggamma ::
  "'v kernels \<Rightarrow> 'v Array \<Rightarrow> 'v Array \<Rightarrow> nat list \<Rightarrow> Dtype \<Rightarrow> 'v Array" where
  "spec_ggamma K gout x_hat axis interm_dtype =
     reduce_cells (k_sum K) (mul_arr K (AsType K gout interm_dtype) x_hat) axis"

definition spec_gbeta :: "'v kernels \<Rightarrow> 'v Array \<Rightarrow> nat list \<Rightarrow> Dtype \<Rightarrow> 'v Array" where
  "spec_gbeta K gout axis interm_dtype = reduce_cells (k_sum K) (AsType K gout interm_dtype) axis"

definition spec_gx ::
  "'v kernels \<Rightarrow> 'v Array \<Rightarrow> 'v Array \<Rightarrow> 'v Array \<Rightarrow> 'v Array \<Rightarrow> 'v Array \<Rightarrow> 'v Array
     \<Rightarrow> 'v Scalar \<Rightarrow> Dtype \<Rightarrow> 'v Array" where
  "spec_gx K gamma x_inv_std gout x_hat ggamma_i gbeta_i inv_n interm_dtype =
     mul_arr K (mul_arr K (AsType K gamma interm_dtype) x_inv_std)
       (sub_arr K (AsType K gout interm_dtype)
          (MultiplyAS K (add_arr K (mul_arr K x_hat ggamma_i) gbeta_i) inv_n))"

text \<open>
  The valid calls of the first-order backward operator: a captured state whose two arrays
  have one dtype and the reduced shape, floating arrays, \<open>gamma\<close> of the reduced shape,
  \<open>gout\<close> of the shape of \<open>x\<close>, gradient buffers of the shapes of \<open>x\<close>, \<open>gamma\<close> and
  \<open>beta\<close>, axes in range and without duplicates, and a reduced size other than 0.
\<close>

definition bwd_valid ::
  "'v Array \<Rightarrow> 'v Array \<Rightarrow> 'v Array \<Rightarrow> nat list \<Rightarrow> 'v Array \<Rightarrow> 'v Array \<Rightarrow> 'v Array
     \<Rightarrow> 'v GenericBatchNormState \<Rightarrow> bool" where
  "bwd_valid x gamma gout axis gx ggamma gbeta st \<longleftrightarrow>
     all_floating [x, gamma, gout, st_x_mean st, st_x_inv_std st] \<and>
     dtype (st_x_inv_std st) = dtype (st_x_mean st) \<and>
     wf_array x \<and> wf_array gamma \<and> wf_array gout \<and> wf_array (st_x_mean st) \<and>
     wf_array (st_x_inv_std st) \<and> axes_ok axis (ndim x) \<and>
     shape gamma = ReduceShape (shape x) axis \<and>
     shape (st_x_mean st) = ReduceShape (shape x) axis \<and>
     shape (st_x_inv_std st) = ReduceShape (shape x) axis \<and>
     shape gout = shape x \<and> shape gx = shape x \<and>
     shape ggamma = ReduceShape (shape x) axis \<and> shape gbeta = ReduceShape (shape x) axis \<and>
     GetTotalSize gamma \<noteq> 0"

text \<open>
  The same formulas for one element: \<open>k\<close> is a position of \<open>x\<close>, \<open>j\<close> a reduced cell,
  \<open>c\<close> the cell of position \<open>k\<close>, and the sums range over the positions of a cell.
\<close>

definition elem_x_hat :: "'v kernels \<Rightarrow> 'v Array \<Rightarrow> 'v Array \<Rightarrow> 'v Array \<Rightarrow> nat \<Rightarrow> 'v" where
  "elem_x_hat K x x_mean x_inv_std k =
     (let d = dtype x_mean; c = src_index (shape x) (shape x_mean) k
      in k_mul K d (k_sub K d (conv K (dtype x) d (data x ! k)) (data x_mean ! c))
           (data x_inv_std ! c))"

definition elem_ggamma ::
  "'v kernels \<Rightarrow> 'v Array \<Rightarrow> 'v Array \<Rightarrow> 'v Array \<Rightarrow> 'v Array \<Rightarrow> nat list \<Rightarrow> nat \<Rightarrow> 'v" where
  "elem_ggamma K x gout x_mean x_inv_std axis j =
     (let d = dtype x_mean
      in k_sum K d (map (\<lambda>i. k_mul K d (conv K (dtype gout) d (data gout ! i))
                                 (elem_x_hat K x x_mean x_inv_std i))
                       (cell_members (shape x) axis j)))"

definition elem_gbeta :: "'v kernels \<Rightarrow> 'v Array \<Rightarrow> 'v Array \<Rightarrow> Dtype \<Rightarrow> nat list \<Rightarrow> nat \<Rightarrow> 'v" where
  "elem_gbeta K x gout d axis j =
     k_sum K d (map (\<lambda>i. conv K (dtype gout) d (data gout ! i)) (cell_members (shape x) axis j))"

definition elem_gx ::
  "'v kernels \<Rightarrow> 'v Array \<Rightarrow> 'v Array \<Rightarrow> 'v Array \<Rightarrow> 'v Array \<Rightarrow> 'v Array \<Rightarrow> nat list \<Rightarrow> nat
     \<Rightarrow> 'v" where
  "elem_gx K x gamma gout x_mean x_inv_std axis k =
     (let d = dtype x_mean; c = src_index (shape x) (shape x_mean) k
      in k_mul K d
           (k_mul K d (conv K (dtype gamma) d (data gamma ! c)) (data x_inv_std ! c))
           (k_sub K d (conv K (dtype gout) d (data gout ! k))
              (k_mul K d
                 (k_add K d
                    (k_mul K d (elem_x_hat K x x_mean x_inv_std k)
                       (elem_ggamma K x gout x_mean x_inv_std axis c))
                    (elem_gbeta K x gout d axis c))
                 (scalar_as K d (spec_inv_n K (spec_n x gamma))))))"

text \<open>
  The three gradients of a backward call with the captured state \<open>st\<close>.
\<close>

definition spec_bwd_ggamma ::
  "'v kernels \<Rightarrow> 'v Array \<Rightarrow> 'v Array \<Rightarrow> 'v GenericBatchNormState \<Rightarrow> nat list \<Rightarrow> 'v Array" where
  "spec_bwd_ggamma K x gout st axis =
     spec_ggamma K gout (spec_x_hat K x (st_x_mean st) (st_x_inv_std st)) axis
       (dtype (st_x_mean st))"

definition spec_bwd_gbeta ::
  "'v kernels \<Rightarrow> 'v Array \<Rightarrow> 'v GenericBatchNormState \<Rightarrow> nat list \<Rightarrow> 'v Array" where
  "spec_bwd_gbeta K gout st axis = spec_gbeta K gout axis (dtype (st_x_mean st))"

definition spec_bwd_gx ::
  "'v kernels \<Rightarrow> 'v Array \<Rightarrow> 'v Array \<Rightarrow> 'v Array \<Rightarrow> 'v GenericBatchNormState \<Rightarrow> nat list
     \<Rightarrow> 'v Array" where
  "spec_bwd_gx K x gamma gout st axis =
     spec_gx K gamma (st_x_inv_std st) gout
       (spec_x_hat K x (st_x_mean st) (st_x_inv_std st))
       (spec_bwd_ggamma K x gout st axis) (spec_bwd_gbeta K gout st axis)
       (spec_inv_n K (spec_n x gamma)) (dtype (st_x_mean st))"

text \<open>
  An output gradient for the 4 x 3 input, and the state its forward call captures with
  \<open>eps = 4\<close>.
\<close>

definition ex_gout :: "fval Array" where
  "ex_gout = \<lparr>dtype = kFloat32, shape = [4, 3],
              data = [Num 1, Zero False, Zero False, Zero False, Zero False, Zero False,
                      Zero False, Zero False, Zero False, Zero False, Zero False, Zero False]\<rparr>"

definition ex_state :: "fval GenericBatchNormState" where
  "ex_state = \<lparr>st_x_mean = \<lparr>dtype = kFloat64, shape = [1, 3], data = [Num 4, Num 5, Num 6]\<rparr>,
                st_x_inv_std = \<lparr>dtype = kFloat64, shape = [1, 3],
                                data = [Num (1/3), Num (1/3), Num (1/3)]\<rparr>\<rparr>"

subsection \<open>The second-order backward\<close>

text \<open>
  The intermediate dtype of the second-order backward: the result type of \<open>gout\<close>, \<open>x\<close>
  and \<open>gamma\<close>. An absent upstream gradient is a zero array of the given shape in that
  dtype, a present one is converted to it. \<open>sum_arr\<close> is the unchecked keepdims sum.
\<close>

definition dbl_interm_dtype :: "'v Array \<Rightarrow> 'v Array \<Rightarrow> 'v Array \<Rightarrow> Dtype" where
  "dbl_interm_dtype x gamma gout = ResultType [dtype gout, dtype x, dtype gamma]"

definition upstream_or_zeros :: "'v kernels \<Rightarrow> 'v Array option \<Rightarrow> nat list \<Rightarrow> Dtype \<Rightarrow> 'v Array" where
  "upstream_or_zeros K g s interm_dtype =
     (case g of None \<Rightarrow> Zeros K s interm_dtype | Some a \<Rightarrow> AsType K a interm_dtype)"

definition sum_arr :: "'v kernels \<Rightarrow> 'v Array \<Rightarrow> nat list \<Rightarrow> 'v Array" where
  "sum_arr K a axis = reduce_cells (k_sum K) a axis"

text \<open>
  The formulas of the second-order backward, in the specification's names (a prime for
  the index 2 of the code): the intermediates \<open>x_mean\<close>, \<open>x_var\<close>, \<open>x_inv_std\<close> and
  \<open>x_hat\<close> are recomputed from the retained \<open>x\<close>, and the three results are converted
  to the dtypes of \<open>x\<close>, \<open>gamma\<close> and \<open>gout\<close>.
\<close>

definition spec_double_backward ::
  "'v kernels \<Rightarrow> 'v Array \<Rightarrow> 'v Array \<Rightarrow> 'v Array \<Rightarrow> 'v Scalar \<Rightarrow> nat list
     \<Rightarrow> 'v Array option \<Rightarrow> 'v Array option \<Rightarrow> 'v Array option \<Rightarrow> 'v Array \<Rightarrow> 'v Array
     \<Rightarrow> 'v Array \<times> 'v Array \<times> 'v Array" where
  "spec_double_backward K x_retained gamma_retained gout_retained eps axis
       ggx_opt gggamma_opt ggbeta_opt gx_retained ggamma_retained =
     (let interm_dtype = dbl_interm_dtype x_retained gamma_retained gout_retained;
          x = AsType K x_retained interm_dtype;
          gamma = AsType K gamma_retained interm_dtype;
          gout = AsType K gout_retained interm_dtype;
          ggx = upstream_or_zeros K ggx_opt (shape x_retained) interm_dtype;
          gggamma = upstream_or_zeros K gggamma_opt (shape gamma_retained) interm_dtype;
          ggbeta = upstream_or_zeros K ggbeta_opt (shape gamma_retained) interm_dtype;
          gx = AsType K gx_retained interm_dtype;
          ggamma = AsType K ggamma_retained interm_dtype;
          x_mean = reduce_cells (k_mean K) x axis;
          x_var = reduce_cells (k_var K) x axis;
          x_inv_std = Reciprocal K (Sqrt K (AddAS K x_var eps));
          x_hat = mul_arr K (sub_arr K x x_mean) x_inv_std;
          inv_n = spec_inv_n K (spec_n x_retained gamma_retained);
          r = sum_arr K (mul_arr K gx ggx) axis;
          coeff = mul_arr K gamma x_inv_std;
          coeff_m = MultiplyAS K coeff inv_n;
          gggamma' = sub_arr K gggamma (mul_arr K coeff_m (sum_arr K (mul_arr K x_hat ggx) axis));
          ggbeta' = sub_arr K ggbeta (mul_arr K coeff_m (sum_arr K ggx axis));
          gx_hat' = sub_arr K (mul_arr K gggamma' gout) (mul_arr K (mul_arr K coeff_m ggamma) ggx);
          gstd' = mul_arr K (Negative K x_inv_std)
                    (add_arr K r (sum_arr K (mul_arr K x_hat gx_hat') axis));
          gmean' = mul_arr K (Negative K x_inv_std) (sum_arr K gx_hat' axis);
          gx_out = add_arr K (mul_arr K x_inv_std gx_hat')
                     (MultiplyAS K (add_arr K gmean' (mul_arr K x_hat gstd')) inv_n);
          ggout_out = add_arr K (add_arr K (mul_arr K gggamma' x_hat) ggbeta')
                        (mul_arr K coeff ggx);
          ggamma_out = div_arr K r gamma
      in (AsType K gx_out (dtype x_retained),
          AsType K ggamma_out (dtype gamma_retained),
          AsType K ggout_out (dtype gout_retained)))"

text \<open>
  The valid invocations of the second-order backward: floating arrays, \<open>gamma\<close> and the
  retained \<open>ggamma\<close> of the reduced shape, \<open>gout\<close> and the retained \<open>gx\<close> of the shape of
  \<open>x\<close>, upstream gradients, where present, of the shapes of \<open>gx\<close>, \<open>ggamma\<close> and
  \<open>gbeta\<close>, axes in range and without duplicates, and a reduced size other than 0.
\<close>

definition dbl_valid ::
  "'v Array \<Rightarrow> 'v Array \<Rightarrow> 'v Array \<Rightarrow> nat list \<Rightarrow> 'v Array option \<Rightarrow> 'v Array option
     \<Rightarrow> 'v Array option \<Rightarrow> 'v Array \<Rightarrow> 'v Array \<Rightarrow> bool" where
  "dbl_valid x gamma gout axis ggx_opt gggamma_opt ggbeta_opt gx ggamma \<longleftrightarrow>
     all_floating [x, gamma, gout, gx, ggamma] \<and> axes_ok axis (ndim x) \<and>
     shape gamma = ReduceShape (shape x) axis \<and> shape gout = shape x \<and>
     shape gx = shape x \<and> shape ggamma = ReduceShape (shape x) axis \<and>
     (case ggx_opt of None \<Rightarrow> True | Some a \<Rightarrow> shape a = shape x) \<and>
     (case gggamma_opt of None \<Rightarrow> True | Some a \<Rightarrow> shape a = ReduceShape (shape x) axis) \<and>
     (case ggbeta_opt of None \<Rightarrow> True | Some a \<Rightarrow> shape a = ReduceShape (shape x) axis) \<and>
     GetTotalSize gamma \<noteq> 0"

text \<open>
  The retained outputs of the first-order backward at the concrete input.
\<close>

definition ex_gx :: "fval Array" where
  "ex_gx = \<lparr>dtype = kFloat32, shape = [4, 3],
            data = [Num (1/6), Zero False, Zero False, Num (-1/9), Zero False, Zero False,
                    Num (-1/18), Zero False, Zero False, Zero False, Zero False, Zero False]\<rparr>"

definition ex_ggamma :: "fval Array" where
  "ex_ggamma = \<lparr>dtype = kFloat64, shape = [1, 3], data = [Num (-1), Zero False, Zero False]\<rparr>"

subsection \<open>The entry points\<close>

text \<open>
  The intermediate dtype of the fixed forward operator: the result type of all five
  inputs.
\<close>

definition fixed_interm_dtype ::
  "'v Array \<Rightarrow> 'v Array \<Rightarrow> 'v Array \<Rightarrow> 'v Array \<Rightarrow> 'v Array \<Rightarrow> Dtype" where
  "fixed_interm_dtype x gamma beta mean var =
     ResultType [dtype x, dtype gamma, dtype beta, dtype mean, dtype var]"

text \<open>
  The valid inputs of the two entry points: floating arrays, an axis selection in range
  and without duplicates, and auxiliary arrays of the reduced total size.
\<close>

definition entry_valid ::
  "'v Array \<Rightarrow> 'v Array \<Rightarrow> 'v Array \<Rightarrow> 'v Array \<Rightarrow> 'v Array \<Rightarrow> int list option \<Rightarrow> bool" where
  "entry_valid x gamma beta mean var axis \<longleftrightarrow>
     all_floating [x, gamma, beta, mean, var] \<and> axis_selection_ok axis (ndim x) \<and>
     wf_array x \<and> wf_array gamma \<and> wf_array beta \<and> wf_array mean \<and> wf_array var \<and>
     (\<forall>a \<in> set [gamma, beta, mean, var].
        GetTotalSize a = prod_list (ReduceShape (shape x) (selected_axes axis (ndim x))))"

section \<open>Properties\<close>

subsection \<open>Sequencing\<close>

lemma bind_err_simps [simp]:
  "bind_err (Inl e) f = Inl e"
  "bind_err (Inr v) f = f v"
  by (simp_all add: bind_err_def)

lemma try_or_simps [simp]:
  "try_or (Inl e) s f = (Some e, s)"
  "try_or (Inr v) s f = f v"
  by (simp_all add: try_or_def)

subsection \<open>Shapes and broadcasting\<close>

lemma pad_shape_same [simp]: "length s \<le> n \<Longrightarrow> length (pad_shape n s) = n"
  by (simp add: pad_shape_def)

lemma pad_shape_id [simp]: "pad_shape (length s) s = s"
  by (simp add: pad_shape_def)

lemma length_ReduceShape [simp]: "length (ReduceShape s axes) = length s"
  by (simp add: ReduceShape_def)

lemma broadcastable_sym: "broadcastable s t = broadcastable t s"
proof -
  have "list_all2 (\<lambda>a b. a = b \<or> a = 1 \<or> b = 1) p q = list_all2 (\<lambda>a b. a = b \<or> a = 1 \<or> b = 1) q p"
    for p q :: "nat list"
    by (auto simp: list_all2_conv_all_nth)
  then show ?thesis
    by (simp add: broadcastable_def Let_def max.commute)
qed

lemma broadcast_shape_sym: "broadcastable s t \<Longrightarrow> broadcast_shape s t = broadcast_shape t s"
  unfolding broadcastable_def broadcast_shape_def Let_def
  by (auto simp: list_all2_conv_all_nth max.commute intro!: nth_equalityI)

lemma broadcasts_to_refl [simp]: "broadcasts_to s s"
  by (auto simp: broadcasts_to_def broadcastable_def broadcast_shape_def list_all2_conv_all_nth
      Let_def intro!: nth_equalityI)

lemma broadcasts_to_ReduceShape [simp]: "broadcasts_to (ReduceShape s axes) s"
  by (auto simp: broadcasts_to_def broadcastable_def broadcast_shape_def list_all2_conv_all_nth
      ReduceShape_def Let_def pad_shape_def intro!: nth_equalityI)

lemma broadcasts_toD [simp]:
  assumes "broadcasts_to s t"
  shows "broadcastable t s" "broadcastable s t" "broadcast_shape t s = t" "broadcast_shape s t = t"
  using assms broadcastable_sym[of s t] broadcast_shape_sym[of s t]
  by (auto simp: broadcasts_to_def)

lemma ewise2_simps [simp]:
  "dtype (ewise2 f a b) = dtype a"
  "shape (ewise2 f a b) = broadcast_shape (shape a) (shape b)"
  "length (data (ewise2 f a b)) = prod_list (broadcast_shape (shape a) (shape b))"
  by (simp_all add: ewise2_def Let_def)

lemma ewise1_simps [simp]:
  "dtype (ewise1 g a) = dtype a"
  "shape (ewise1 g a) = shape a"
  "length (data (ewise1 g a)) = length (data a)"
  by (simp_all add: ewise1_def)

lemma unary_simps [simp]:
  "dtype (AddAS K a s) = dtype a" "shape (AddAS K a s) = shape a"
  "dtype (MultiplyAS K a s) = dtype a" "shape (MultiplyAS K a s) = shape a"
  "dtype (Sqrt K a) = dtype a" "shape (Sqrt K a) = shape a"
  "dtype (Negative K a) = dtype a" "shape (Negative K a) = shape a"
  "dtype (Reciprocal K a) = dtype a" "shape (Reciprocal K a) = shape a"
  "dtype (IMultiplyAS K a s) = dtype a" "shape (IMultiplyAS K a s) = shape a"
  by (simp_all add: AddAS_def MultiplyAS_def Sqrt_def Negative_def Reciprocal_def IMultiplyAS_def)

lemma unary_length [simp]:
  "length (data (AddAS K a s)) = length (data a)"
  "length (data (MultiplyAS K a s)) = length (data a)"
  "length (data (Sqrt K a)) = length (data a)"
  "length (data (Negative K a)) = length (data a)"
  "length (data (Reciprocal K a)) = length (data a)"
  "length (data (IMultiplyAS K a s)) = length (data a)"
  by (simp_all add: AddAS_def MultiplyAS_def Sqrt_def Negative_def Reciprocal_def IMultiplyAS_def)

lemma AsType_simps [simp]:
  "dtype (AsType K a d) = d"
  "shape (AsType K a d) = shape a"
  "length (data (AsType K a d)) = length (data a)"
  by (simp_all add: AsType_def)

lemma cast_into_simps [simp]:
  "dtype (cast_into K a out) = dtype out"
  "shape (cast_into K a out) = shape out"
  "length (data (cast_into K a out)) = length (data a)"
  by (simp_all add: cast_into_def)

lemma reduce_cells_simps [simp]:
  "dtype (reduce_cells g a axes) = dtype a"
  "shape (reduce_cells g a axes) = ReduceShape (shape a) axes"
  "length (data (reduce_cells g a axes)) = prod_list (ReduceShape (shape a) axes)"
  by (simp_all add: reduce_cells_def Let_def)

lemma Zeros_simps [simp]:
  "dtype (Zeros K s d) = d" "shape (Zeros K s d) = s" "length (data (Zeros K s d)) = prod_list s"
  by (simp_all add: Zeros_def)

lemma Empty_simps [simp]:
  "dtype (Empty K s d) = d" "shape (Empty K s d) = s" "length (data (Empty K s d)) = prod_list s"
  "dtype (EmptyLike K a) = dtype a" "shape (EmptyLike K a) = shape a"
  "length (data (EmptyLike K a)) = prod_list (shape a)"
  by (simp_all add: Empty_def EmptyLike_def)

lemma arr_simps [simp]:
  "dtype (add_arr K a b) = dtype a" "shape (add_arr K a b) = broadcast_shape (shape a) (shape b)"
  "dtype (sub_arr K a b) = dtype a" "shape (sub_arr K a b) = broadcast_shape (shape a) (shape b)"
  "dtype (mul_arr K a b) = dtype a" "shape (mul_arr K a b) = broadcast_shape (shape a) (shape b)"
  "dtype (div_arr K a b) = dtype a" "shape (div_arr K a b) = broadcast_shape (shape a) (shape b)"
  by (simp_all add: add_arr_def sub_arr_def mul_arr_def div_arr_def)

lemma BinaryOp_ok:
  "dtype a = dtype b \<Longrightarrow> broadcastable (shape a) (shape b) \<Longrightarrow> BinaryOp f a b = Inr (ewise2 f a b)"
  by (simp add: BinaryOp_def)

lemma binary_ok [simp]:
  assumes "dtype a = dtype b" "broadcastable (shape a) (shape b)"
  shows "Add K a b = Inr (add_arr K a b)" "Subtract K a b = Inr (sub_arr K a b)"
    "Multiply K a b = Inr (mul_arr K a b)" "Divide K a b = Inr (div_arr K a b)"
  using assms
  by (simp_all add: Add_def Subtract_def Multiply_def Divide_def BinaryOp_ok
      add_arr_def sub_arr_def mul_arr_def div_arr_def)

lemma IAdd_ok [simp]:
  "dtype a = dtype b \<Longrightarrow> broadcasts_to (shape b) (shape a) \<Longrightarrow> IAdd K a b = Inr (add_arr K a b)"
  by (simp add: IAdd_def add_arr_def)

lemma reduction_ok [simp]:
  assumes "axes_ok axes (length (shape a))"
  shows "Sum K a axes = Inr (reduce_cells (k_sum K) a axes)"
    "Mean K a axes = Inr (reduce_cells (k_mean K) a axes)"
    "Var K a axes = Inr (reduce_cells (k_var K) a axes)"
  using assms by (simp_all add: Sum_def Mean_def Var_def Reduction_def ndim_def)

lemma device_AsType_ok [simp]:
  "shape a = shape out \<Longrightarrow> device_AsType K a out = Inr (cast_into K a out)"
  by (simp add: device_AsType_def)

lemma length_unravel [simp]: "length (unravel s k) = length s"
  by (induction s arbitrary: k) auto

lemma prod_list_pos_tail: "(k::nat) < e * prod_list es \<Longrightarrow> 0 < prod_list es"
  by (rule ccontr) simp

lemma ravel_unravel: "k < prod_list s \<Longrightarrow> ravel s (unravel s k) = k"
proof (induction s arbitrary: k)
  case Nil
  then show ?case by simp
next
  case (Cons e es)
  then have pos: "0 < prod_list es" by (auto dest: prod_list_pos_tail)
  then have "k mod prod_list es < prod_list es" by simp
  then show ?case using Cons.IH by simp
qed

lemma unravel_less: "k < prod_list s \<Longrightarrow> list_all2 (<) (unravel s k) s"
proof (induction s arbitrary: k)
  case Nil
  then show ?case by simp
next
  case (Cons e es)
  then have pos: "0 < prod_list es" by (auto dest: prod_list_pos_tail)
  have "k div prod_list es < e"
    using Cons.prems pos by (simp add: less_mult_imp_div_less mult.commute)
  moreover have "k mod prod_list es < prod_list es" using pos by simp
  ultimately show ?case using Cons.IH by simp
qed

lemma ravel_less: "list_all2 (<) idx s \<Longrightarrow> ravel s idx < prod_list s"
proof (induction s arbitrary: idx)
  case Nil
  then show ?case by simp
next
  case (Cons e es)
  then obtain i js where idx: "idx = i # js" "i < e" "list_all2 (<) js es"
    by (auto simp: list_all2_Cons2)
  then have r: "ravel es js < prod_list es" using Cons.IH by simp
  have "i * prod_list es + ravel es js < (i + 1) * prod_list es" using r by simp
  also have "\<dots> \<le> e * prod_list es" using idx(2) by (intro mult_le_mono1) simp
  finally show ?case using idx by simp
qed

lemma src_index_same: "k < prod_list s \<Longrightarrow> src_index s s k = k"
proof -
  assume k: "k < prod_list s"
  have "map2 (\<lambda>e i. if e = 1 then 0 else i) s (unravel s k) = unravel s k"
    using unravel_less[OF k]
    by (auto simp: list_all2_conv_all_nth intro!: nth_equalityI)
  then show ?thesis
    by (simp add: src_index_def Let_def ravel_unravel[OF k])
qed

lemma prod_list_pad_shape [simp]: "prod_list (pad_shape n s) = prod_list s"
  by (simp add: pad_shape_def)

lemma length_broadcast_shape [simp]:
  "length (broadcast_shape s t) = max (length s) (length t)"
  by (simp add: broadcast_shape_def Let_def pad_shape_def)

lemma src_index_less:
  assumes "broadcasts_to m s" "k < prod_list s"
  shows "src_index s m k < prod_list m"
proof -
  let ?p = "pad_shape (length s) m"
  from assms(1) have bsm: "broadcastable s m" "broadcast_shape s m = s"
    unfolding broadcasts_to_def by blast+
  then have "length (broadcast_shape s m) = length s" by simp
  then have len: "length m \<le> length s" by simp
  then have mx: "max (length s) (length m) = length s" by simp
  from bsm have comp: "list_all2 (\<lambda>a b. a = b \<or> a = 1 \<or> b = 1) s ?p"
    and bs: "map2 (\<lambda>a b. if a = 1 then b else a) s ?p = s"
    unfolding broadcastable_def broadcast_shape_def Let_def mx by simp_all
  have lp: "length ?p = length s" using len by simp
  have "list_all2 (<) (map2 (\<lambda>e i. if e = 1 then 0 else i) ?p (unravel s k)) ?p"
    unfolding list_all2_conv_all_nth
  proof (intro conjI allI impI)
    show "length (map2 (\<lambda>e i. if e = 1 then 0 else i) ?p (unravel s k)) = length ?p"
      using lp by simp
  next
    fix i assume "i < length (map2 (\<lambda>e i. if e = 1 then 0 else i) ?p (unravel s k))"
    then have i: "i < length s" using lp by simp
    have u: "unravel s k ! i < s ! i"
      using unravel_less[OF assms(2)] i by (simp add: list_all2_conv_all_nth)
    have c: "s ! i = ?p ! i \<or> s ! i = 1 \<or> ?p ! i = 1"
      using comp i by (simp add: list_all2_conv_all_nth)
    have "map2 (\<lambda>a b. if a = 1 then b else a) s ?p ! i = s ! i" using bs by simp
    then have b: "(if s ! i = 1 then ?p ! i else s ! i) = s ! i" using i lp by simp
    from u c b show "map2 (\<lambda>e i. if e = 1 then 0 else i) ?p (unravel s k) ! i < ?p ! i"
      using i lp by (auto split: if_splits)
  qed
  from ravel_less[OF this] show ?thesis
    by (simp add: src_index_def Let_def)
qed

subsection \<open>Elements of array expressions\<close>

lemma AsType_nth: "k < length (data a) \<Longrightarrow> data (AsType K a d) ! k = conv K (dtype a) d (data a ! k)"
  by (simp add: AsType_def conv_def)

lemma ewise2_nth:
  "k < prod_list (broadcast_shape (shape a) (shape b)) \<Longrightarrow>
   data (ewise2 f a b) ! k =
     f (dtype a) (data a ! src_index (broadcast_shape (shape a) (shape b)) (shape a) k)
                 (data b ! src_index (broadcast_shape (shape a) (shape b)) (shape b) k)"
  by (simp add: ewise2_def Let_def)

lemma arr_nth:
  assumes "k < prod_list (broadcast_shape (shape a) (shape b))"
  shows "data (add_arr K a b) ! k =
     k_add K (dtype a) (data a ! src_index (broadcast_shape (shape a) (shape b)) (shape a) k)
                 (data b ! src_index (broadcast_shape (shape a) (shape b)) (shape b) k)"
   "data (sub_arr K a b) ! k =
     k_sub K (dtype a) (data a ! src_index (broadcast_shape (shape a) (shape b)) (shape a) k)
                 (data b ! src_index (broadcast_shape (shape a) (shape b)) (shape b) k)"
   "data (mul_arr K a b) ! k =
     k_mul K (dtype a) (data a ! src_index (broadcast_shape (shape a) (shape b)) (shape a) k)
                 (data b ! src_index (broadcast_shape (shape a) (shape b)) (shape b) k)"
   "data (div_arr K a b) ! k =
     k_div K (dtype a) (data a ! src_index (broadcast_shape (shape a) (shape b)) (shape a) k)
                 (data b ! src_index (broadcast_shape (shape a) (shape b)) (shape b) k)"
  using assms by (simp_all add: add_arr_def sub_arr_def mul_arr_def div_arr_def ewise2_nth)

lemma arr_length [simp]:
  "length (data (add_arr K a b)) = prod_list (broadcast_shape (shape a) (shape b))"
  "length (data (sub_arr K a b)) = prod_list (broadcast_shape (shape a) (shape b))"
  "length (data (mul_arr K a b)) = prod_list (broadcast_shape (shape a) (shape b))"
  "length (data (div_arr K a b)) = prod_list (broadcast_shape (shape a) (shape b))"
  by (simp_all add: add_arr_def sub_arr_def mul_arr_def div_arr_def)

lemma ewise1_nth: "k < length (data a) \<Longrightarrow> data (ewise1 g a) ! k = g (dtype a) (data a ! k)"
  by (simp add: ewise1_def)

lemma unary_nth:
  assumes "k < length (data a)"
  shows "data (AddAS K a s) ! k = k_add K (dtype a) (data a ! k) (scalar_as K (dtype a) s)"
    "data (MultiplyAS K a s) ! k = k_mul K (dtype a) (data a ! k) (scalar_as K (dtype a) s)"
    "data (IMultiplyAS K a s) ! k = k_mul K (dtype a) (data a ! k) (scalar_as K (dtype a) s)"
    "data (Sqrt K a) ! k = k_sqrt K (dtype a) (data a ! k)"
    "data (Negative K a) ! k = k_neg K (dtype a) (data a ! k)"
    "data (Reciprocal K a) ! k = k_div K (dtype a) (k_lit K (dtype a) 1) (data a ! k)"
  using assms
  by (simp_all add: AddAS_def MultiplyAS_def IMultiplyAS_def Sqrt_def Negative_def Reciprocal_def ewise1_nth)

lemma cast_into_nth:
  "k < length (data a) \<Longrightarrow> data (cast_into K a out) ! k = k_cast K (dtype a) (dtype out) (data a ! k)"
  by (simp add: cast_into_def)

lemma spec_inv_std_simps [simp]:
  "dtype (spec_inv_std K var eps d) = d"
  "shape (spec_inv_std K var eps d) = shape var"
  "length (data (spec_inv_std K var eps d)) = length (data var)"
  by (simp_all add: spec_inv_std_def)

lemma spec_inv_std_nth:
  "j < length (data var) \<Longrightarrow>
   data (spec_inv_std K var eps d) ! j =
     k_div K d (k_lit K d 1)
       (k_sqrt K d (k_add K d (conv K (dtype var) d (data var ! j)) (scalar_as K d eps)))"
  by (simp add: spec_inv_std_def unary_nth AsType_nth)

lemma spec_out_intermediate_nth:
  assumes "broadcasts_to (shape mean) (shape x)" "broadcasts_to (shape inv_std) (shape x)"
    "broadcasts_to (shape gamma) (shape x)" "broadcasts_to (shape beta) (shape x)"
    "wf_array x" "wf_array gamma" "wf_array beta" "wf_array mean"
    "k < prod_list (shape x)"
  shows "data (spec_out_intermediate K x gamma beta mean inv_std d) ! k =
     k_add K d
       (k_mul K d
          (k_mul K d
             (k_sub K d (conv K (dtype x) d (data x ! k))
                        (conv K (dtype mean) d (data mean ! src_index (shape x) (shape mean) k)))
             (data inv_std ! src_index (shape x) (shape inv_std) k))
          (conv K (dtype gamma) d (data gamma ! src_index (shape x) (shape gamma) k)))
       (conv K (dtype beta) d (data beta ! src_index (shape x) (shape beta) k))"
  using assms
  by (simp add: spec_out_intermediate_def arr_nth src_index_same src_index_less AsType_nth
      wf_array_def)

subsection \<open>Preprocessing\<close>

lemma NormalizeAxes_ok:
  "\<forall>a \<in> set as. - int n \<le> a \<and> a < int n \<Longrightarrow> NormalizeAxes as n = Inr (map (resolve_axis n) as)"
  by (induction as) (auto simp: NormalizeAxis_def resolve_axis_def)

lemma NormalizeAxes_error: "NormalizeAxes as n = Inl e \<Longrightarrow> e = AxisError"
  by (induction as arbitrary: e) (auto simp: NormalizeAxis_def bind_err_def split: if_splits sum.splits)

lemma GetSortedAxes_ok:
  "axis_selection_ok (Some as) n \<Longrightarrow> GetSortedAxes as n = Inr (selected_axes (Some as) n)"
  by (simp add: axis_selection_ok_def GetSortedAxes_def NormalizeAxes_ok selected_axes_def)

lemma GetSortedAxes_error: "GetSortedAxes as n = Inl e \<Longrightarrow> e = AxisError"
  by (auto simp: GetSortedAxes_def bind_err_def NormalizeAxes_error split: sum.splits if_splits)

lemma ReshapeOrIdentity_ok:
  "GetTotalSize a = prod_list s \<Longrightarrow> ReshapeOrIdentity a s = Inr (a\<lparr>shape := s\<rparr>)"
  by (auto simp: ReshapeOrIdentity_def Reshape_def)

lemma axis_step:
  "axis_selection_ok axis n \<Longrightarrow>
   (case axis of Some a \<Rightarrow> GetSortedAxes a n | None \<Rightarrow> Inr [0]) = Inr (selected_axes axis n)"
  by (cases axis) (simp_all add: GetSortedAxes_ok, simp add: selected_axes_def)

lemma axis_step_error:
  "(case axis of Some a \<Rightarrow> GetSortedAxes a n | None \<Rightarrow> Inr [0]) = Inl e \<Longrightarrow> e = AxisError"
  by (cases axis) (auto dest: GetSortedAxes_error)

lemma Preprocess_dtype:
  "PreprocessBatchNorm x gamma beta mean var axis = Inl DtypeError
     \<longleftrightarrow> \<not> all_floating [x, gamma, beta, mean, var]"
proof (cases "all_floating [x, gamma, beta, mean, var]")
  case False
  then show ?thesis
    by (auto simp: all_floating_def PreprocessBatchNorm_def CheckBatchNormSupportedKind_def)
next
  case True
  then have chk: "CheckBatchNormSupportedKind x = Inr ()" "CheckBatchNormSupportedKind gamma = Inr ()"
    "CheckBatchNormSupportedKind beta = Inr ()" "CheckBatchNormSupportedKind mean = Inr ()"
    "CheckBatchNormSupportedKind var = Inr ()"
    by (simp_all add: all_floating_def CheckBatchNormSupportedKind_def)
  have "PreprocessBatchNorm x gamma beta mean var axis \<noteq> Inl DtypeError"
    unfolding PreprocessBatchNorm_def chk bind_err_simps
    by (auto simp: bind_err_def Let_def ReshapeOrIdentity_def Reshape_def
        split: sum.splits dest: axis_step_error)
  with True show ?thesis by simp
qed

lemma Preprocess_floats:
  assumes "all_floating [x, gamma, beta, mean, var]" "axis_selection_ok axis (ndim x)"
  shows "PreprocessBatchNorm x gamma beta mean var axis =
     (let reduced_shape = ReduceShape (shape x) (selected_axes axis (ndim x))
      in if \<exists>a \<in> set [gamma, beta, mean, var]. GetTotalSize a \<noteq> prod_list reduced_shape
         then Inl DimensionError
         else Inr \<lparr>res_gamma = gamma\<lparr>shape := reduced_shape\<rparr>,
                   res_beta = beta\<lparr>shape := reduced_shape\<rparr>,
                   res_mean = mean\<lparr>shape := reduced_shape\<rparr>,
                   res_var = var\<lparr>shape := reduced_shape\<rparr>,
                   res_sorted_axis = selected_axes axis (ndim x)\<rparr>)"
proof -
  from assms(1) have chk: "CheckBatchNormSupportedKind x = Inr ()" "CheckBatchNormSupportedKind gamma = Inr ()"
    "CheckBatchNormSupportedKind beta = Inr ()" "CheckBatchNormSupportedKind mean = Inr ()"
    "CheckBatchNormSupportedKind var = Inr ()"
    by (simp_all add: all_floating_def CheckBatchNormSupportedKind_def)
  show ?thesis
    unfolding PreprocessBatchNorm_def chk bind_err_simps axis_step[OF assms(2)]
    by (auto simp: Let_def ReshapeOrIdentity_ok)
qed

text \<open>
  Claim C7. The preprocessor raises a dtype error exactly when one of the five inputs is
  not of floating kind. When all are floating and the axis selection is in range and
  free of duplicates, it raises a dimension error exactly when one of \<open>gamma\<close>,
  \<open>beta\<close>, \<open>mean\<close>, \<open>var\<close> has a total size other than the product of the reduced
  shape, and otherwise returns the four arrays with the reduced shape, on their own
  elements, together with the sorted axes. (The axis selection is validated after the
  dtypes and before the sizes.)
\<close>

theorem PreprocessBatchNorm_outcomes:
  "(PreprocessBatchNorm x gamma beta mean var axis = Inl DtypeError
      \<longleftrightarrow> \<not> all_floating [x, gamma, beta, mean, var]) \<and>
   (all_floating [x, gamma, beta, mean, var] \<and> axis_selection_ok axis (ndim x) \<longrightarrow>
      (PreprocessBatchNorm x gamma beta mean var axis = Inl DimensionError
         \<longleftrightarrow> (\<exists>a \<in> set [gamma, beta, mean, var].
                GetTotalSize a \<noteq> prod_list (ReduceShape (shape x) (selected_axes axis (ndim x))))) \<and>
      ((\<forall>a \<in> set [gamma, beta, mean, var].
          GetTotalSize a = prod_list (ReduceShape (shape x) (selected_axes axis (ndim x)))) \<longrightarrow>
       PreprocessBatchNorm x gamma beta mean var axis =
         Inr \<lparr>res_gamma = gamma\<lparr>shape := ReduceShape (shape x) (selected_axes axis (ndim x))\<rparr>,
              res_beta = beta\<lparr>shape := ReduceShape (shape x) (selected_axes axis (ndim x))\<rparr>,
              res_mean = mean\<lparr>shape := ReduceShape (shape x) (selected_axes axis (ndim x))\<rparr>,
              res_var = var\<lparr>shape := ReduceShape (shape x) (selected_axes axis (ndim x))\<rparr>,
              res_sorted_axis = selected_axes axis (ndim x)\<rparr>))"
proof (intro conjI impI)
  show "PreprocessBatchNorm x gamma beta mean var axis = Inl DtypeError
      \<longleftrightarrow> \<not> all_floating [x, gamma, beta, mean, var]"
    by (rule Preprocess_dtype)
next
  assume a: "all_floating [x, gamma, beta, mean, var] \<and> axis_selection_ok axis (ndim x)"
  then show "PreprocessBatchNorm x gamma beta mean var axis = Inl DimensionError
         \<longleftrightarrow> (\<exists>a \<in> set [gamma, beta, mean, var].
                GetTotalSize a \<noteq> prod_list (ReduceShape (shape x) (selected_axes axis (ndim x))))"
    by (simp add: Preprocess_floats Let_def)
next
  assume a: "all_floating [x, gamma, beta, mean, var] \<and> axis_selection_ok axis (ndim x)"
    and b: "\<forall>a \<in> set [gamma, beta, mean, var].
          GetTotalSize a = prod_list (ReduceShape (shape x) (selected_axes axis (ndim x)))"
  from a b show "PreprocessBatchNorm x gamma beta mean var axis =
         Inr \<lparr>res_gamma = gamma\<lparr>shape := ReduceShape (shape x) (selected_axes axis (ndim x))\<rparr>,
              res_beta = beta\<lparr>shape := ReduceShape (shape x) (selected_axes axis (ndim x))\<rparr>,
              res_mean = mean\<lparr>shape := ReduceShape (shape x) (selected_axes axis (ndim x))\<rparr>,
              res_var = var\<lparr>shape := ReduceShape (shape x) (selected_axes axis (ndim x))\<rparr>,
              res_sorted_axis = selected_axes axis (ndim x)\<rparr>"
    by (simp add: Preprocess_floats Let_def)
qed

theorem PreprocessBatchNorm_outcomes_witness:
  "all_floating [ex_x, ex_gamma, ex_beta, ex_running_mean, ex_running_var] \<and>
   axis_selection_ok (Some [-2]) (ndim ex_x) \<and>
   PreprocessBatchNorm ex_x ex_gamma ex_beta ex_running_mean ex_running_var (Some [-2]) =
     Inr \<lparr>res_gamma = ex_gamma\<lparr>shape := [1, 3]\<rparr>, res_beta = ex_beta\<lparr>shape := [1, 3]\<rparr>,
          res_mean = ex_running_mean\<lparr>shape := [1, 3]\<rparr>,
          res_var = ex_running_var\<lparr>shape := [1, 3]\<rparr>, res_sorted_axis = [0]\<rparr>"
proof -
  have fl: "all_floating [ex_x, ex_gamma, ex_beta, ex_running_mean, ex_running_var]"
    by (simp add: all_floating_def ex_x_def ex_gamma_def ex_beta_def ex_running_mean_def
        ex_running_var_def)
  have ax: "axis_selection_ok (Some [-2]) (ndim ex_x)"
    by (simp add: axis_selection_ok_def ndim_def ex_x_def)
  have sel: "selected_axes (Some [-2]) (ndim ex_x) = [0]"
    by (simp add: selected_axes_def resolve_axis_def ndim_def ex_x_def)
  have red: "ReduceShape (shape ex_x) [0] = [1, 3]"
    by (simp add: ReduceShape_def ex_x_def)
  have sz: "\<forall>a \<in> set [ex_gamma, ex_beta, ex_running_mean, ex_running_var].
              GetTotalSize a = prod_list (ReduceShape (shape ex_x) (selected_axes (Some [-2]) (ndim ex_x)))"
    by (simp add: sel red GetTotalSize_def ex_gamma_def ex_beta_def ex_running_mean_def
        ex_running_var_def)
  from PreprocessBatchNorm_outcomes[of ex_x ex_gamma ex_beta ex_running_mean ex_running_var
      "Some [-2]"] fl ax sz
  have "PreprocessBatchNorm ex_x ex_gamma ex_beta ex_running_mean ex_running_var (Some [-2]) =
     Inr \<lparr>res_gamma = ex_gamma\<lparr>shape := ReduceShape (shape ex_x) (selected_axes (Some [-2]) (ndim ex_x))\<rparr>,
          res_beta = ex_beta\<lparr>shape := ReduceShape (shape ex_x) (selected_axes (Some [-2]) (ndim ex_x))\<rparr>,
          res_mean = ex_running_mean\<lparr>shape := ReduceShape (shape ex_x) (selected_axes (Some [-2]) (ndim ex_x))\<rparr>,
          res_var = ex_running_var\<lparr>shape := ReduceShape (shape ex_x) (selected_axes (Some [-2]) (ndim ex_x))\<rparr>,
          res_sorted_axis = selected_axes (Some [-2]) (ndim ex_x)\<rparr>"
    by blast
  with fl ax show ?thesis by (simp add: sel red)
qed

text \<open>
  Claim C8. When the preprocessing of \<^verbatim>\<open>BatchNorm\<close> raises an error, that error is the
  outcome of the call, \<open>running_mean\<close> and \<open>running_var\<close> are exactly what they were,
  and no state is captured.
\<close>

theorem BatchNorm_preprocess_error:
  "PreprocessBatchNorm x gamma beta running_mean running_var axis = Inl e \<Longrightarrow>
   BatchNorm K x gamma beta running_mean running_var eps decay axis =
     \<lparr>bn_result = Inl e, bn_running_mean = running_mean, bn_running_var = running_var,
      bn_state = None\<rparr>"
  by (simp add: BatchNorm_def)

theorem BatchNorm_preprocess_error_witness:
  "PreprocessBatchNorm ex_x ex_int_gamma ex_beta ex_running_mean ex_running_var None
     = Inl DtypeError \<and>
   BatchNorm ieee_exact ex_x ex_int_gamma ex_beta ex_running_mean ex_running_var
       (Num 4) (Num 1) None =
     \<lparr>bn_result = Inl DtypeError, bn_running_mean = ex_running_mean,
      bn_running_var = ex_running_var, bn_state = None\<rparr>"
proof -
  have e: "PreprocessBatchNorm ex_x ex_int_gamma ex_beta ex_running_mean ex_running_var None
             = Inl DtypeError"
    by (simp add: PreprocessBatchNorm_def CheckBatchNormSupportedKind_def ex_x_def
        ex_int_gamma_def)
  from BatchNorm_preprocess_error[OF e] e show ?thesis by simp
qed

text \<open>
  Claim C10. The first-order backward operator does not depend on its argument \<open>eps\<close>:
  with two values of \<open>eps\<close> and otherwise the same arguments, the captured state
  included, it gives the same outcome and the same \<open>gx\<close>, \<open>ggamma\<close> and \<open>gbeta\<close>.
\<close>

theorem BackwardOp_eps_irrelevant:
  "GenericBatchNormBackwardOp K x gamma gout eps1 axis gx ggamma gbeta state =
   GenericBatchNormBackwardOp K x gamma gout eps2 axis gx ggamma gbeta state"
  by (simp add: GenericBatchNormBackwardOp_def)

subsection \<open>The kernel core\<close>

lemma ApplyBatchNorm_ok:
  assumes "apply_bn_valid x gamma beta mean var axis out interm_dtype"
  shows "ApplyBatchNorm K x gamma beta mean var eps axis out interm_dtype =
     Inr (cast_into K (spec_out_intermediate K x gamma beta mean
                         (spec_inv_std K var eps interm_dtype) interm_dtype) out,
          spec_inv_std K var eps interm_dtype)"
  using assms
  by (simp add: apply_bn_valid_def ApplyBatchNorm_def Let_def spec_inv_std_def
      spec_out_intermediate_def)

lemma spec_out_intermediate_simps [simp]:
  "dtype (spec_out_intermediate K x gamma beta mean inv_std d) = d"
  by (simp add: spec_out_intermediate_def)

lemma spec_out_intermediate_shape:
  "broadcasts_to (shape mean) (shape x) \<Longrightarrow> broadcasts_to (shape inv_std) (shape x) \<Longrightarrow>
   broadcasts_to (shape gamma) (shape x) \<Longrightarrow> broadcasts_to (shape beta) (shape x) \<Longrightarrow>
   shape (spec_out_intermediate K x gamma beta mean inv_std d) = shape x"
  by (simp add: spec_out_intermediate_def)

text \<open>
  Claim C1. On every valid input the kernel core raises nothing, stores into the buffer
  \<open>out\<close> the conversion to the dtype of \<open>out\<close> of
  \<open>(x - mean) * inv_std * gamma + beta\<close>, and returns \<open>inv_std = 1 / sqrt(var + eps)\<close>,
  an array of dtype \<open>interm_dtype\<close>; the operands are converted to \<open>interm_dtype\<close>
  and every operation is the one of \<open>interm_dtype\<close>. The last two parts state the
  same element by element, the auxiliary arrays being read at the broadcast position.
\<close>

theorem ApplyBatchNorm_computes:
  assumes "apply_bn_valid x gamma beta mean var axis out interm_dtype"
  shows "ApplyBatchNorm K x gamma beta mean var eps axis out interm_dtype =
           Inr (cast_into K (spec_out_intermediate K x gamma beta mean
                               (spec_inv_std K var eps interm_dtype) interm_dtype) out,
                spec_inv_std K var eps interm_dtype) \<and>
         dtype (spec_inv_std K var eps interm_dtype) = interm_dtype \<and>
         (\<forall>j < prod_list (shape var).
            data (spec_inv_std K var eps interm_dtype) ! j =
              k_div K interm_dtype (k_lit K interm_dtype 1)
                (k_sqrt K interm_dtype
                   (k_add K interm_dtype (conv K (dtype var) interm_dtype (data var ! j))
                      (scalar_as K interm_dtype eps)))) \<and>
         (\<forall>k < prod_list (shape x).
            data (cast_into K (spec_out_intermediate K x gamma beta mean
                                 (spec_inv_std K var eps interm_dtype) interm_dtype) out) ! k =
              k_cast K interm_dtype (dtype out)
                (k_add K interm_dtype
                   (k_mul K interm_dtype
                      (k_mul K interm_dtype
                         (k_sub K interm_dtype
                            (conv K (dtype x) interm_dtype (data x ! k))
                            (conv K (dtype mean) interm_dtype
                               (data mean ! src_index (shape x) (shape mean) k)))
                         (data (spec_inv_std K var eps interm_dtype)
                            ! src_index (shape x) (shape var) k))
                      (conv K (dtype gamma) interm_dtype
                         (data gamma ! src_index (shape x) (shape gamma) k)))
                   (conv K (dtype beta) interm_dtype
                      (data beta ! src_index (shape x) (shape beta) k))))"
proof (intro conjI allI impI)
  show "ApplyBatchNorm K x gamma beta mean var eps axis out interm_dtype =
           Inr (cast_into K (spec_out_intermediate K x gamma beta mean
                               (spec_inv_std K var eps interm_dtype) interm_dtype) out,
                spec_inv_std K var eps interm_dtype)"
    by (rule ApplyBatchNorm_ok[OF assms])
next
  show "dtype (spec_inv_std K var eps interm_dtype) = interm_dtype" by simp
next
  fix j assume "j < prod_list (shape var)"
  then show "data (spec_inv_std K var eps interm_dtype) ! j =
              k_div K interm_dtype (k_lit K interm_dtype 1)
                (k_sqrt K interm_dtype
                   (k_add K interm_dtype (conv K (dtype var) interm_dtype (data var ! j))
                      (scalar_as K interm_dtype eps)))"
    using assms by (simp add: spec_inv_std_nth apply_bn_valid_def wf_array_def)
next
  fix k assume k: "k < prod_list (shape x)"
  from assms have b: "broadcasts_to (shape mean) (shape x)"
    "broadcasts_to (shape (spec_inv_std K var eps interm_dtype)) (shape x)"
    "broadcasts_to (shape gamma) (shape x)" "broadcasts_to (shape beta) (shape x)"
    and wf: "wf_array x" "wf_array gamma" "wf_array beta" "wf_array mean"
    by (simp_all add: apply_bn_valid_def)
  have len: "length (data (spec_out_intermediate K x gamma beta mean
                 (spec_inv_std K var eps interm_dtype) interm_dtype)) = prod_list (shape x)"
    using b by (simp add: spec_out_intermediate_def)
  show "data (cast_into K (spec_out_intermediate K x gamma beta mean
                                 (spec_inv_std K var eps interm_dtype) interm_dtype) out) ! k =
              k_cast K interm_dtype (dtype out)
                (k_add K interm_dtype
                   (k_mul K interm_dtype
                      (k_mul K interm_dtype
                         (k_sub K interm_dtype
                            (conv K (dtype x) interm_dtype (data x ! k))
                            (conv K (dtype mean) interm_dtype
                               (data mean ! src_index (shape x) (shape mean) k)))
                         (data (spec_inv_std K var eps interm_dtype)
                            ! src_index (shape x) (shape var) k))
                      (conv K (dtype gamma) interm_dtype
                         (data gamma ! src_index (shape x) (shape gamma) k)))
                   (conv K (dtype beta) interm_dtype
                      (data beta ! src_index (shape x) (shape beta) k)))"
    using k len spec_out_intermediate_nth[OF b wf k, of K interm_dtype]
    by (simp add: cast_into_nth)
qed

lemma upt12: "[0..<12] = [0, 1, 2, 3, 4, 5, 6, 7, 8, 9, 10, 11::nat]"
  by code_simp

lemma sqrt9: "sqrt 9 = 3"
  by (rule real_sqrt_unique) simp_all

lemmas ex_defs = ex_x_def ex_gamma_def ex_beta_def ex_mean_def ex_var_def ex_running_mean_def
  ex_running_var_def

lemmas eval_defs = cast_into_def add_arr_def mul_arr_def sub_arr_def div_arr_def ewise2_def
  ewise1_def AsType_def Reciprocal_def Sqrt_def AddAS_def MultiplyAS_def IMultiplyAS_def
  Negative_def ieee_exact_def src_index_def pad_shape_def scalar_as_def fin_def
  broadcast_shape_def Let_def EmptyLike_def Empty_def f_sub_def sqrt9 upt12

theorem ApplyBatchNorm_computes_witness:
  "apply_bn_valid ex_x (ex_gamma\<lparr>shape := [1, 3]\<rparr>) (ex_beta\<lparr>shape := [1, 3]\<rparr>) ex_mean ex_var
     [0] (EmptyLike ieee_exact ex_x) kFloat64 \<and>
   ApplyBatchNorm ieee_exact ex_x (ex_gamma\<lparr>shape := [1, 3]\<rparr>) (ex_beta\<lparr>shape := [1, 3]\<rparr>)
       ex_mean ex_var (Num 4) [0] (EmptyLike ieee_exact ex_x) kFloat64 =
     Inr (\<lparr>dtype = kFloat32, shape = [4, 3],
           data = [Num (-1), Num (-1), Num (-1), Num (-1/3), Num (-1/3), Num (-1/3),
                   Num (1/3), Num (1/3), Num (1/3), Num 1, Num 1, Num 1]\<rparr>,
          \<lparr>dtype = kFloat64, shape = [3], data = [Num (1/3), Num (1/3), Num (1/3)]\<rparr>)"
proof -
  have v: "apply_bn_valid ex_x (ex_gamma\<lparr>shape := [1, 3]\<rparr>) (ex_beta\<lparr>shape := [1, 3]\<rparr>)
             ex_mean ex_var [0] (EmptyLike ieee_exact ex_x) kFloat64"
    by (simp add: apply_bn_valid_def all_floating_def wf_array_def ex_defs ReduceShape_def
        GetTotalSize_def broadcasts_to_def broadcastable_def broadcast_shape_def pad_shape_def
        axes_ok_def ndim_def Let_def del: broadcasts_toD)
  from ApplyBatchNorm_computes[OF v, of ieee_exact "Num 4"]
  have "ApplyBatchNorm ieee_exact ex_x (ex_gamma\<lparr>shape := [1, 3]\<rparr>) (ex_beta\<lparr>shape := [1, 3]\<rparr>)
          ex_mean ex_var (Num 4) [0] (EmptyLike ieee_exact ex_x) kFloat64 =
        Inr (cast_into ieee_exact
               (spec_out_intermediate ieee_exact ex_x (ex_gamma\<lparr>shape := [1, 3]\<rparr>)
                  (ex_beta\<lparr>shape := [1, 3]\<rparr>) ex_mean
                  (spec_inv_std ieee_exact ex_var (Num 4) kFloat64) kFloat64)
               (EmptyLike ieee_exact ex_x),
             spec_inv_std ieee_exact ex_var (Num 4) kFloat64)"
    by blast
  also have "\<dots> =
     Inr (\<lparr>dtype = kFloat32, shape = [4, 3],
           data = [Num (-1), Num (-1), Num (-1), Num (-1/3), Num (-1/3), Num (-1/3),
                   Num (1/3), Num (1/3), Num (1/3), Num 1, Num 1, Num 1]\<rparr>,
          \<lparr>dtype = kFloat64, shape = [3], data = [Num (1/3), Num (1/3), Num (1/3)]\<rparr>)"
    by (simp add: ex_defs spec_inv_std_def spec_out_intermediate_def eval_defs)
  finally show ?thesis using v by simp
qed

subsection \<open>The training forward operator\<close>

lemma PromoteTypes_float:
  "GetKind d1 = KindFloat \<Longrightarrow> GetKind d2 = KindFloat \<Longrightarrow> GetKind (PromoteTypes d1 d2) = KindFloat"
  by (simp add: PromoteTypes_def)

lemma fwd_interm_dtype_float:
  "all_floating [x, gamma, beta] \<Longrightarrow> GetKind (fwd_interm_dtype x gamma beta) = KindFloat"
  by (simp add: fwd_interm_dtype_def all_floating_def PromoteTypes_float)

lemma spec_x_simps [simp]:
  "dtype (spec_x_mean K x axis d) = d" "shape (spec_x_mean K x axis d) = ReduceShape (shape x) axis"
  "length (data (spec_x_mean K x axis d)) = prod_list (ReduceShape (shape x) axis)"
  "dtype (spec_x_var K x axis d) = d" "shape (spec_x_var K x axis d) = ReduceShape (shape x) axis"
  "length (data (spec_x_var K x axis d)) = prod_list (ReduceShape (shape x) axis)"
  by (simp_all add: spec_x_mean_def spec_x_var_def)

lemma size_quotient_ok [simp]:
  "GetTotalSize gamma \<noteq> 0 \<Longrightarrow> size_quotient x gamma = Inr (spec_n x gamma)"
  by (simp add: size_quotient_def spec_n_def)

lemma fwd_apply_bn_valid:
  assumes "fwd_valid x gamma beta running_mean running_var axis out"
  shows "apply_bn_valid x gamma beta
           (spec_x_mean K x axis (fwd_interm_dtype x gamma beta))
           (spec_x_var K x axis (fwd_interm_dtype x gamma beta)) axis out
           (fwd_interm_dtype x gamma beta)"
proof -
  from assms have "all_floating [x, gamma, beta]" by (simp add: fwd_valid_def all_floating_def)
  from fwd_interm_dtype_float[OF this] assms show ?thesis
    by (simp add: fwd_valid_def apply_bn_valid_def all_floating_def wf_array_def GetTotalSize_def)
qed

lemma ForwardOp_ok:
  assumes "fwd_valid x gamma beta running_mean running_var axis out"
  shows "GenericBatchNormForwardOp K x gamma beta running_mean running_var eps decay axis out state =
    (let interm_dtype = fwd_interm_dtype x gamma beta;
         x_mean = spec_x_mean K x axis interm_dtype;
         x_var = spec_x_var K x axis interm_dtype;
         x_inv_std = spec_inv_std K x_var eps interm_dtype
     in (None,
         \<lparr>fb_running_mean = spec_running_update K running_mean decay
                              (MultiplyAS K x_mean (spec_inv_decay K decay)),
          fb_running_var = spec_running_update K running_var decay
                             (MultiplyAS K x_var
                                (k_mul K kFloat64 (spec_inv_decay K decay)
                                   (spec_adjust K (spec_n x gamma)))),
          fb_out = cast_into K (spec_out_intermediate K x gamma beta x_mean x_inv_std
                                  interm_dtype) out,
          fb_state = (if state \<noteq> None
                      then Some (Some \<lparr>st_x_mean = x_mean, st_x_inv_std = x_inv_std\<rparr>)
                      else state)\<rparr>))"
proof -
  have xc: "(if dtype x = d then x else AsType K x d) = AsType K x d" for d
    by (simp add: AsType_def)
  note ab = ApplyBatchNorm_ok[OF fwd_apply_bn_valid[OF assms], of K K eps]
  from assms have fl: "GetKind (dtype x) = KindFloat" "GetKind (dtype gamma) = KindFloat"
    "GetKind (dtype beta) = KindFloat" "GetKind (dtype running_mean) = KindFloat"
    "GetKind (dtype running_var) = KindFloat"
    and ax: "axes_ok axis (length (shape x))"
    and sh: "shape running_mean = ReduceShape (shape x) axis"
            "shape running_var = ReduceShape (shape x) axis"
    and nz: "GetTotalSize gamma \<noteq> 0"
    by (simp_all add: fwd_valid_def all_floating_def ndim_def)
  show ?thesis
    unfolding GenericBatchNormForwardOp_def Let_def xc
    using fl ax sh nz
    by (simp add: ab[unfolded fwd_interm_dtype_def spec_x_mean_def spec_x_var_def]
        fwd_interm_dtype_def spec_x_mean_def spec_x_var_def spec_running_update_def
        spec_inv_decay_def spec_adjust_def IMultiplyAS_def del: ResultType.simps)
qed

lemma spec_running_update_nth:
  assumes "wf_array running" "shape update = shape running"
    "length (data update) = prod_list (shape running)" "j < prod_list (shape running)"
  shows "data (spec_running_update K running decay update) ! j =
     k_add K (dtype running)
       (k_mul K (dtype running) (data running ! j) (scalar_as K (dtype running) decay))
       (conv K (dtype update) (dtype running) (data update ! j))"
  using assms
  by (simp add: spec_running_update_def arr_nth src_index_same unary_nth AsType_nth wf_array_def)

lemma ForwardOp_running_nth:
  assumes "fwd_valid x gamma beta running_mean running_var axis out"
    and "j < prod_list (ReduceShape (shape x) axis)"
  shows "data (fb_running_mean (snd (GenericBatchNormForwardOp K x gamma beta running_mean
                                      running_var eps decay axis out state))) ! j =
          k_add K (dtype running_mean)
            (k_mul K (dtype running_mean) (data running_mean ! j)
               (scalar_as K (dtype running_mean) decay))
            (conv K (fwd_interm_dtype x gamma beta) (dtype running_mean)
               (k_mul K (fwd_interm_dtype x gamma beta)
                  (data (spec_x_mean K x axis (fwd_interm_dtype x gamma beta)) ! j)
                  (scalar_as K (fwd_interm_dtype x gamma beta) (spec_inv_decay K decay)))) \<and>
        data (fb_running_var (snd (GenericBatchNormForwardOp K x gamma beta running_mean
                                     running_var eps decay axis out state))) ! j =
          k_add K (dtype running_var)
            (k_mul K (dtype running_var) (data running_var ! j)
               (scalar_as K (dtype running_var) decay))
            (conv K (fwd_interm_dtype x gamma beta) (dtype running_var)
               (k_mul K (fwd_interm_dtype x gamma beta)
                  (data (spec_x_var K x axis (fwd_interm_dtype x gamma beta)) ! j)
                  (scalar_as K (fwd_interm_dtype x gamma beta)
                     (k_mul K kFloat64 (spec_inv_decay K decay)
                        (spec_adjust K (spec_n x gamma))))))"
proof -
  from assms have wf: "wf_array running_mean" "wf_array running_var"
    and sh: "shape running_mean = ReduceShape (shape x) axis"
            "shape running_var = ReduceShape (shape x) axis"
    by (simp_all add: fwd_valid_def)
  show ?thesis
    unfolding ForwardOp_ok[OF assms(1)] Let_def
    using wf sh assms(2)
    by (simp add: spec_running_update_nth unary_nth)
qed

text \<open>
  Claim C2. After a valid training forward call, which raises nothing, \<open>running_mean\<close>
  is \<open>decay * running_mean + (inv_decay * x_mean)\<close> with the second summand converted to
  the dtype of \<open>running_mean\<close>, and \<open>running_var\<close> is
  \<open>decay * running_var + (inv_decay * adjust * x_var)\<close> with the second summand converted
  to the dtype of \<open>running_var\<close>, where \<open>n\<close> is the quotient of the sizes of \<open>x\<close> and
  \<open>gamma\<close>, \<open>inv_decay = 1 - decay\<close>, \<open>adjust = n / max(n - 1, 1)\<close>, and \<open>x_mean\<close>,
  \<open>x_var\<close> are the keepdims mean and population variance of \<open>x\<close> in the intermediate
  dtype. The last part states the same element by element.
\<close>

theorem ForwardOp_running_statistics:
  assumes "fwd_valid x gamma beta running_mean running_var axis out"
  shows "fst (GenericBatchNormForwardOp K x gamma beta running_mean running_var eps decay axis
                out state) = None \<and>
     fb_running_mean (snd (GenericBatchNormForwardOp K x gamma beta running_mean running_var
                             eps decay axis out state)) =
       spec_running_update K running_mean decay
         (MultiplyAS K (spec_x_mean K x axis (fwd_interm_dtype x gamma beta))
            (spec_inv_decay K decay)) \<and>
     fb_running_var (snd (GenericBatchNormForwardOp K x gamma beta running_mean running_var
                            eps decay axis out state)) =
       spec_running_update K running_var decay
         (MultiplyAS K (spec_x_var K x axis (fwd_interm_dtype x gamma beta))
            (k_mul K kFloat64 (spec_inv_decay K decay) (spec_adjust K (spec_n x gamma)))) \<and>
     (\<forall>j < prod_list (ReduceShape (shape x) axis).
        data (fb_running_mean (snd (GenericBatchNormForwardOp K x gamma beta running_mean
                                      running_var eps decay axis out state))) ! j =
          k_add K (dtype running_mean)
            (k_mul K (dtype running_mean) (data running_mean ! j)
               (scalar_as K (dtype running_mean) decay))
            (conv K (fwd_interm_dtype x gamma beta) (dtype running_mean)
               (k_mul K (fwd_interm_dtype x gamma beta)
                  (data (spec_x_mean K x axis (fwd_interm_dtype x gamma beta)) ! j)
                  (scalar_as K (fwd_interm_dtype x gamma beta) (spec_inv_decay K decay)))) \<and>
        data (fb_running_var (snd (GenericBatchNormForwardOp K x gamma beta running_mean
                                     running_var eps decay axis out state))) ! j =
          k_add K (dtype running_var)
            (k_mul K (dtype running_var) (data running_var ! j)
               (scalar_as K (dtype running_var) decay))
            (conv K (fwd_interm_dtype x gamma beta) (dtype running_var)
               (k_mul K (fwd_interm_dtype x gamma beta)
                  (data (spec_x_var K x axis (fwd_interm_dtype x gamma beta)) ! j)
                  (scalar_as K (fwd_interm_dtype x gamma beta)
                     (k_mul K kFloat64 (spec_inv_decay K decay)
                        (spec_adjust K (spec_n x gamma)))))))"
proof -
  have "fst (GenericBatchNormForwardOp K x gamma beta running_mean running_var eps decay axis
                out state) = None"
    and "fb_running_mean (snd (GenericBatchNormForwardOp K x gamma beta running_mean running_var
                             eps decay axis out state)) =
       spec_running_update K running_mean decay
         (MultiplyAS K (spec_x_mean K x axis (fwd_interm_dtype x gamma beta))
            (spec_inv_decay K decay))"
    and "fb_running_var (snd (GenericBatchNormForwardOp K x gamma beta running_mean running_var
                            eps decay axis out state)) =
       spec_running_update K running_var decay
         (MultiplyAS K (spec_x_var K x axis (fwd_interm_dtype x gamma beta))
            (k_mul K kFloat64 (spec_inv_decay K decay) (spec_adjust K (spec_n x gamma))))"
    unfolding ForwardOp_ok[OF assms] Let_def by simp_all
  then show ?thesis
    using ForwardOp_running_nth[OF assms, of _ K eps decay state] by blast
qed

lemma BinaryOp_Inr: "BinaryOp f a b = Inr c \<Longrightarrow> c = ewise2 f a b"
  by (simp add: BinaryOp_def split: if_splits)

lemma binary_Inr:
  "Add K a b = Inr c \<Longrightarrow> c = add_arr K a b"
  "Subtract K a b = Inr c \<Longrightarrow> c = sub_arr K a b"
  "Multiply K a b = Inr c \<Longrightarrow> c = mul_arr K a b"
  "Divide K a b = Inr c \<Longrightarrow> c = div_arr K a b"
  by (simp_all add: Add_def Subtract_def Multiply_def Divide_def add_arr_def sub_arr_def
      mul_arr_def div_arr_def BinaryOp_Inr)

lemma IAdd_Inr: "IAdd K a b = Inr c \<Longrightarrow> c = add_arr K a b"
  by (simp add: IAdd_def add_arr_def split: if_splits)

lemma reduction_Inr:
  "Sum K a axes = Inr c \<Longrightarrow> c = sum_arr K a axes"
  "Mean K a axes = Inr c \<Longrightarrow> c = reduce_cells (k_mean K) a axes"
  "Var K a axes = Inr c \<Longrightarrow> c = reduce_cells (k_var K) a axes"
  by (simp_all add: Sum_def Mean_def Var_def Reduction_def sum_arr_def split: if_splits)

lemma device_AsType_Inr: "device_AsType K a out = Inr c \<Longrightarrow> c = cast_into K a out"
  by (simp add: device_AsType_def split: if_splits)

lemma size_quotient_Inr: "size_quotient x gamma = Inr n \<Longrightarrow> n = spec_n x gamma"
  by (simp add: size_quotient_def spec_n_def split: if_splits)

lemma bind_err_Inr: "bind_err m f = Inr v \<Longrightarrow> \<exists>u. m = Inr u \<and> f u = Inr v"
  by (cases m) simp_all

lemma ApplyBatchNorm_Inr:
  assumes "ApplyBatchNorm K x gamma beta mean var eps axis out interm_dtype = Inr (out', inv_std)"
  shows "out' = cast_into K (spec_out_intermediate K x gamma beta mean
                               (spec_inv_std K var eps interm_dtype) interm_dtype) out \<and>
         inv_std = spec_inv_std K var eps interm_dtype"
  using assms
  by (auto simp: ApplyBatchNorm_def Let_def spec_out_intermediate_def spec_inv_std_def
      split: if_splits dest!: bind_err_Inr binary_Inr device_AsType_Inr)

lemma fst_try_or_None:
  "fst (try_or m s f) = None \<longleftrightarrow> (\<exists>v. m = Inr v \<and> fst (f v) = None)"
  by (cases m) simp_all

lemma ForwardOp_success:
  assumes "fst (GenericBatchNormForwardOp K x gamma beta running_mean running_var eps decay axis
                  out state) = None"
  shows "snd (GenericBatchNormForwardOp K x gamma beta running_mean running_var eps decay axis
                out state) =
    (let interm_dtype = fwd_interm_dtype x gamma beta;
         x_mean = spec_x_mean K x axis interm_dtype;
         x_var = spec_x_var K x axis interm_dtype;
         x_inv_std = spec_inv_std K x_var eps interm_dtype
     in \<lparr>fb_running_mean = spec_running_update K running_mean decay
                              (MultiplyAS K x_mean (spec_inv_decay K decay)),
          fb_running_var = spec_running_update K running_var decay
                             (MultiplyAS K x_var
                                (k_mul K kFloat64 (spec_inv_decay K decay)
                                   (spec_adjust K (spec_n x gamma)))),
          fb_out = cast_into K (spec_out_intermediate K x gamma beta x_mean x_inv_std
                                  interm_dtype) out,
          fb_state = (if state \<noteq> None
                      then Some (Some \<lparr>st_x_mean = x_mean, st_x_inv_std = x_inv_std\<rparr>)
                      else state)\<rparr>)"
proof -
  have xc: "(if dtype x = d then x else AsType K x d) = AsType K x d" for d
    by (simp add: AsType_def)
  show ?thesis
    using assms
    unfolding GenericBatchNormForwardOp_def Let_def xc
    apply (clarsimp simp: fst_try_or_None simp del: ResultType.simps reduction_ok split: prod.splits)
    apply (auto simp: fwd_interm_dtype_def spec_x_mean_def spec_x_var_def
        spec_running_update_def spec_inv_decay_def spec_adjust_def IMultiplyAS_def
        simp del: ResultType.simps reduction_ok
        dest!: reduction_Inr(2,3) ApplyBatchNorm_Inr IAdd_Inr size_quotient_Inr)
    done
qed


lemma ForwardOp_failure_state:
  "fst (GenericBatchNormForwardOp K x gamma beta running_mean running_var eps decay axis
          out state) = Some e \<Longrightarrow>
   fb_state (snd (GenericBatchNormForwardOp K x gamma beta running_mean running_var eps decay axis
                    out state)) = state"
  unfolding GenericBatchNormForwardOp_def Let_def
  by (auto simp: try_or_def split: sum.splits if_splits prod.splits)

text \<open>
  Claim C6. A training forward call that requests state capture and raises nothing stores
  the pair \<open>(x_mean, x_inv_std)\<close> into the state slot, and both arrays have the
  intermediate dtype, the result type of \<open>x\<close>, \<open>gamma\<close> and \<open>beta\<close>. Every valid call
  raises nothing, and a call that raises leaves the state slot as it was.
\<close>

theorem ForwardOp_state_dtype:
  "(fwd_valid x gamma beta running_mean running_var axis out \<longrightarrow>
      fst (GenericBatchNormForwardOp K x gamma beta running_mean running_var eps decay axis out
             state) = None) \<and>
   (state \<noteq> None \<and>
    fst (GenericBatchNormForwardOp K x gamma beta running_mean running_var eps decay axis out
           state) = None \<longrightarrow>
      fb_state (snd (GenericBatchNormForwardOp K x gamma beta running_mean running_var
                       eps decay axis out state)) =
        Some (Some \<lparr>st_x_mean =
                      spec_x_mean K x axis (ResultType [dtype x, dtype gamma, dtype beta]),
                    st_x_inv_std =
                      spec_inv_std K
                        (spec_x_var K x axis (ResultType [dtype x, dtype gamma, dtype beta]))
                        eps (ResultType [dtype x, dtype gamma, dtype beta])\<rparr>) \<and>
      dtype (spec_x_mean K x axis (ResultType [dtype x, dtype gamma, dtype beta])) =
        ResultType [dtype x, dtype gamma, dtype beta] \<and>
      dtype (spec_inv_std K
               (spec_x_var K x axis (ResultType [dtype x, dtype gamma, dtype beta]))
               eps (ResultType [dtype x, dtype gamma, dtype beta])) =
        ResultType [dtype x, dtype gamma, dtype beta]) \<and>
   (fst (GenericBatchNormForwardOp K x gamma beta running_mean running_var eps decay axis out
           state) \<noteq> None \<longrightarrow>
      fb_state (snd (GenericBatchNormForwardOp K x gamma beta running_mean running_var
                       eps decay axis out state)) = state)"
proof (intro conjI impI)
  assume "fwd_valid x gamma beta running_mean running_var axis out"
  from ForwardOp_ok[OF this, of K eps decay state]
  show "fst (GenericBatchNormForwardOp K x gamma beta running_mean running_var eps decay axis out
               state) = None"
    by (simp add: Let_def)
next
  assume a: "state \<noteq> None \<and>
    fst (GenericBatchNormForwardOp K x gamma beta running_mean running_var eps decay axis out
           state) = None"
  then show "fb_state (snd (GenericBatchNormForwardOp K x gamma beta running_mean running_var
                       eps decay axis out state)) =
        Some (Some \<lparr>st_x_mean =
                      spec_x_mean K x axis (ResultType [dtype x, dtype gamma, dtype beta]),
                    st_x_inv_std =
                      spec_inv_std K
                        (spec_x_var K x axis (ResultType [dtype x, dtype gamma, dtype beta]))
                        eps (ResultType [dtype x, dtype gamma, dtype beta])\<rparr>)"
    by (simp add: ForwardOp_success Let_def fwd_interm_dtype_def del: ResultType.simps)
next
  show "dtype (spec_x_mean K x axis (ResultType [dtype x, dtype gamma, dtype beta])) =
        ResultType [dtype x, dtype gamma, dtype beta]"
    by (simp del: ResultType.simps)
next
  show "dtype (spec_inv_std K
               (spec_x_var K x axis (ResultType [dtype x, dtype gamma, dtype beta]))
               eps (ResultType [dtype x, dtype gamma, dtype beta])) =
        ResultType [dtype x, dtype gamma, dtype beta]"
    by (simp del: ResultType.simps)
next
  assume "fst (GenericBatchNormForwardOp K x gamma beta running_mean running_var eps decay axis
                 out state) \<noteq> None"
  then obtain e where "fst (GenericBatchNormForwardOp K x gamma beta running_mean running_var
                              eps decay axis out state) = Some e"
    by blast
  then show "fb_state (snd (GenericBatchNormForwardOp K x gamma beta running_mean running_var
                       eps decay axis out state)) = state"
    by (rule ForwardOp_failure_state)
qed

lemma upt3: "[0..<3] = [0, 1, 2::nat]"
  by code_simp

lemma red_4_3: "ReduceShape [4, 3] [0] = [1, 3]"
  by (simp add: ReduceShape_def)

lemma cells_4_3:
  "cell_members [4, 3] [0] 0 = [0, 3, 6, 9]"
  "cell_members [4, 3] [0] (Suc 0) = [1, 4, 7, 10]"
  "cell_members [4, 3] [0] 2 = [2, 5, 8, 11]"
  by (simp_all add: cell_members_def ReduceShape_def src_index_def pad_shape_def upt12)

lemma ex_fwd_valid:
  "fwd_valid ex_x (ex_gamma\<lparr>shape := [1, 3]\<rparr>) (ex_beta\<lparr>shape := [1, 3]\<rparr>)
     (ex_running_mean\<lparr>shape := [1, 3]\<rparr>) (ex_running_var\<lparr>shape := [1, 3]\<rparr>) [0]
     (EmptyLike ieee_exact ex_x)"
  by (simp add: fwd_valid_def all_floating_def wf_array_def ex_defs ReduceShape_def
      GetTotalSize_def axes_ok_def ndim_def)

lemma ex_x_mean:
  "spec_x_mean ieee_exact ex_x [0] kFloat64 =
     \<lparr>dtype = kFloat64, shape = [1, 3], data = [Num 4, Num 5, Num 6]\<rparr>"
  by (simp add: spec_x_mean_def reduce_cells_def ex_defs AsType_def ReduceShape_def cells_4_3
      ieee_exact_def f_mean_def f_sum_def fin_def Let_def upt3)

lemma ex_x_var:
  "spec_x_var ieee_exact ex_x [0] kFloat64 =
     \<lparr>dtype = kFloat64, shape = [1, 3], data = [Num 5, Num 5, Num 5]\<rparr>"
  by (simp add: spec_x_var_def reduce_cells_def ex_defs AsType_def ReduceShape_def cells_4_3
      ieee_exact_def f_var_def f_mean_def f_sum_def f_sub_def fin_def Let_def upt3)

lemma ex_interm: "fwd_interm_dtype ex_x (ex_gamma\<lparr>shape := [1, 3]\<rparr>) (ex_beta\<lparr>shape := [1, 3]\<rparr>) = kFloat64"
  by (simp add: fwd_interm_dtype_def ex_defs PromoteTypes_def)

theorem ForwardOp_running_statistics_witness:
  "fwd_valid ex_x (ex_gamma\<lparr>shape := [1, 3]\<rparr>) (ex_beta\<lparr>shape := [1, 3]\<rparr>)
     (ex_running_mean\<lparr>shape := [1, 3]\<rparr>) (ex_running_var\<lparr>shape := [1, 3]\<rparr>) [0]
     (EmptyLike ieee_exact ex_x) \<and>
   fb_running_mean (snd (GenericBatchNormForwardOp ieee_exact ex_x (ex_gamma\<lparr>shape := [1, 3]\<rparr>)
      (ex_beta\<lparr>shape := [1, 3]\<rparr>) (ex_running_mean\<lparr>shape := [1, 3]\<rparr>)
      (ex_running_var\<lparr>shape := [1, 3]\<rparr>) (Num 4) (Num (9/10)) [0]
      (EmptyLike ieee_exact ex_x) (Some None))) =
     \<lparr>dtype = kFloat32, shape = [1, 3], data = [Num (2/5), Num (1/2), Num (3/5)]\<rparr> \<and>
   fb_running_var (snd (GenericBatchNormForwardOp ieee_exact ex_x (ex_gamma\<lparr>shape := [1, 3]\<rparr>)
      (ex_beta\<lparr>shape := [1, 3]\<rparr>) (ex_running_mean\<lparr>shape := [1, 3]\<rparr>)
      (ex_running_var\<lparr>shape := [1, 3]\<rparr>) (Num 4) (Num (9/10)) [0]
      (EmptyLike ieee_exact ex_x) (Some None))) =
     \<lparr>dtype = kFloat32, shape = [1, 3], data = [Num (47/30), Num (47/30), Num (47/30)]\<rparr>"
proof -
  note t = ForwardOp_running_statistics[OF ex_fwd_valid, of ieee_exact "Num 4" "Num (9/10)" "Some None"]
  have n: "spec_n ex_x (ex_gamma\<lparr>shape := [1, 3]\<rparr>) = 4"
    by (simp add: spec_n_def GetTotalSize_def ex_defs)
  have m: "spec_running_update ieee_exact (ex_running_mean\<lparr>shape := [1, 3]\<rparr>) (Num (9/10))
         (MultiplyAS ieee_exact (spec_x_mean ieee_exact ex_x [0] kFloat64)
            (spec_inv_decay ieee_exact (Num (9/10)))) =
       \<lparr>dtype = kFloat32, shape = [1, 3], data = [Num (2/5), Num (1/2), Num (3/5)]\<rparr>"
    unfolding ex_x_mean
    by (simp add: spec_running_update_def spec_inv_decay_def ex_defs eval_defs upt3)
  have v: "spec_running_update ieee_exact (ex_running_var\<lparr>shape := [1, 3]\<rparr>) (Num (9/10))
         (MultiplyAS ieee_exact (spec_x_var ieee_exact ex_x [0] kFloat64)
            (f_mul (spec_inv_decay ieee_exact (Num (9/10))) (spec_adjust ieee_exact 4))) =
       \<lparr>dtype = kFloat32, shape = [1, 3], data = [Num (47/30), Num (47/30), Num (47/30)]\<rparr>"
    unfolding ex_x_var
    by (simp add: spec_running_update_def spec_inv_decay_def spec_adjust_def ex_defs
        eval_defs upt3)
  have k: "k_mul ieee_exact kFloat64 = f_mul" by (simp add: ieee_exact_def)
  from t show ?thesis
    using ex_fwd_valid by (simp only: ex_interm n m v k simp_thms)
qed

theorem ForwardOp_state_dtype_witness:
  "fwd_valid ex_x (ex_gamma\<lparr>shape := [1, 3]\<rparr>) (ex_beta\<lparr>shape := [1, 3]\<rparr>)
     (ex_running_mean\<lparr>shape := [1, 3]\<rparr>) (ex_running_var\<lparr>shape := [1, 3]\<rparr>) [0]
     (EmptyLike ieee_exact ex_x) \<and>
   Some None \<noteq> (None :: fval GenericBatchNormState option option) \<and>
   fst (GenericBatchNormForwardOp ieee_exact ex_x (ex_gamma\<lparr>shape := [1, 3]\<rparr>)
      (ex_beta\<lparr>shape := [1, 3]\<rparr>) (ex_running_mean\<lparr>shape := [1, 3]\<rparr>)
      (ex_running_var\<lparr>shape := [1, 3]\<rparr>) (Num 4) (Num (9/10)) [0]
      (EmptyLike ieee_exact ex_x) (Some None)) = None \<and>
   fb_state (snd (GenericBatchNormForwardOp ieee_exact ex_x (ex_gamma\<lparr>shape := [1, 3]\<rparr>)
      (ex_beta\<lparr>shape := [1, 3]\<rparr>) (ex_running_mean\<lparr>shape := [1, 3]\<rparr>)
      (ex_running_var\<lparr>shape := [1, 3]\<rparr>) (Num 4) (Num (9/10)) [0]
      (EmptyLike ieee_exact ex_x) (Some None))) =
     Some (Some \<lparr>st_x_mean = \<lparr>dtype = kFloat64, shape = [1, 3], data = [Num 4, Num 5, Num 6]\<rparr>,
                 st_x_inv_std = \<lparr>dtype = kFloat64, shape = [1, 3],
                                 data = [Num (1/3), Num (1/3), Num (1/3)]\<rparr>\<rparr>)"
proof -
  have s: "Some None \<noteq> (None :: fval GenericBatchNormState option option)" by simp
  have r: "ResultType [dtype ex_x, dtype (ex_gamma\<lparr>shape := [1, 3]\<rparr>), dtype (ex_beta\<lparr>shape := [1, 3]\<rparr>)]
             = kFloat64"
    using ex_interm by (simp only: fwd_interm_dtype_def)
  have i: "spec_inv_std ieee_exact \<lparr>dtype = kFloat64, shape = [1, 3], data = [Num 5, Num 5, Num 5]\<rparr>
             (Num 4) kFloat64 =
           \<lparr>dtype = kFloat64, shape = [1, 3], data = [Num (1/3), Num (1/3), Num (1/3)]\<rparr>"
    by (simp add: spec_inv_std_def eval_defs)
  note t = ForwardOp_state_dtype[of ex_x "ex_gamma\<lparr>shape := [1, 3]\<rparr>" "ex_beta\<lparr>shape := [1, 3]\<rparr>"
      "ex_running_mean\<lparr>shape := [1, 3]\<rparr>" "ex_running_var\<lparr>shape := [1, 3]\<rparr>" "[0]"
      "EmptyLike ieee_exact ex_x" ieee_exact "Num 4" "Num (9/10)" "Some None"]
  from t ex_fwd_valid have ok: "fst (GenericBatchNormForwardOp ieee_exact ex_x (ex_gamma\<lparr>shape := [1, 3]\<rparr>)
      (ex_beta\<lparr>shape := [1, 3]\<rparr>) (ex_running_mean\<lparr>shape := [1, 3]\<rparr>)
      (ex_running_var\<lparr>shape := [1, 3]\<rparr>) (Num 4) (Num (9/10)) [0]
      (EmptyLike ieee_exact ex_x) (Some None)) = None"
    by blast
  from t s ok have "fb_state (snd (GenericBatchNormForwardOp ieee_exact ex_x (ex_gamma\<lparr>shape := [1, 3]\<rparr>)
      (ex_beta\<lparr>shape := [1, 3]\<rparr>) (ex_running_mean\<lparr>shape := [1, 3]\<rparr>)
      (ex_running_var\<lparr>shape := [1, 3]\<rparr>) (Num 4) (Num (9/10)) [0]
      (EmptyLike ieee_exact ex_x) (Some None))) =
     Some (Some \<lparr>st_x_mean = spec_x_mean ieee_exact ex_x [0]
                     (ResultType [dtype ex_x, dtype (ex_gamma\<lparr>shape := [1, 3]\<rparr>), dtype (ex_beta\<lparr>shape := [1, 3]\<rparr>)]),
                 st_x_inv_std = spec_inv_std ieee_exact
                     (spec_x_var ieee_exact ex_x [0]
                        (ResultType [dtype ex_x, dtype (ex_gamma\<lparr>shape := [1, 3]\<rparr>), dtype (ex_beta\<lparr>shape := [1, 3]\<rparr>)]))
                     (Num 4)
                     (ResultType [dtype ex_x, dtype (ex_gamma\<lparr>shape := [1, 3]\<rparr>), dtype (ex_beta\<lparr>shape := [1, 3]\<rparr>)])\<rparr>)"
    by blast
  then show ?thesis
    using ex_fwd_valid s ok by (simp only: r ex_x_mean ex_x_var i simp_thms)
qed

subsection \<open>Running statistics with decay 1\<close>

lemma f_mul_one: "v \<noteq> Num 0 \<Longrightarrow> f_mul v (Num 1) = v"
  by (cases v) (auto simp: fin_def)

lemma f_mul_zero_finite: "is_finite v \<Longrightarrow> \<exists>s. f_mul v (Zero t) = Zero s"
  by (cases v) (auto simp: is_finite_def)

lemma f_add_zero: "plain_value v \<Longrightarrow> f_add v (Zero s) = v"
  by (cases v) (auto simp: plain_value_def)

lemma plain_value_not_Num0: "plain_value v \<Longrightarrow> v \<noteq> Num 0"
  by (auto simp: plain_value_def)

lemma inv_decay_one: "spec_inv_decay ieee_exact (Num 1) = Zero False"
  by (simp add: spec_inv_decay_def ieee_exact_def f_sub_def fin_def)

lemma zero_times_adjust: "\<exists>s. f_mul (Zero False) (spec_adjust ieee_exact n) = Zero s"
proof -
  have "max (n - 1) 1 \<noteq> 0" by simp
  then have "fin (real_of_int (max (n - 1) 1)) = Num (real_of_int (max (n - 1) 1))"
    unfolding fin_def by (simp only: of_int_eq_0_iff if_False)
  then show ?thesis
    by (cases "n = 0") (auto simp: spec_adjust_def ieee_exact_def fin_def)
qed

lemma ieee_ops:
  "k_add ieee_exact d = f_add" "k_mul ieee_exact d = f_mul" "k_cast ieee_exact d d' v = v"
  "scalar_as ieee_exact d s = s" "conv ieee_exact d d' v = v"
  by (simp_all add: ieee_exact_def scalar_as_def conv_def)

text \<open>
  Claim C9, amended. With \<open>decay = 1\<close>, a valid training forward call leaves an element
  of \<open>running_mean\<close> (of \<open>running_var\<close>) as it was whenever the batch mean (variance) of
  its cell is finite and the element is neither NaN nor a negative zero. The arithmetic is
  the one of \<open>ieee_exact\<close>.
\<close>

theorem decay_one_running_statistics:
  assumes "fwd_valid x gamma beta running_mean running_var axis out"
    and "j < prod_list (ReduceShape (shape x) axis)"
  shows "(is_finite (data (spec_x_mean ieee_exact x axis (fwd_interm_dtype x gamma beta)) ! j) \<and>
          plain_value (data running_mean ! j) \<longrightarrow>
          data (fb_running_mean (snd (GenericBatchNormForwardOp ieee_exact x gamma beta
                  running_mean running_var eps (Num 1) axis out state))) ! j
            = data running_mean ! j) \<and>
         (is_finite (data (spec_x_var ieee_exact x axis (fwd_interm_dtype x gamma beta)) ! j) \<and>
          plain_value (data running_var ! j) \<longrightarrow>
          data (fb_running_var (snd (GenericBatchNormForwardOp ieee_exact x gamma beta
                  running_mean running_var eps (Num 1) axis out state))) ! j
            = data running_var ! j)"
proof (intro conjI impI)
  note t = ForwardOp_running_nth[OF assms, of ieee_exact eps "Num 1" state]
  {
    assume a: "is_finite (data (spec_x_mean ieee_exact x axis (fwd_interm_dtype x gamma beta)) ! j) \<and>
          plain_value (data running_mean ! j)"
    from f_mul_zero_finite[of _ False] a obtain s where
      s: "f_mul (data (spec_x_mean ieee_exact x axis (fwd_interm_dtype x gamma beta)) ! j)
            (Zero False) = Zero s" by blast
    from t a s
    show "data (fb_running_mean (snd (GenericBatchNormForwardOp ieee_exact x gamma beta
                  running_mean running_var eps (Num 1) axis out state))) ! j
            = data running_mean ! j"
      by (simp add: ieee_ops inv_decay_one f_mul_one plain_value_not_Num0 f_add_zero)
  }
  {
    assume a: "is_finite (data (spec_x_var ieee_exact x axis (fwd_interm_dtype x gamma beta)) ! j) \<and>
          plain_value (data running_var ! j)"
    from zero_times_adjust obtain u where
      u: "f_mul (Zero False) (spec_adjust ieee_exact (spec_n x gamma)) = Zero u" by blast
    from f_mul_zero_finite[of _ u] a obtain s where
      s: "f_mul (data (spec_x_var ieee_exact x axis (fwd_interm_dtype x gamma beta)) ! j)
            (Zero u) = Zero s" by blast
    from t a s u
    show "data (fb_running_var (snd (GenericBatchNormForwardOp ieee_exact x gamma beta
                  running_mean running_var eps (Num 1) axis out state))) ! j
            = data running_var ! j"
      by (simp add: ieee_ops inv_decay_one f_mul_one plain_value_not_Num0 f_add_zero)
  }
qed

lemma cx_fwd_valid:
  "fwd_valid ex_x (ex_gamma\<lparr>shape := [1, 3]\<rparr>) (ex_beta\<lparr>shape := [1, 3]\<rparr>)
     cx_running_mean (ex_running_var\<lparr>shape := [1, 3]\<rparr>) [0] (EmptyLike ieee_exact ex_x)"
  by (simp add: fwd_valid_def all_floating_def wf_array_def ex_defs cx_running_mean_def
      ReduceShape_def GetTotalSize_def axes_ok_def ndim_def)

lemma cx_inf_valid:
  "fwd_valid cx_x_inf cx_gamma1 cx_beta1 cx_running_mean1 cx_running_var1 [0]
     (EmptyLike ieee_exact cx_x_inf)"
  by (simp add: fwd_valid_def all_floating_def wf_array_def cx_x_inf_def cx_gamma1_def
      cx_beta1_def cx_running_mean1_def cx_running_var1_def ReduceShape_def GetTotalSize_def
      axes_ok_def ndim_def)

lemma upt2: "[0..<2] = [0, 1::nat]"
  by code_simp

lemma cx_inf_mean:
  "spec_x_mean ieee_exact cx_x_inf [0] kFloat32
     = \<lparr>dtype = kFloat32, shape = [1, 1], data = [Inf False]\<rparr>"
  by (simp add: spec_x_mean_def reduce_cells_def cx_x_inf_def AsType_def ReduceShape_def
      cell_members_def src_index_def pad_shape_def upt2
      ieee_exact_def f_mean_def f_sum_def fin_def Let_def)

lemma cx_inf_running_mean:
  "fb_running_mean (snd (GenericBatchNormForwardOp ieee_exact cx_x_inf cx_gamma1 cx_beta1
      cx_running_mean1 cx_running_var1 (Num 4) (Num 1) [0] (EmptyLike ieee_exact cx_x_inf)
      (Some None))) = cx_running_mean1\<lparr>data := [NaN]\<rparr>"
proof -
  have i: "fwd_interm_dtype cx_x_inf cx_gamma1 cx_beta1 = kFloat32"
    by (simp add: fwd_interm_dtype_def cx_x_inf_def cx_gamma1_def cx_beta1_def PromoteTypes_def)
  have "fb_running_mean (snd (GenericBatchNormForwardOp ieee_exact cx_x_inf cx_gamma1 cx_beta1
      cx_running_mean1 cx_running_var1 (Num 4) (Num 1) [0] (EmptyLike ieee_exact cx_x_inf)
      (Some None)))
     = spec_running_update ieee_exact cx_running_mean1 (Num 1)
         (MultiplyAS ieee_exact (spec_x_mean ieee_exact cx_x_inf [0] kFloat32)
            (spec_inv_decay ieee_exact (Num 1)))"
    unfolding ForwardOp_ok[OF cx_inf_valid] Let_def i by simp
  also have "\<dots> = cx_running_mean1\<lparr>data := [NaN]\<rparr>"
    unfolding cx_inf_mean inv_decay_one
    by (simp add: spec_running_update_def cx_running_mean1_def eval_defs)
  finally show ?thesis .
qed

text \<open>
  Claim C9 as stated fails. With \<open>decay = 1\<close> a running mean \<open>-0.0\<close> becomes \<open>+0.0\<close>,
  since \<open>-0.0 * 1 + 0.0 * x_mean = -0.0 + 0.0 = +0.0\<close>: the sign bit changes. And a
  running mean \<open>2\<close> becomes NaN when the batch holds \<open>+inf\<close>, since the batch mean is
  \<open>+inf\<close> and \<open>2 * 1 + 0.0 * inf = 2 + NaN = NaN\<close>.
\<close>

theorem decay_one_counterexample:
  "fwd_valid ex_x (ex_gamma\<lparr>shape := [1, 3]\<rparr>) (ex_beta\<lparr>shape := [1, 3]\<rparr>)
     cx_running_mean (ex_running_var\<lparr>shape := [1, 3]\<rparr>) [0] (EmptyLike ieee_exact ex_x) \<and>
   fb_running_mean (snd (GenericBatchNormForwardOp ieee_exact ex_x (ex_gamma\<lparr>shape := [1, 3]\<rparr>)
      (ex_beta\<lparr>shape := [1, 3]\<rparr>) cx_running_mean (ex_running_var\<lparr>shape := [1, 3]\<rparr>)
      (Num 4) (Num 1) [0] (EmptyLike ieee_exact ex_x) (Some None)))
     = cx_running_mean\<lparr>data := [Zero False, Zero False, Zero False]\<rparr> \<and>
   cx_running_mean\<lparr>data := [Zero False, Zero False, Zero False]\<rparr> \<noteq> cx_running_mean \<and>
   fwd_valid cx_x_inf cx_gamma1 cx_beta1 cx_running_mean1 cx_running_var1 [0]
     (EmptyLike ieee_exact cx_x_inf) \<and>
   fb_running_mean (snd (GenericBatchNormForwardOp ieee_exact cx_x_inf cx_gamma1 cx_beta1
      cx_running_mean1 cx_running_var1 (Num 4) (Num 1) [0] (EmptyLike ieee_exact cx_x_inf)
      (Some None))) = cx_running_mean1\<lparr>data := [NaN]\<rparr> \<and>
   cx_running_mean1\<lparr>data := [NaN]\<rparr> \<noteq> cx_running_mean1"
proof -
  have i: "fwd_interm_dtype ex_x (ex_gamma\<lparr>shape := [1, 3]\<rparr>) (ex_beta\<lparr>shape := [1, 3]\<rparr>) = kFloat64"
    by (rule ex_interm)
  have "fb_running_mean (snd (GenericBatchNormForwardOp ieee_exact ex_x (ex_gamma\<lparr>shape := [1, 3]\<rparr>)
      (ex_beta\<lparr>shape := [1, 3]\<rparr>) cx_running_mean (ex_running_var\<lparr>shape := [1, 3]\<rparr>)
      (Num 4) (Num 1) [0] (EmptyLike ieee_exact ex_x) (Some None)))
     = spec_running_update ieee_exact cx_running_mean (Num 1)
         (MultiplyAS ieee_exact (spec_x_mean ieee_exact ex_x [0] kFloat64)
            (spec_inv_decay ieee_exact (Num 1)))"
    unfolding ForwardOp_ok[OF cx_fwd_valid] Let_def i by simp
  also have "\<dots> = cx_running_mean\<lparr>data := [Zero False, Zero False, Zero False]\<rparr>"
    unfolding ex_x_mean inv_decay_one
    by (simp add: spec_running_update_def cx_running_mean_def eval_defs upt3)
  finally show ?thesis
    using cx_fwd_valid cx_inf_valid cx_inf_running_mean
    by (simp add: cx_running_mean_def cx_running_mean1_def)
qed

theorem decay_one_running_statistics_witness:
  "fwd_valid ex_x (ex_gamma\<lparr>shape := [1, 3]\<rparr>) (ex_beta\<lparr>shape := [1, 3]\<rparr>)
     cx_running_mean (ex_running_var\<lparr>shape := [1, 3]\<rparr>) [0] (EmptyLike ieee_exact ex_x) \<and>
   (1::nat) < prod_list (ReduceShape (shape ex_x) [0]) \<and>
   is_finite (data (spec_x_mean ieee_exact ex_x [0] kFloat64) ! 1) \<and>
   plain_value (data cx_running_mean ! 1) \<and>
   is_finite (data (spec_x_var ieee_exact ex_x [0] kFloat64) ! 1) \<and>
   plain_value (data (ex_running_var\<lparr>shape := [1, 3]\<rparr>) ! 1) \<and>
   data (fb_running_mean (snd (GenericBatchNormForwardOp ieee_exact ex_x (ex_gamma\<lparr>shape := [1, 3]\<rparr>)
      (ex_beta\<lparr>shape := [1, 3]\<rparr>) cx_running_mean (ex_running_var\<lparr>shape := [1, 3]\<rparr>)
      (Num 4) (Num 1) [0] (EmptyLike ieee_exact ex_x) (Some None)))) ! 1 = Zero False \<and>
   data (fb_running_var (snd (GenericBatchNormForwardOp ieee_exact ex_x (ex_gamma\<lparr>shape := [1, 3]\<rparr>)
      (ex_beta\<lparr>shape := [1, 3]\<rparr>) cx_running_mean (ex_running_var\<lparr>shape := [1, 3]\<rparr>)
      (Num 4) (Num 1) [0] (EmptyLike ieee_exact ex_x) (Some None)))) ! 1 = Num 1"
proof -
  have j: "(1::nat) < prod_list (ReduceShape (shape ex_x) [0])"
    by (simp add: ex_x_def ReduceShape_def)
  have fm: "is_finite (data (spec_x_mean ieee_exact ex_x [0] kFloat64) ! 1)"
    and fv: "is_finite (data (spec_x_var ieee_exact ex_x [0] kFloat64) ! 1)"
    by (simp_all add: ex_x_mean ex_x_var is_finite_def)
  have pm: "plain_value (data cx_running_mean ! 1)"
    and pv: "plain_value (data (ex_running_var\<lparr>shape := [1, 3]\<rparr>) ! 1)"
    by (simp_all add: cx_running_mean_def ex_running_var_def plain_value_def)
  from decay_one_running_statistics[OF cx_fwd_valid j, of "Num 4" "Some None"] fm pm fv pv
  have "data (fb_running_mean (snd (GenericBatchNormForwardOp ieee_exact ex_x (ex_gamma\<lparr>shape := [1, 3]\<rparr>)
      (ex_beta\<lparr>shape := [1, 3]\<rparr>) cx_running_mean (ex_running_var\<lparr>shape := [1, 3]\<rparr>)
      (Num 4) (Num 1) [0] (EmptyLike ieee_exact ex_x) (Some None)))) ! 1 = data cx_running_mean ! 1"
    and "data (fb_running_var (snd (GenericBatchNormForwardOp ieee_exact ex_x (ex_gamma\<lparr>shape := [1, 3]\<rparr>)
      (ex_beta\<lparr>shape := [1, 3]\<rparr>) cx_running_mean (ex_running_var\<lparr>shape := [1, 3]\<rparr>)
      (Num 4) (Num 1) [0] (EmptyLike ieee_exact ex_x) (Some None)))) ! 1
       = data (ex_running_var\<lparr>shape := [1, 3]\<rparr>) ! 1"
    by (simp_all only: ex_interm simp_thms)
  with cx_fwd_valid j fm pm fv pv show ?thesis
    by (simp add: cx_running_mean_def ex_running_var_def)
qed

subsection \<open>The first-order backward operator\<close>

lemma BackwardOp_ok:
  assumes "bwd_valid x gamma gout axis gx ggamma gbeta st"
  shows "GenericBatchNormBackwardOp K x gamma gout eps axis gx ggamma gbeta (Some (Some st)) =
    (let interm_dtype = dtype (st_x_mean st);
         x_hat = spec_x_hat K x (st_x_mean st) (st_x_inv_std st);
         ggamma_i = spec_ggamma K gout x_hat axis interm_dtype;
         gbeta_i = spec_gbeta K gout axis interm_dtype;
         gx_i = spec_gx K gamma (st_x_inv_std st) gout x_hat ggamma_i gbeta_i
                  (spec_inv_n K (spec_n x gamma)) interm_dtype
     in (None, (cast_into K gx_i gx, cast_into K ggamma_i ggamma, cast_into K gbeta_i gbeta)))"
  using assms
  by (simp add: bwd_valid_def GenericBatchNormBackwardOp_def Let_def spec_x_hat_def
      spec_ggamma_def spec_gbeta_def spec_gx_def spec_inv_n_def ndim_def)

lemma reduce_cells_nth:
  "j < prod_list (ReduceShape (shape a) axes) \<Longrightarrow>
   data (reduce_cells f a axes) ! j =
     f (dtype a) (map (\<lambda>i. data a ! i) (cell_members (shape a) axes j))"
  by (simp add: reduce_cells_def Let_def)

lemma cell_members_less: "i \<in> set (cell_members s axes j) \<Longrightarrow> i < prod_list s"
  by (simp add: cell_members_def)

lemma spec_x_hat_simps [simp]:
  "dtype (spec_x_hat K x x_mean x_inv_std) = dtype x_mean"
  "shape x_mean = ReduceShape (shape x) axis \<Longrightarrow> shape x_inv_std = ReduceShape (shape x) axis \<Longrightarrow>
     shape (spec_x_hat K x x_mean x_inv_std) = shape x"
  by (simp_all add: spec_x_hat_def)

lemma spec_grad_simps [simp]:
  "dtype (spec_ggamma K gout x_hat axis d) = d"
  "shape (spec_ggamma K gout x_hat axis d) =
     ReduceShape (broadcast_shape (shape gout) (shape x_hat)) axis"
  "dtype (spec_gbeta K gout axis d) = d"
  "shape (spec_gbeta K gout axis d) = ReduceShape (shape gout) axis"
  by (simp_all add: spec_ggamma_def spec_gbeta_def)

lemma spec_x_hat_nth:
  assumes "shape x_mean = ReduceShape (shape x) axis" "shape x_inv_std = ReduceShape (shape x) axis"
    "wf_array x" "k < prod_list (shape x)"
  shows "data (spec_x_hat K x x_mean x_inv_std) ! k = elem_x_hat K x x_mean x_inv_std k"
  using assms
  by (simp add: spec_x_hat_def elem_x_hat_def arr_nth src_index_same AsType_nth wf_array_def
      Let_def)

lemma spec_ggamma_nth:
  assumes "shape x_mean = ReduceShape (shape x) axis" "shape x_inv_std = ReduceShape (shape x) axis"
    "shape gout = shape x" "wf_array x" "wf_array gout"
    "j < prod_list (ReduceShape (shape x) axis)"
  shows "data (spec_ggamma K gout (spec_x_hat K x x_mean x_inv_std) axis (dtype x_mean)) ! j =
     elem_ggamma K x gout x_mean x_inv_std axis j"
proof -
  have "map (\<lambda>i. data (mul_arr K (AsType K gout (dtype x_mean)) (spec_x_hat K x x_mean x_inv_std)) ! i)
          (cell_members (shape x) axis j) =
        map (\<lambda>i. k_mul K (dtype x_mean) (conv K (dtype gout) (dtype x_mean) (data gout ! i))
                    (elem_x_hat K x x_mean x_inv_std i))
          (cell_members (shape x) axis j)"
  proof (rule map_cong[OF refl])
    fix i assume "i \<in> set (cell_members (shape x) axis j)"
    then have i: "i < prod_list (shape x)" by (rule cell_members_less)
    with assms show "data (mul_arr K (AsType K gout (dtype x_mean)) (spec_x_hat K x x_mean x_inv_std)) ! i =
        k_mul K (dtype x_mean) (conv K (dtype gout) (dtype x_mean) (data gout ! i))
                    (elem_x_hat K x x_mean x_inv_std i)"
      by (simp add: arr_nth spec_x_hat_simps(2)[of _ _ axis] src_index_same AsType_nth
          wf_array_def spec_x_hat_nth[of _ _ axis])
  qed
  note h = this
  from assms show ?thesis
    by (simp add: spec_ggamma_def elem_ggamma_def reduce_cells_nth
        spec_x_hat_simps(2)[of _ _ axis] Let_def h)
qed

lemma spec_gbeta_nth:
  assumes "shape gout = shape x" "wf_array gout" "j < prod_list (ReduceShape (shape x) axis)"
  shows "data (spec_gbeta K gout axis d) ! j = elem_gbeta K x gout d axis j"
proof -
  have "map (\<lambda>i. data (AsType K gout d) ! i) (cell_members (shape x) axis j) =
        map (\<lambda>i. conv K (dtype gout) d (data gout ! i)) (cell_members (shape x) axis j)"
  proof (rule map_cong[OF refl])
    fix i assume "i \<in> set (cell_members (shape x) axis j)"
    then have i: "i < prod_list (shape x)" by (rule cell_members_less)
    with assms show "data (AsType K gout d) ! i = conv K (dtype gout) d (data gout ! i)"
      by (simp add: AsType_nth wf_array_def)
  qed
  note h = this
  from assms show ?thesis
    by (simp add: spec_gbeta_def elem_gbeta_def reduce_cells_nth h)
qed

lemma spec_gx_nth:
  assumes "bwd_valid x gamma gout axis gx ggamma gbeta st" "k < prod_list (shape x)"
  shows "data (spec_gx K gamma (st_x_inv_std st) gout
                 (spec_x_hat K x (st_x_mean st) (st_x_inv_std st))
                 (spec_ggamma K gout (spec_x_hat K x (st_x_mean st) (st_x_inv_std st)) axis
                    (dtype (st_x_mean st)))
                 (spec_gbeta K gout axis (dtype (st_x_mean st)))
                 (spec_inv_n K (spec_n x gamma)) (dtype (st_x_mean st))) ! k =
         elem_gx K x gamma gout (st_x_mean st) (st_x_inv_std st) axis k"
proof -
  from assms(1) have sh: "shape (st_x_mean st) = ReduceShape (shape x) axis"
    "shape (st_x_inv_std st) = ReduceShape (shape x) axis" "shape gout = shape x"
    "shape gamma = ReduceShape (shape x) axis"
    and wf: "wf_array x" "wf_array gout" "wf_array gamma"
    by (simp_all add: bwd_valid_def)
  have c: "src_index (shape x) (ReduceShape (shape x) axis) k < prod_list (ReduceShape (shape x) axis)"
    using assms(2) by (simp add: src_index_less)
  have shx: "shape (spec_x_hat K x (st_x_mean st) (st_x_inv_std st)) = shape x"
    using sh by (simp add: spec_x_hat_simps(2)[of _ _ axis])
  show ?thesis
    using assms(2) c sh wf
    by (simp add: spec_gx_def elem_gx_def arr_nth unary_nth shx src_index_same AsType_nth
        wf_array_def Let_def spec_x_hat_nth[of _ _ axis]
        spec_ggamma_nth[OF sh(1,2,3) wf(1,2) c] spec_gbeta_nth[OF sh(3) wf(2) c])
qed

text \<open>
  Claim C3. A valid first-order backward call with captured state \<open>(x_mean, x_inv_std)\<close>
  raises nothing and stores, converted to the dtypes of the three buffers,
  \<open>ggamma = sum(gout * x_hat, axis, keepdims)\<close>, \<open>gbeta = sum(gout, axis, keepdims)\<close> and
  \<open>gx = (gamma * x_inv_std) * (gout - (x_hat * ggamma + gbeta) * inv_n)\<close>, where
  \<open>x_hat = (x - x_mean) * x_inv_std\<close>, \<open>n\<close> is the quotient of the sizes of \<open>x\<close> and
  \<open>gamma\<close>, the division by \<open>n\<close> is the multiplication by \<open>inv_n = 1 / n\<close>, and all
  operations are those of the dtype of \<open>x_mean\<close>. The last two parts state the same
  element by element.
\<close>

theorem BackwardOp_gradients:
  assumes "bwd_valid x gamma gout axis gx ggamma gbeta st"
  shows "GenericBatchNormBackwardOp K x gamma gout eps axis gx ggamma gbeta (Some (Some st)) =
           (None, (cast_into K (spec_bwd_gx K x gamma gout st axis) gx,
                   cast_into K (spec_bwd_ggamma K x gout st axis) ggamma,
                   cast_into K (spec_bwd_gbeta K gout st axis) gbeta)) \<and>
         (\<forall>k < prod_list (shape x).
            data (cast_into K (spec_bwd_gx K x gamma gout st axis) gx) ! k =
              k_cast K (dtype (st_x_mean st)) (dtype gx)
                (elem_gx K x gamma gout (st_x_mean st) (st_x_inv_std st) axis k)) \<and>
         (\<forall>j < prod_list (ReduceShape (shape x) axis).
            data (cast_into K (spec_bwd_ggamma K x gout st axis) ggamma) ! j =
              k_cast K (dtype (st_x_mean st)) (dtype ggamma)
                (elem_ggamma K x gout (st_x_mean st) (st_x_inv_std st) axis j) \<and>
            data (cast_into K (spec_bwd_gbeta K gout st axis) gbeta) ! j =
              k_cast K (dtype (st_x_mean st)) (dtype gbeta)
                (elem_gbeta K x gout (dtype (st_x_mean st)) axis j))"
proof (intro conjI allI impI)
  show "GenericBatchNormBackwardOp K x gamma gout eps axis gx ggamma gbeta (Some (Some st)) =
           (None, (cast_into K (spec_bwd_gx K x gamma gout st axis) gx,
                   cast_into K (spec_bwd_ggamma K x gout st axis) ggamma,
                   cast_into K (spec_bwd_gbeta K gout st axis) gbeta))"
    unfolding BackwardOp_ok[OF assms] Let_def spec_bwd_gx_def spec_bwd_ggamma_def
      spec_bwd_gbeta_def by (rule refl)
next
  from assms have sh: "shape (st_x_mean st) = ReduceShape (shape x) axis"
    "shape (st_x_inv_std st) = ReduceShape (shape x) axis" "shape gout = shape x"
    "shape gamma = ReduceShape (shape x) axis"
    and wf: "wf_array x" "wf_array gout"
    by (simp_all add: bwd_valid_def)
  {
    fix k assume k: "k < prod_list (shape x)"
    have "length (data (spec_bwd_gx K x gamma gout st axis)) = prod_list (shape x)"
      using sh by (simp add: spec_bwd_gx_def spec_gx_def spec_bwd_ggamma_def spec_bwd_gbeta_def
          spec_x_hat_simps(2)[of _ _ axis])
    moreover have "dtype (spec_bwd_gx K x gamma gout st axis) = dtype (st_x_mean st)"
      by (simp add: spec_bwd_gx_def spec_gx_def)
    ultimately show "data (cast_into K (spec_bwd_gx K x gamma gout st axis) gx) ! k =
              k_cast K (dtype (st_x_mean st)) (dtype gx)
                (elem_gx K x gamma gout (st_x_mean st) (st_x_inv_std st) axis k)"
      using k spec_gx_nth[OF assms k, of K]
      by (simp add: cast_into_nth spec_bwd_gx_def spec_bwd_ggamma_def spec_bwd_gbeta_def)
  }
  {
    fix j assume j: "j < prod_list (ReduceShape (shape x) axis)"
    have "length (data (spec_bwd_ggamma K x gout st axis)) = prod_list (ReduceShape (shape x) axis)"
      using sh by (simp add: spec_bwd_ggamma_def spec_ggamma_def spec_x_hat_simps(2)[of _ _ axis])
    then show "data (cast_into K (spec_bwd_ggamma K x gout st axis) ggamma) ! j =
              k_cast K (dtype (st_x_mean st)) (dtype ggamma)
                (elem_ggamma K x gout (st_x_mean st) (st_x_inv_std st) axis j)"
      using j spec_ggamma_nth[OF sh(1,2,3) wf j, of K]
      by (simp add: cast_into_nth spec_bwd_ggamma_def)
    have "length (data (spec_bwd_gbeta K gout st axis)) = prod_list (ReduceShape (shape x) axis)"
      using sh by (simp add: spec_bwd_gbeta_def spec_gbeta_def)
    then show "data (cast_into K (spec_bwd_gbeta K gout st axis) gbeta) ! j =
              k_cast K (dtype (st_x_mean st)) (dtype gbeta)
                (elem_gbeta K x gout (dtype (st_x_mean st)) axis j)"
      using j spec_gbeta_nth[OF sh(3) wf(2) j, of K]
      by (simp add: cast_into_nth spec_bwd_gbeta_def)
  }
qed

lemma ex_bwd_valid:
  "bwd_valid ex_x (ex_gamma\<lparr>shape := [1, 3]\<rparr>) ex_gout [0] (EmptyLike ieee_exact ex_x)
     (EmptyLike ieee_exact (ex_gamma\<lparr>shape := [1, 3]\<rparr>)) (Empty ieee_exact [1, 3] kFloat64) ex_state"
  by (simp add: bwd_valid_def all_floating_def wf_array_def ex_defs ex_gout_def ex_state_def
      ReduceShape_def GetTotalSize_def axes_ok_def ndim_def)

lemma ex_x_hat:
  "spec_x_hat ieee_exact ex_x (st_x_mean ex_state) (st_x_inv_std ex_state) =
     \<lparr>dtype = kFloat64, shape = [4, 3],
      data = [Num (-1), Num (-1), Num (-1), Num (-1/3), Num (-1/3), Num (-1/3),
              Num (1/3), Num (1/3), Num (1/3), Num 1, Num 1, Num 1]\<rparr>"
  by (simp add: spec_x_hat_def ex_state_def ex_defs eval_defs)

lemma ex_ggamma:
  "spec_bwd_ggamma ieee_exact ex_x ex_gout ex_state [0] =
     \<lparr>dtype = kFloat64, shape = [1, 3], data = [Num (-1), Zero False, Zero False]\<rparr>"
  unfolding spec_bwd_ggamma_def ex_x_hat
  by (simp add: spec_ggamma_def reduce_cells_def ex_gout_def ex_state_def eval_defs red_4_3
      cells_4_3 upt3 f_sum_def)

lemma ex_gbeta:
  "spec_bwd_gbeta ieee_exact ex_gout ex_state [0] =
     \<lparr>dtype = kFloat64, shape = [1, 3], data = [Num 1, Zero False, Zero False]\<rparr>"
  by (simp add: spec_bwd_gbeta_def spec_gbeta_def reduce_cells_def ex_gout_def ex_state_def
      eval_defs red_4_3 cells_4_3 upt3 f_sum_def)

lemma ex_gx:
  "spec_bwd_gx ieee_exact ex_x (ex_gamma\<lparr>shape := [1, 3]\<rparr>) ex_gout ex_state [0] =
     \<lparr>dtype = kFloat64, shape = [4, 3],
      data = [Num (1/6), Zero False, Zero False, Num (-1/9), Zero False, Zero False,
              Num (-1/18), Zero False, Zero False, Zero False, Zero False, Zero False]\<rparr>"
  unfolding spec_bwd_gx_def ex_x_hat ex_ggamma ex_gbeta
  by (simp add: spec_gx_def spec_inv_n_def spec_n_def GetTotalSize_def ex_gout_def ex_state_def
      ex_defs eval_defs)

theorem BackwardOp_gradients_witness:
  "bwd_valid ex_x (ex_gamma\<lparr>shape := [1, 3]\<rparr>) ex_gout [0] (EmptyLike ieee_exact ex_x)
     (EmptyLike ieee_exact (ex_gamma\<lparr>shape := [1, 3]\<rparr>)) (Empty ieee_exact [1, 3] kFloat64)
     ex_state \<and>
   GenericBatchNormBackwardOp ieee_exact ex_x (ex_gamma\<lparr>shape := [1, 3]\<rparr>) ex_gout (Num 4) [0]
     (EmptyLike ieee_exact ex_x) (EmptyLike ieee_exact (ex_gamma\<lparr>shape := [1, 3]\<rparr>))
     (Empty ieee_exact [1, 3] kFloat64) (Some (Some ex_state)) =
     (None,
      (\<lparr>dtype = kFloat32, shape = [4, 3],
        data = [Num (1/6), Zero False, Zero False, Num (-1/9), Zero False, Zero False,
                Num (-1/18), Zero False, Zero False, Zero False, Zero False, Zero False]\<rparr>,
       \<lparr>dtype = kFloat64, shape = [1, 3], data = [Num (-1), Zero False, Zero False]\<rparr>,
       \<lparr>dtype = kFloat64, shape = [1, 3], data = [Num 1, Zero False, Zero False]\<rparr>))"
proof -
  from BackwardOp_gradients[OF ex_bwd_valid, of ieee_exact "Num 4"]
  have "GenericBatchNormBackwardOp ieee_exact ex_x (ex_gamma\<lparr>shape := [1, 3]\<rparr>) ex_gout (Num 4) [0]
     (EmptyLike ieee_exact ex_x) (EmptyLike ieee_exact (ex_gamma\<lparr>shape := [1, 3]\<rparr>))
     (Empty ieee_exact [1, 3] kFloat64) (Some (Some ex_state)) =
     (None, (cast_into ieee_exact (spec_bwd_gx ieee_exact ex_x (ex_gamma\<lparr>shape := [1, 3]\<rparr>) ex_gout ex_state [0])
               (EmptyLike ieee_exact ex_x),
             cast_into ieee_exact (spec_bwd_ggamma ieee_exact ex_x ex_gout ex_state [0])
               (EmptyLike ieee_exact (ex_gamma\<lparr>shape := [1, 3]\<rparr>)),
             cast_into ieee_exact (spec_bwd_gbeta ieee_exact ex_gout ex_state [0])
               (Empty ieee_exact [1, 3] kFloat64)))"
    by blast
  also have "\<dots> = (None,
      (\<lparr>dtype = kFloat32, shape = [4, 3],
        data = [Num (1/6), Zero False, Zero False, Num (-1/9), Zero False, Zero False,
                Num (-1/18), Zero False, Zero False, Zero False, Zero False, Zero False]\<rparr>,
       \<lparr>dtype = kFloat64, shape = [1, 3], data = [Num (-1), Zero False, Zero False]\<rparr>,
       \<lparr>dtype = kFloat64, shape = [1, 3], data = [Num 1, Zero False, Zero False]\<rparr>))"
    unfolding ex_gx ex_ggamma ex_gbeta
    by (simp add: cast_into_def EmptyLike_def Empty_def ex_defs ieee_exact_def)
  finally show ?thesis using ex_bwd_valid by simp
qed

subsection \<open>The second-order backward\<close>

lemma AsType_same [simp]: "dtype a = d \<Longrightarrow> AsType K a d = a"
  by (simp add: AsType_def)

lemma cast_if_differs_eq: "cast_if_differs K a d = AsType K a d"
  by (simp add: cast_if_differs_def AsType_def)

lemma ArrayOrZeros_eq:
  "ArrayOrZeros K g template d = upstream_or_zeros K g (shape template) d"
  by (cases g) (simp_all add: ArrayOrZeros_def upstream_or_zeros_def AsType_def)

lemma upstream_or_zeros_simps [simp]:
  "dtype (upstream_or_zeros K g s d) = d"
  "(case g of None \<Rightarrow> True | Some a \<Rightarrow> shape a = s) \<Longrightarrow> shape (upstream_or_zeros K g s d) = s"
  by (cases g; simp add: upstream_or_zeros_def)+

lemma sum_arr_simps [simp]:
  "dtype (sum_arr K a axis) = dtype a" "shape (sum_arr K a axis) = ReduceShape (shape a) axis"
  by (simp_all add: sum_arr_def)

lemma Sum_ok [simp]: "axes_ok axes (length (shape a)) \<Longrightarrow> Sum K a axes = Inr (sum_arr K a axes)"
  by (simp add: sum_arr_def)

lemma double_backward_ok:
  assumes "dbl_valid x gamma gout axis ggx_opt gggamma_opt ggbeta_opt gx ggamma"
  shows "BatchNorm_double_backward K x gamma gout eps axis ggx_opt gggamma_opt ggbeta_opt gx ggamma =
     Inr (spec_double_backward K x gamma gout eps axis ggx_opt gggamma_opt ggbeta_opt gx ggamma)"
proof -
  from assms have ax: "axes_ok axis (length (shape x))"
    and sh: "shape gamma = ReduceShape (shape x) axis" "shape gout = shape x"
      "shape gx = shape x" "shape ggamma = ReduceShape (shape x) axis"
    and og: "case ggx_opt of None \<Rightarrow> True | Some a \<Rightarrow> shape a = shape x"
      "case gggamma_opt of None \<Rightarrow> True | Some a \<Rightarrow> shape a = ReduceShape (shape x) axis"
      "case ggbeta_opt of None \<Rightarrow> True | Some a \<Rightarrow> shape a = ReduceShape (shape x) axis"
    and nz: "GetTotalSize gamma \<noteq> 0"
    by (simp_all add: dbl_valid_def ndim_def)
  have nz': "GetTotalSize (AsType K gamma d) \<noteq> 0" for d
    using nz by (simp add: GetTotalSize_def)
  have n: "spec_n (AsType K x d) (AsType K gamma d) = spec_n x gamma" for d
    by (simp add: spec_n_def GetTotalSize_def)
  show ?thesis
    unfolding BatchNorm_double_backward_def spec_double_backward_def Let_def ArrayOrZeros_eq
      cast_if_differs_eq dbl_interm_dtype_def
    using ax sh og
    by (simp add: size_quotient_ok[OF nz'] n spec_inv_n_def del: ResultType.simps Sum_ok reduction_ok
        add: Sum_ok reduction_ok(2,3))
qed

lemma ex_dbl_valid:
  "dbl_valid ex_x (ex_gamma\<lparr>shape := [1, 3]\<rparr>) ex_gout [0] (Some ex_gout) None None ex_gx ex_ggamma"
  by (simp add: dbl_valid_def all_floating_def ex_defs ex_gout_def ex_gx_def ex_ggamma_def
      ReduceShape_def GetTotalSize_def axes_ok_def ndim_def)

lemma spec_double_backward_shapes:
  assumes "dbl_valid x gamma gout axis ggx_opt gggamma_opt ggbeta_opt gx ggamma"
  shows "dtype (fst (spec_double_backward K x gamma gout eps axis ggx_opt gggamma_opt ggbeta_opt
                       gx ggamma)) = dtype x"
    "shape (fst (spec_double_backward K x gamma gout eps axis ggx_opt gggamma_opt ggbeta_opt
                       gx ggamma)) = shape x"
    "dtype (fst (snd (spec_double_backward K x gamma gout eps axis ggx_opt gggamma_opt ggbeta_opt
                       gx ggamma))) = dtype gamma"
    "shape (fst (snd (spec_double_backward K x gamma gout eps axis ggx_opt gggamma_opt ggbeta_opt
                       gx ggamma))) = shape gamma"
    "dtype (snd (snd (spec_double_backward K x gamma gout eps axis ggx_opt gggamma_opt ggbeta_opt
                       gx ggamma))) = dtype gout"
    "shape (snd (snd (spec_double_backward K x gamma gout eps axis ggx_opt gggamma_opt ggbeta_opt
                       gx ggamma))) = shape gout"
proof -
  from assms have sh: "shape gamma = ReduceShape (shape x) axis" "shape gout = shape x"
      "shape gx = shape x" "shape ggamma = ReduceShape (shape x) axis"
    and og: "case ggx_opt of None \<Rightarrow> True | Some a \<Rightarrow> shape a = shape x"
      "case gggamma_opt of None \<Rightarrow> True | Some a \<Rightarrow> shape a = ReduceShape (shape x) axis"
      "case ggbeta_opt of None \<Rightarrow> True | Some a \<Rightarrow> shape a = ReduceShape (shape x) axis"
    by (simp_all add: dbl_valid_def)
  show "dtype (fst (spec_double_backward K x gamma gout eps axis ggx_opt gggamma_opt ggbeta_opt
                       gx ggamma)) = dtype x"
    "dtype (fst (snd (spec_double_backward K x gamma gout eps axis ggx_opt gggamma_opt ggbeta_opt
                       gx ggamma))) = dtype gamma"
    "dtype (snd (snd (spec_double_backward K x gamma gout eps axis ggx_opt gggamma_opt ggbeta_opt
                       gx ggamma))) = dtype gout"
    unfolding spec_double_backward_def Let_def by (simp_all only: fst_conv snd_conv AsType_simps)
  show "shape (fst (spec_double_backward K x gamma gout eps axis ggx_opt gggamma_opt ggbeta_opt
                       gx ggamma)) = shape x"
    "shape (fst (snd (spec_double_backward K x gamma gout eps axis ggx_opt gggamma_opt ggbeta_opt
                       gx ggamma))) = shape gamma"
    "shape (snd (snd (spec_double_backward K x gamma gout eps axis ggx_opt gggamma_opt ggbeta_opt
                       gx ggamma))) = shape gout"
    unfolding spec_double_backward_def Let_def fst_conv snd_conv
    using sh og by simp_all
qed

lemma bind_err_InrE:
  assumes "bind_err m f = Inr v"
  obtains u where "m = Inr u" "f u = Inr v"
  using assms by (cases m) simp_all

lemma double_backward_Inr:
  assumes "BatchNorm_double_backward K x gamma gout eps axis ggx_opt gggamma_opt ggbeta_opt
             gx ggamma = Inr res"
  shows "res = spec_double_backward K x gamma gout eps axis ggx_opt gggamma_opt ggbeta_opt
                 gx ggamma"
proof -
  have n: "spec_n (AsType K x d) (AsType K gamma d) = spec_n x gamma" for d
    by (simp add: spec_n_def GetTotalSize_def)
  show ?thesis
    using assms
    unfolding BatchNorm_double_backward_def Let_def ArrayOrZeros_eq cast_if_differs_eq
    apply (elim bind_err_InrE)
    apply (drule reduction_Inr binary_Inr size_quotient_Inr)+
    apply (simp only: sum.inject)
    apply (hypsubst_thin)
    apply (simp add: spec_double_backward_def Let_def dbl_interm_dtype_def n spec_inv_n_def
        del: ResultType.simps)
    done
qed

text \<open>
  Claim C4. Whatever a second-order backward invocation returns is, for the
  input-gradient slots of \<open>x\<close>, \<open>gamma\<close> and \<open>gout\<close> in this order,
  \<open>gx_out = x_inv_std * gx_hat' + inv_n * (gmean' + x_hat * gstd')\<close>,
  \<open>ggamma_out = r / gamma\<close> and \<open>ggout_out = gggamma' * x_hat + ggbeta' + coeff * ggx\<close>,
  with the intermediates of \<open>spec_double_backward\<close>: statistics recomputed from the
  retained \<open>x\<close>, absent upstream gradients replaced by zeros in the intermediate dtype
  \<open>ResultType [gout, x, gamma]\<close>, \<open>coeff_m = coeff * inv_n\<close> with \<open>inv_n = 1 / n\<close>, and each
  result converted to the dtype of its input. A valid invocation raises nothing, and each
  of its results has the dtype and shape of its input.
\<close>

theorem double_backward_gradients:
  "(dbl_valid x gamma gout axis ggx_opt gggamma_opt ggbeta_opt gx ggamma \<longrightarrow>
      BatchNorm_double_backward K x gamma gout eps axis ggx_opt gggamma_opt ggbeta_opt gx ggamma =
        Inr (spec_double_backward K x gamma gout eps axis ggx_opt gggamma_opt ggbeta_opt
               gx ggamma) \<and>
      dtype (fst (spec_double_backward K x gamma gout eps axis ggx_opt gggamma_opt ggbeta_opt
                    gx ggamma)) = dtype x \<and>
      shape (fst (spec_double_backward K x gamma gout eps axis ggx_opt gggamma_opt ggbeta_opt
                    gx ggamma)) = shape x \<and>
      dtype (fst (snd (spec_double_backward K x gamma gout eps axis ggx_opt gggamma_opt
                         ggbeta_opt gx ggamma))) = dtype gamma \<and>
      shape (fst (snd (spec_double_backward K x gamma gout eps axis ggx_opt gggamma_opt
                         ggbeta_opt gx ggamma))) = shape gamma \<and>
      dtype (snd (snd (spec_double_backward K x gamma gout eps axis ggx_opt gggamma_opt
                         ggbeta_opt gx ggamma))) = dtype gout \<and>
      shape (snd (snd (spec_double_backward K x gamma gout eps axis ggx_opt gggamma_opt
                         ggbeta_opt gx ggamma))) = shape gout) \<and>
   (\<forall>res. BatchNorm_double_backward K x gamma gout eps axis ggx_opt gggamma_opt ggbeta_opt
             gx ggamma = Inr res \<longrightarrow>
          res = spec_double_backward K x gamma gout eps axis ggx_opt gggamma_opt ggbeta_opt
                  gx ggamma)"
  using double_backward_ok[of x gamma gout axis ggx_opt gggamma_opt ggbeta_opt gx ggamma K eps]
    spec_double_backward_shapes[of x gamma gout axis ggx_opt gggamma_opt ggbeta_opt gx ggamma K eps]
    double_backward_Inr[of K x gamma gout eps axis ggx_opt gggamma_opt ggbeta_opt gx ggamma]
  by blast

lemma ex_double_backward_ggamma:
  "fst (snd (spec_double_backward ieee_exact ex_x (ex_gamma\<lparr>shape := [1, 3]\<rparr>) ex_gout (Num 4) [0]
               (Some ex_gout) None None ex_gx ex_ggamma)) =
     \<lparr>dtype = kFloat64, shape = [1, 3], data = [Num (1/6), Zero False, Zero False]\<rparr>"
  unfolding spec_double_backward_def Let_def fst_conv snd_conv
  by (simp add: dbl_interm_dtype_def upstream_or_zeros_def sum_arr_def reduce_cells_def
      ex_defs ex_gout_def ex_gx_def ex_ggamma_def eval_defs red_4_3 cells_4_3 upt3 f_sum_def
      PromoteTypes_def)

theorem double_backward_gradients_witness:
  "dbl_valid ex_x (ex_gamma\<lparr>shape := [1, 3]\<rparr>) ex_gout [0] (Some ex_gout) None None ex_gx ex_ggamma \<and>
   BatchNorm_double_backward ieee_exact ex_x (ex_gamma\<lparr>shape := [1, 3]\<rparr>) ex_gout (Num 4) [0]
       (Some ex_gout) None None ex_gx ex_ggamma =
     Inr (spec_double_backward ieee_exact ex_x (ex_gamma\<lparr>shape := [1, 3]\<rparr>) ex_gout (Num 4) [0]
            (Some ex_gout) None None ex_gx ex_ggamma) \<and>
   fst (snd (spec_double_backward ieee_exact ex_x (ex_gamma\<lparr>shape := [1, 3]\<rparr>) ex_gout (Num 4) [0]
               (Some ex_gout) None None ex_gx ex_ggamma)) =
     \<lparr>dtype = kFloat64, shape = [1, 3], data = [Num (1/6), Zero False, Zero False]\<rparr>"
  using double_backward_gradients[of ex_x "ex_gamma\<lparr>shape := [1, 3]\<rparr>" ex_gout "[0]"
      "Some ex_gout" None None ex_gx ex_ggamma ieee_exact "Num 4"]
    ex_dbl_valid ex_double_backward_ggamma by blast

subsection \<open>The entry points\<close>

lemma selected_axes_ok:
  "axis_selection_ok axis n \<Longrightarrow> axes_ok (selected_axes axis n) n"
  by (cases axis)
    (auto simp: axis_selection_ok_def selected_axes_def axes_ok_def resolve_axis_def)

lemma wf_array_reshape [simp]:
  "wf_array (a\<lparr>shape := s\<rparr>) \<longleftrightarrow> length (data a) = prod_list s"
  by (simp add: wf_array_def)

lemma entry_preprocess:
  assumes "entry_valid x gamma beta mean var axis"
  shows "PreprocessBatchNorm x gamma beta mean var axis =
     Inr \<lparr>res_gamma = gamma\<lparr>shape := ReduceShape (shape x) (selected_axes axis (ndim x))\<rparr>,
          res_beta = beta\<lparr>shape := ReduceShape (shape x) (selected_axes axis (ndim x))\<rparr>,
          res_mean = mean\<lparr>shape := ReduceShape (shape x) (selected_axes axis (ndim x))\<rparr>,
          res_var = var\<lparr>shape := ReduceShape (shape x) (selected_axes axis (ndim x))\<rparr>,
          res_sorted_axis = selected_axes axis (ndim x)\<rparr>"
  using assms by (simp add: entry_valid_def Preprocess_floats Let_def)

lemma fixed_interm_dtype_float:
  "all_floating [x, gamma, beta, mean, var] \<Longrightarrow>
   GetKind (fixed_interm_dtype x gamma beta mean var) = KindFloat"
  by (simp add: fixed_interm_dtype_def all_floating_def PromoteTypes_float)

text \<open>
  On valid inputs \<^verbatim>\<open>FixedBatchNorm\<close> raises nothing and returns a new array of the dtype
  and shape of \<open>x\<close>: the conversion of \<open>(x - mean) * inv_std * gamma + beta\<close>, computed in
  the result type of the five inputs. Its only effect is the array it returns.
\<close>

lemma FixedBatchNorm_ok:
  assumes "entry_valid x gamma beta mean var axis"
  shows "FixedBatchNorm K x gamma beta mean var eps axis =
     (let r = ReduceShape (shape x) (selected_axes axis (ndim x));
          interm_dtype = fixed_interm_dtype x gamma beta mean var
      in Inr (cast_into K
                (spec_out_intermediate K x (gamma\<lparr>shape := r\<rparr>) (beta\<lparr>shape := r\<rparr>)
                   (mean\<lparr>shape := r\<rparr>) (spec_inv_std K (var\<lparr>shape := r\<rparr>) eps interm_dtype)
                   interm_dtype)
                (EmptyLike K x)))"
proof -
  let ?r = "ReduceShape (shape x) (selected_axes axis (ndim x))"
  let ?d = "fixed_interm_dtype x gamma beta mean var"
  from assms have fl: "all_floating [x, gamma, beta, mean, var]" by (simp add: entry_valid_def)
  have v: "apply_bn_valid x (gamma\<lparr>shape := ?r\<rparr>) (beta\<lparr>shape := ?r\<rparr>) (mean\<lparr>shape := ?r\<rparr>)
             (var\<lparr>shape := ?r\<rparr>) (selected_axes axis (ndim x)) (EmptyLike K x) ?d"
    using assms fixed_interm_dtype_float[OF fl] selected_axes_ok[of axis "ndim x"]
    by (simp add: entry_valid_def apply_bn_valid_def all_floating_def GetTotalSize_def wf_array_def)
  show ?thesis
    unfolding FixedBatchNorm_def entry_preprocess[OF assms] bind_err_simps Let_def
      GenericFixedBatchNormForwardOp_def
    using ApplyBatchNorm_ok[OF v, of K eps]
    by (simp add: fixed_interm_dtype_def del: ResultType.simps)
qed

text \<open>
  On valid inputs with a reduced size other than 0 \<^verbatim>\<open>BatchNorm\<close> raises nothing; the
  caller's running statistics keep their shape and receive the updated elements, and the
  state is captured.
\<close>

lemma BatchNorm_ok:
  assumes "entry_valid x gamma beta running_mean running_var axis"
    and "prod_list (ReduceShape (shape x) (selected_axes axis (ndim x))) \<noteq> 0"
  shows "BatchNorm K x gamma beta running_mean running_var eps decay axis =
     (let sorted_axis = selected_axes axis (ndim x);
          r = ReduceShape (shape x) sorted_axis;
          interm_dtype = fwd_interm_dtype x gamma beta;
          x_mean = spec_x_mean K x sorted_axis interm_dtype;
          x_var = spec_x_var K x sorted_axis interm_dtype;
          x_inv_std = spec_inv_std K x_var eps interm_dtype
      in \<lparr>bn_result =
            Inr (cast_into K (spec_out_intermediate K x (gamma\<lparr>shape := r\<rparr>) (beta\<lparr>shape := r\<rparr>)
                                x_mean x_inv_std interm_dtype) (EmptyLike K x)),
          bn_running_mean =
            running_mean\<lparr>data := data (spec_running_update K (running_mean\<lparr>shape := r\<rparr>) decay
                                          (MultiplyAS K x_mean (spec_inv_decay K decay)))\<rparr>,
          bn_running_var =
            running_var\<lparr>data := data (spec_running_update K (running_var\<lparr>shape := r\<rparr>) decay
                                         (MultiplyAS K x_var
                                            (k_mul K kFloat64 (spec_inv_decay K decay)
                                               (spec_adjust K (spec_n x (gamma\<lparr>shape := r\<rparr>))))))\<rparr>,
          bn_state = Some \<lparr>st_x_mean = x_mean, st_x_inv_std = x_inv_std\<rparr>\<rparr>)"
proof -
  let ?r = "ReduceShape (shape x) (selected_axes axis (ndim x))"
  have v: "fwd_valid x (gamma\<lparr>shape := ?r\<rparr>) (beta\<lparr>shape := ?r\<rparr>) (running_mean\<lparr>shape := ?r\<rparr>)
             (running_var\<lparr>shape := ?r\<rparr>) (selected_axes axis (ndim x)) (EmptyLike K x)"
    using assms selected_axes_ok[of axis "ndim x"]
    by (simp add: entry_valid_def fwd_valid_def all_floating_def GetTotalSize_def wf_array_def)
  have i: "fwd_interm_dtype x (gamma\<lparr>shape := ?r\<rparr>) (beta\<lparr>shape := ?r\<rparr>) = fwd_interm_dtype x gamma beta"
    by (simp add: fwd_interm_dtype_def)
  show ?thesis
    unfolding BatchNorm_def entry_preprocess[OF assms(1)]
    by (simp add: ForwardOp_ok[OF v] Let_def i)
qed

lemma ex_entry_valid:
  "entry_valid ex_x ex_gamma ex_beta ex_running_mean ex_running_var None"
  by (simp add: entry_valid_def all_floating_def wf_array_def ex_defs axis_selection_ok_def
      selected_axes_def ndim_def ReduceShape_def GetTotalSize_def)

text \<open>
  The first scenario of the specification with \<open>eps = 4\<close>, so that \<open>sqrt(var + eps) = 3\<close>:
  the normalized output, \<open>running_mean = [0.4, 0.5, 0.6]\<close> and
  \<open>running_var = 0.9 + 0.1 * (4/3) * 5\<close>.
\<close>

lemma ex_BatchNorm:
  "BatchNorm ieee_exact ex_x ex_gamma ex_beta ex_running_mean ex_running_var (Num 4) (Num (9/10)) None =
     \<lparr>bn_result = Inr \<lparr>dtype = kFloat32, shape = [4, 3],
           data = [Num (-1), Num (-1), Num (-1), Num (-1/3), Num (-1/3), Num (-1/3),
                   Num (1/3), Num (1/3), Num (1/3), Num 1, Num 1, Num 1]\<rparr>,
      bn_running_mean = \<lparr>dtype = kFloat32, shape = [3], data = [Num (2/5), Num (1/2), Num (3/5)]\<rparr>,
      bn_running_var = \<lparr>dtype = kFloat32, shape = [3], data = [Num (47/30), Num (47/30), Num (47/30)]\<rparr>,
      bn_state = Some \<lparr>st_x_mean = \<lparr>dtype = kFloat64, shape = [1, 3], data = [Num 4, Num 5, Num 6]\<rparr>,
                 st_x_inv_std = \<lparr>dtype = kFloat64, shape = [1, 3],
                                 data = [Num (1/3), Num (1/3), Num (1/3)]\<rparr>\<rparr>\<rparr>"
proof -
  have nz: "prod_list (ReduceShape (shape ex_x) (selected_axes None (ndim ex_x))) \<noteq> 0"
    by (simp add: selected_axes_def ex_x_def ReduceShape_def)
  have a: "selected_axes None (ndim ex_x) = [0]" by (simp add: selected_axes_def)
  have r: "ReduceShape (shape ex_x) [0] = [1, 3]" by (simp add: ex_x_def ReduceShape_def)
  have i: "fwd_interm_dtype ex_x ex_gamma ex_beta = kFloat64"
    by (simp add: fwd_interm_dtype_def ex_defs PromoteTypes_def)
  have n: "spec_n ex_x (ex_gamma\<lparr>shape := [1, 3]\<rparr>) = 4"
    by (simp add: spec_n_def GetTotalSize_def ex_defs)
  show ?thesis
    unfolding BatchNorm_ok[OF ex_entry_valid nz] Let_def a r i n ex_x_mean ex_x_var
    by (simp add: spec_inv_std_def spec_out_intermediate_def spec_running_update_def
        spec_inv_decay_def spec_adjust_def ex_defs eval_defs upt3)
qed

end
